(* ===== verification/Prelude.thy ===== *)
theory Prelude
  imports Complex_Main "HOL-Library.Multiset" "HOL-Library.Sublist"
begin

text \<open>
  Shared vocabulary of the development: the types that name the script's data, the
  collections of rewrite rules the component theories fill, and generic lemmas on lists,
  sums and square roots that several components use.
\<close>

named_theorems flt_simps
  "equations that compute the IEEE operations on finite operands"
named_theorems stat_simps
  "equations that compute the descriptive statistics of a concrete sample"

text \<open>
  A sample is the \<open>.values\<close> array of one strategy: the \<open>average_shots\<close>
  column of the rows with that label, in file order. numpy holds it as a float64 array;
  the model holds exact reals (rounding is not modelled, see the root theory).
\<close>

type_synonym sample = "real list"

text \<open>The script's only natural-number constant is scipy's \<open>ddof=1\<close>; it stays the
  numeral \<open>1\<close> in goals rather than \<open>Suc 0\<close>, so that rules stated for \<open>ddof = 1\<close>
  apply.\<close>

declare One_nat_def [simp del]

subsection \<open>Sums over lists\<close>

lemma sum_list_map_const [simp]: "sum_list (map (\<lambda>_. c) xs) = of_nat (length xs) * (c::real)"
  by (induction xs) (auto simp: algebra_simps)

lemma sum_list_map_add: "sum_list (map (\<lambda>x. f x + g x) xs) = sum_list (map f xs) + sum_list (map g xs :: real list)"
  by (induction xs) auto

lemma sum_list_map_diff: "sum_list (map (\<lambda>x. f x - g x) xs) = sum_list (map f xs) - sum_list (map g xs :: real list)"
  by (induction xs) auto

lemma sum_list_map_cmult: "sum_list (map (\<lambda>x. c * f x) xs) = c * sum_list (map f xs :: real list)"
  by (induction xs) (auto simp: algebra_simps)

lemma sum_list_nonneg_map: "(\<And>x. x \<in> set xs \<Longrightarrow> 0 \<le> f x) \<Longrightarrow> 0 \<le> sum_list (map f xs :: real list)"
  by (induction xs) auto

lemma sum_list_mono_map:
  "(\<And>x. x \<in> set xs \<Longrightarrow> f x \<le> g x) \<Longrightarrow> sum_list (map f xs) \<le> sum_list (map g xs :: real list)"
  by (induction xs) (auto intro: add_mono)

lemma sum_list_pos_map:
  "x \<in> set xs \<Longrightarrow> 0 < f x \<Longrightarrow> (\<And>y. y \<in> set xs \<Longrightarrow> 0 \<le> f y) \<Longrightarrow> 0 < sum_list (map f xs :: real list)"
proof (induction xs)
  case Nil
  then show ?case by simp
next
  case (Cons a xs)
  show ?case
  proof (cases "x = a")
    case True
    with Cons.prems have "0 \<le> sum_list (map f xs)" by (auto intro: sum_list_nonneg_map)
    with True Cons.prems(2) show ?thesis by simp
  next
    case False
    with Cons have "0 < sum_list (map f xs)" by auto
    with Cons.prems(3) show ?thesis by (simp add: add_nonneg_pos)
  qed
qed

lemma sum_list_map_eq_0_iff:
  "(\<And>x. x \<in> set xs \<Longrightarrow> 0 \<le> f x) \<Longrightarrow> sum_list (map f xs :: real list) = 0 \<longleftrightarrow> (\<forall>x\<in>set xs. f x = 0)"
  by (induction xs) (auto simp: add_nonneg_eq_0_iff sum_list_nonneg_map)

subsection \<open>Square roots\<close>

lemma sqrt_eq_numeral_frac: "0 \<le> y \<Longrightarrow> y * y = x \<Longrightarrow> sqrt x = (y::real)"
  by (rule real_sqrt_unique) (simp_all add: power2_eq_square)

lemma sort_eq_Nil_iff [simp]: "sort xs = [] \<longleftrightarrow> xs = []"
  by (metis length_0_conv length_sort)

text \<open>Bounds on \<open>1 - a / b\<close> from bounds on \<open>a\<close> and \<open>b\<close>.\<close>

lemma one_minus_div_bounds:
  fixes a b :: real
  assumes "0 < bl" "bl \<le> b" "b \<le> bu" "0 \<le> al" "al \<le> a" "a \<le> au"
  shows "1 - au / bl \<le> 1 - a / b" and "1 - a / b \<le> 1 - al / bu"
proof -
  have "a / b \<le> au / bl" using assms by (intro frac_le) simp_all
  then show "1 - au / bl \<le> 1 - a / b" by simp
  have "al / bu \<le> a / b" using assms by (intro frac_le) simp_all
  then show "1 - a / b \<le> 1 - al / bu" by simp
qed

end
