(* ===== verification/Float.thy ===== *)
theory Float
  imports Prelude
begin

text \<open>
  The values numpy and scipy compute with in \<^verbatim>\<open>src/visualize.py\<close>: float64 numbers with
  IEEE 754 special values. The model keeps the special values (the two infinities and NaN)
  and the rules by which they arise and propagate, and computes exactly on the finite
  values: a finite float is a real, and rounding is not modelled. Signed zero is not
  modelled either: every zero is \<open>+0\<close>, which is what the script's divisors are
  (counts, and square roots, which return \<open>+0\<close>).
\<close>

datatype flt = Fin real | PInf | NInf | NaN

text \<open>The sign of a value that is not NaN; the sign of NaN is never used.\<close>

fun fsign :: "flt \<Rightarrow> real" where
  "fsign (Fin x) = sgn x"
| "fsign PInf = 1"
| "fsign NInf = -1"
| "fsign NaN = 0"

definition inf_of_sign :: "real \<Rightarrow> flt" where
  "inf_of_sign s = (if 0 < s then PInf else NInf)"

fun fneg :: "flt \<Rightarrow> flt" where
  "fneg (Fin x) = Fin (- x)"
| "fneg PInf = NInf"
| "fneg NInf = PInf"
| "fneg NaN = NaN"

text \<open>IEEE addition: NaN absorbs, opposite infinities give NaN, an infinity absorbs a finite value.\<close>

fun fadd :: "flt \<Rightarrow> flt \<Rightarrow> flt" where
  "fadd NaN b = NaN"
| "fadd a NaN = NaN"
| "fadd (Fin x) (Fin y) = Fin (x + y)"
| "fadd PInf NInf = NaN"
| "fadd NInf PInf = NaN"
| "fadd PInf b = PInf"
| "fadd NInf b = NInf"
| "fadd a PInf = PInf"
| "fadd a NInf = NInf"

definition fsub :: "flt \<Rightarrow> flt \<Rightarrow> flt" where
  "fsub a b = fadd a (fneg b)"

text \<open>IEEE multiplication: an infinity times zero is NaN, otherwise the signs multiply.\<close>

fun fmul :: "flt \<Rightarrow> flt \<Rightarrow> flt" where
  "fmul NaN b = NaN"
| "fmul a NaN = NaN"
| "fmul (Fin x) (Fin y) = Fin (x * y)"
| "fmul a b = (if fsign a * fsign b = 0 then NaN else inf_of_sign (fsign a * fsign b))"

text \<open>
  IEEE division: \<open>x / 0\<close> is an infinity of the sign of \<open>x\<close> and \<open>0 / 0\<close> is NaN
  (numpy's \<open>divide\<close> and \<open>true_divide\<close> only warn); a finite value over an infinity is
  zero; an infinity over an infinity is NaN.
\<close>

fun fdiv :: "flt \<Rightarrow> flt \<Rightarrow> flt" where
  "fdiv NaN b = NaN"
| "fdiv a NaN = NaN"
| "fdiv (Fin x) (Fin y) =
     (if y \<noteq> 0 then Fin (x / y) else if x = 0 then NaN else inf_of_sign x)"
| "fdiv (Fin x) b = Fin 0"
| "fdiv a (Fin y) = (if y < 0 then fneg a else a)"
| "fdiv a b = NaN"

text \<open>numpy's \<open>sqrt\<close>: NaN below zero, \<open>sqrt(inf) = inf\<close>.\<close>

fun fsqrt :: "flt \<Rightarrow> flt" where
  "fsqrt (Fin x) = (if x < 0 then NaN else Fin (sqrt x))"
| "fsqrt PInf = PInf"
| "fsqrt NInf = NaN"
| "fsqrt NaN = NaN"

fun fabs :: "flt \<Rightarrow> flt" where
  "fabs (Fin x) = Fin \<bar>x\<bar>"
| "fabs PInf = PInf"
| "fabs NInf = PInf"
| "fabs NaN = NaN"

text \<open>\<open>umr_sum\<close> (numpy's \<open>add.reduce\<close>) over an array: IEEE addition from \<open>0.0\<close>.\<close>

definition fsum :: "flt list \<Rightarrow> flt" where
  "fsum xs = foldl fadd (Fin 0) xs"

text \<open>IEEE \<open><=\<close>: false as soon as one side is NaN, infinities at the ends.\<close>

fun fle :: "flt \<Rightarrow> flt \<Rightarrow> bool" where
  "fle NaN b = False"
| "fle a NaN = False"
| "fle (Fin x) (Fin y) = (x \<le> y)"
| "fle NInf b = True"
| "fle a PInf = True"
| "fle a b = False"

subsection \<open>Finite operands\<close>

lemma fsub_Fin [simp, flt_simps]: "fsub (Fin x) (Fin y) = Fin (x - y)"
  by (simp add: fsub_def)

lemma fdiv_Fin_nz [simp, flt_simps]: "y \<noteq> 0 \<Longrightarrow> fdiv (Fin x) (Fin y) = Fin (x / y)"
  by simp

lemma fsqrt_Fin_nonneg [simp, flt_simps]: "0 \<le> x \<Longrightarrow> fsqrt (Fin x) = Fin (sqrt x)"
  by simp

lemma fdiv_zero_zero [simp]: "fdiv (Fin 0) (Fin 0) = NaN"
  by simp

lemma fdiv_by_zero: "x \<noteq> 0 \<Longrightarrow> fdiv (Fin x) (Fin 0) = (if 0 < x then PInf else NInf)"
  by (simp add: inf_of_sign_def)

lemma fsum_Fin_acc: "foldl fadd (Fin a) (map Fin xs) = Fin (a + sum_list xs)"
  by (induction xs arbitrary: a) (auto simp: algebra_simps)

lemma fsum_map_Fin [simp, flt_simps]: "fsum (map Fin xs) = Fin (sum_list xs)"
  by (simp add: fsum_def fsum_Fin_acc)

lemma fsum_map_Fin_fun [simp, flt_simps]: "fsum (map (\<lambda>x. Fin (f x)) xs) = Fin (sum_list (map f xs))"
  using fsum_map_Fin [of "map f xs"] by (simp add: comp_def)

subsection \<open>NaN propagates\<close>

lemma fadd_NaN_right [simp]: "fadd a NaN = NaN"
  by (cases a) auto

lemma fmul_NaN_right [simp]: "fmul a NaN = NaN"
  by (cases a) auto

lemma fdiv_NaN_right [simp]: "fdiv a NaN = NaN"
  by (cases a) auto

lemma fsub_NaN [simp]: "fsub NaN b = NaN" "fsub a NaN = NaN"
  by (simp_all add: fsub_def)

lemma fsum_NaN_acc: "foldl fadd NaN xs = NaN"
  by (induction xs) auto

lemma fsum_NaN: "NaN \<in> set xs \<Longrightarrow> fsum xs = NaN"
proof -
  have "NaN \<in> set xs \<Longrightarrow> foldl fadd a xs = NaN" for a
  proof (induction xs arbitrary: a)
    case Nil
    then show ?case by simp
  next
    case (Cons y ys)
    then show ?case by (auto simp: fsum_NaN_acc)
  qed
  then show "NaN \<in> set xs \<Longrightarrow> fsum xs = NaN" by (simp add: fsum_def)
qed

subsection \<open>Algebra of the special values\<close>

lemma fneg_fneg [simp]: "fneg (fneg a) = a"
  by (cases a) auto

lemma fadd_comm: "fadd a b = fadd b a"
  by (cases a; cases b) auto

lemma fmul_comm: "fmul a b = fmul b a"
  by (cases a; cases b) (auto simp: mult.commute)

lemma fsign_fneg: "fsign (fneg a) = - fsign a"
  by (cases a) (auto simp: sgn_minus)

lemma fneg_inf_of_sign: "s \<noteq> 0 \<Longrightarrow> fneg (inf_of_sign s) = inf_of_sign (- s)"
  by (auto simp: inf_of_sign_def)

lemma fneg_fadd: "fneg (fadd a b) = fadd (fneg a) (fneg b)"
  by (cases a; cases b) auto

lemma fsub_antisym: "fsub b a = fneg (fsub a b)"
  by (simp add: fsub_def fneg_fadd fadd_comm)

lemma fdiv_fneg_left: "fdiv (fneg a) b = fneg (fdiv a b)"
proof (cases a)
  case (Fin x)
  then show ?thesis
    by (cases b) (auto simp: inf_of_sign_def)
qed (cases b; auto)+

lemma fabs_fneg [simp]: "fabs (fneg a) = fabs a"
  by (cases a) auto

lemma fabs_cases: "fabs a = NaN \<or> fabs a = PInf \<or> (\<exists>x\<ge>0. fabs a = Fin x)"
  by (cases a) auto

end
