(* ===== verification/Numpy.thy ===== *)
theory Numpy
  imports Float
begin

text \<open>
  The numpy reductions the script calls on each sample (\<^verbatim>\<open>src/visualize.py\<close> lines 15
  and 16): \<open>np.mean\<close> and \<open>np.std\<close>, with \<open>np.var\<close> under \<open>np.std\<close>, as
  numpy's \<open>_methods._mean\<close> and \<open>_methods._var\<close> compute them: an IEEE sum divided by
  the element count. Beside them stand the exact statistics of a finite real sample
  (\<open>mean\<close>, \<open>sq_dev\<close>, \<open>pvar\<close>, \<open>pstd\<close>); the refinement lemmas say that numpy
  computes these on every non-empty sample, and which special value it returns otherwise.
\<close>

subsection \<open>numpy's reductions\<close>

text \<open>\<open>_mean\<close>: \<open>ret = umr_sum(arr); ret = ret / rcount\<close>.\<close>

definition fmean :: "flt list \<Rightarrow> flt" where
  "fmean xs = fdiv (fsum xs) (Fin (of_nat (length xs)))"

definition np_mean :: "sample \<Rightarrow> flt" where
  "np_mean a = fmean (map Fin a)"

text \<open>
  \<open>_var\<close>: the mean, the deviations \<open>x = arr - arrmean\<close>, their squares
  \<open>x = umr_multiply(x, x)\<close>, their sum divided by \<open>max(rcount - ddof, 0)\<close>.
\<close>

definition np_var :: "nat \<Rightarrow> sample \<Rightarrow> flt" where
  "np_var ddof a =
     (let arrmean = np_mean a;
          x = map (\<lambda>v. fsub (Fin v) arrmean) a;
          x = map (\<lambda>d. fmul d d) x;
          rcount = length a - ddof
      in fdiv (fsum x) (Fin (of_nat rcount)))"

text \<open>\<open>_std\<close>: \<open>ret = _var(...); ret = um.sqrt(ret)\<close>.\<close>

definition np_std :: "nat \<Rightarrow> sample \<Rightarrow> flt" where
  "np_std ddof a = fsqrt (np_var ddof a)"

subsection \<open>The exact statistics of a sample\<close>

definition mean :: "sample \<Rightarrow> real" where
  "mean a = sum_list a / of_nat (length a)"

definition sq_dev :: "sample \<Rightarrow> real" where
  "sq_dev a = sum_list (map (\<lambda>x. (x - mean a)\<^sup>2) a)"

definition pvar :: "sample \<Rightarrow> real" where
  "pvar a = sq_dev a / of_nat (length a)"

definition pstd :: "sample \<Rightarrow> real" where
  "pstd a = sqrt (pvar a)"

subsection \<open>Algebra of the exact statistics\<close>

lemma sq_dev_nonneg [simp]: "0 \<le> sq_dev a"
  by (simp add: sq_dev_def sum_list_nonneg_map)

lemma pvar_nonneg [simp]: "0 \<le> pvar a"
  by (simp add: pvar_def)

lemma pstd_nonneg [simp]: "0 \<le> pstd a"
  by (simp add: pstd_def)

lemma sum_list_sub_mean: "sum_list (map (\<lambda>x. x - mean a) a) = 0"
proof (cases "a = []")
  case False
  then have "of_nat (length a) * (sum_list a / of_nat (length a)) = sum_list a"
    by simp
  then show ?thesis by (simp add: sum_list_map_diff mean_def)
qed simp

lemma mean_Cons_Nil [simp]: "mean [x] = x"
  by (simp add: mean_def)

lemma sum_list_mean: "sum_list a = of_nat (length a) * mean a"
  by (cases "a = []") (simp_all add: mean_def)

text \<open>The squared distance to any point splits into the squared deviation and the
  squared distance of the mean: the identity behind the variance bounds.\<close>

lemma sq_shift_pointwise:
  "(x - c)\<^sup>2 = (x - m)\<^sup>2 + 2 * (m - c) * (x - m) + (m - c)\<^sup>2" for x c m :: real
  by (simp add: power2_eq_square algebra_simps)

lemma sum_sq_shift:
  "sum_list (map (\<lambda>x. (x - c)\<^sup>2) a) = sq_dev a + of_nat (length a) * (mean a - c)\<^sup>2"
proof -
  let ?m = "mean a"
  have "map (\<lambda>x. (x - c)\<^sup>2) a = map (\<lambda>x. ((x - ?m)\<^sup>2 + 2 * (?m - c) * (x - ?m)) + (?m - c)\<^sup>2) a"
    by (rule map_cong) (simp_all only: sq_shift_pointwise)
  then have "sum_list (map (\<lambda>x. (x - c)\<^sup>2) a)
      = sq_dev a + 2 * (?m - c) * sum_list (map (\<lambda>x. x - ?m) a) + of_nat (length a) * (?m - c)\<^sup>2"
    by (simp only: sum_list_map_add sum_list_map_cmult sum_list_map_const sq_dev_def)
  then show ?thesis by (simp add: sum_list_sub_mean)
qed

lemma sq_dev_le_shift: "sq_dev a \<le> sum_list (map (\<lambda>x. (x - c)\<^sup>2) a)"
  by (simp add: sum_sq_shift)

lemma sq_dev_eq_0_iff: "sq_dev a = 0 \<longleftrightarrow> (\<forall>x\<in>set a. x = mean a)"
  unfolding sq_dev_def by (subst sum_list_map_eq_0_iff) auto

lemma sq_dev_const: "(\<forall>x\<in>set a. x = c) \<Longrightarrow> sq_dev a = 0"
proof -
  assume "\<forall>x\<in>set a. x = c"
  then have "sum_list (map (\<lambda>x. (x - c)\<^sup>2) a) = 0"
    by (subst sum_list_map_eq_0_iff) auto
  then have "sq_dev a \<le> 0"
    using sq_dev_le_shift [of a c] by simp
  then show "sq_dev a = 0" by (simp add: order_antisym)
qed

lemma mean_shift: "a \<noteq> [] \<Longrightarrow> mean (map (\<lambda>x. x + c) a) = mean a + c"
  by (simp add: mean_def sum_list_map_add add_divide_distrib)

lemma sq_dev_shift: "sq_dev (map (\<lambda>x. x + c) a) = sq_dev a"
  by (cases "a = []") (simp_all add: sq_dev_def mean_shift comp_def)

lemma mean_bounds:
  assumes "a \<noteq> []"
  shows "Min (set a) \<le> mean a \<and> mean a \<le> Max (set a)"
proof -
  have n: "0 < real (length a)" using assms by simp
  have "sum_list (map (\<lambda>_. Min (set a)) a) \<le> sum_list (map (\<lambda>x. x) a)"
    by (rule sum_list_mono_map) simp
  then have lo: "real (length a) * Min (set a) \<le> sum_list a" by simp
  have "sum_list (map (\<lambda>x. x) a) \<le> sum_list (map (\<lambda>_. Max (set a)) a)"
    by (rule sum_list_mono_map) simp
  then have hi: "sum_list a \<le> real (length a) * Max (set a)" by simp
  from lo hi n show ?thesis
    by (simp add: mean_def pos_le_divide_eq pos_divide_le_eq mult.commute)
qed

text \<open>Popoviciu's inequality: the population variance is at most a quarter of the
  squared range; hence the error bar of a bar never exceeds half the sample's range.\<close>

lemma pvar_le_range:
  assumes "a \<noteq> []"
  shows "pvar a \<le> (Max (set a) - Min (set a))\<^sup>2 / 4"
proof -
  let ?lo = "Min (set a)" and ?hi = "Max (set a)"
  let ?c = "(?hi + ?lo) / 2" and ?r = "(?hi - ?lo) / 2"
  have n: "0 < real (length a)" using assms by simp
  have "(x - ?c)\<^sup>2 \<le> ?r\<^sup>2" if "x \<in> set a" for x
  proof -
    from that have "?lo \<le> x" "x \<le> ?hi" by simp_all
    then have "x - ?c \<le> ?r" and "- (x - ?c) \<le> ?r" and "0 \<le> ?r"
      by (simp_all add: field_simps)
    then have "\<bar>x - ?c\<bar> \<le> \<bar>?r\<bar>" by (simp only: abs_of_nonneg abs_le_iff)
    then show ?thesis by (simp only: abs_le_square_iff)
  qed
  then have "sum_list (map (\<lambda>x. (x - ?c)\<^sup>2) a) \<le> sum_list (map (\<lambda>_. ?r\<^sup>2) a)"
    by (rule sum_list_mono_map)
  then have "sq_dev a \<le> real (length a) * ?r\<^sup>2"
    using sq_dev_le_shift [of a ?c] by simp
  with n have "pvar a \<le> ?r\<^sup>2"
    by (simp add: pvar_def pos_divide_le_eq mult.commute)
  then show ?thesis by (simp add: power_divide)
qed

lemma pstd_le_half_range:
  assumes "a \<noteq> []"
  shows "pstd a \<le> (Max (set a) - Min (set a)) / 2"
proof -
  have "Min (set a) \<le> Max (set a)" using assms by simp
  then have r: "sqrt ((Max (set a) - Min (set a))\<^sup>2 / 4) = (Max (set a) - Min (set a)) / 2"
    by (simp add: real_sqrt_divide)
  from pvar_le_range [OF assms] have "pstd a \<le> sqrt ((Max (set a) - Min (set a))\<^sup>2 / 4)"
    by (simp add: pstd_def)
  then show ?thesis by (simp only: r)
qed

lemma pstd_eq_0_iff: "pstd a = 0 \<longleftrightarrow> (\<forall>x\<in>set a. x = mean a)"
  by (cases "a = []") (simp_all add: pstd_def pvar_def sq_dev_eq_0_iff)

subsection \<open>numpy computes the exact statistics\<close>

lemma np_mean_Nil [simp]: "np_mean [] = NaN"
  by (simp add: np_mean_def fmean_def fsum_def)

lemma np_mean_eq [stat_simps]: "a \<noteq> [] \<Longrightarrow> np_mean a = Fin (mean a)"
  by (simp add: np_mean_def fmean_def mean_def)

lemma np_var_devs: "map (\<lambda>d. fmul d d) (map (\<lambda>v. fsub (Fin v) (Fin m)) a) = map (\<lambda>x. Fin ((x - m)\<^sup>2)) a"
  by (simp add: power2_eq_square)

lemma np_var_sum:
  assumes "a \<noteq> []"
  shows "fsum (map (\<lambda>d. fmul d d) (map (\<lambda>v. fsub (Fin v) (np_mean a)) a)) = Fin (sq_dev a)"
proof -
  from assms have "np_mean a = Fin (mean a)" by (rule np_mean_eq)
  then show ?thesis by (simp only: np_var_devs fsum_map_Fin_fun sq_dev_def)
qed

lemma np_var_eq [stat_simps]:
  assumes "ddof < length a"
  shows "np_var ddof a = Fin (sq_dev a / of_nat (length a - ddof))"
proof -
  from assms have "a \<noteq> []" by auto
  with assms show ?thesis by (simp add: np_var_def Let_def np_var_sum del: map_map)
qed

lemma np_var_Nil [simp]: "np_var ddof [] = NaN"
  by (simp add: np_var_def fsum_def)

lemma np_var_short:
  "a \<noteq> [] \<Longrightarrow> length a \<le> ddof \<Longrightarrow> np_var ddof a = (if sq_dev a = 0 then NaN else PInf)"
  by (simp add: np_var_def Let_def np_var_sum inf_of_sign_def order_less_le del: map_map)

lemma np_std_eq [stat_simps]:
  assumes "a \<noteq> []"
  shows "np_std 0 a = Fin (pstd a)"
proof -
  from assms have "np_var 0 a = Fin (pvar a)" by (simp add: np_var_eq pvar_def)
  then show ?thesis by (simp add: np_std_def pstd_def not_less)
qed

lemma np_std_Nil [simp]: "np_std ddof [] = NaN"
  by (simp add: np_std_def)

lemma sq_dev_singleton [simp]: "sq_dev [x] = 0"
  by (simp add: sq_dev_def)

subsection \<open>Properties of the reductions\<close>

text \<open>C4. On a non-empty sample, \<open>np.mean\<close> is the exact mean and \<open>np.std\<close>
  (\<open>ddof=0\<close>, as the script calls it) is the population standard deviation, the square
  root of the mean squared deviation.\<close>

theorem np_mean_std_eq:
  assumes "a \<noteq> []"
  shows "np_mean a = Fin (mean a) \<and> np_std 0 a = Fin (pstd a)"
  using assms by (simp add: np_mean_eq np_std_eq)

text \<open>C12. The error bar of a non-empty sample is finite, non-negative and at most half
  the sample's range (Popoviciu's inequality).\<close>

theorem np_std_half_range:
  assumes "a \<noteq> []"
  shows "\<exists>s. np_std 0 a = Fin s \<and> 0 \<le> s \<and> s \<le> (Max (set a) - Min (set a)) / 2"
  using assms pstd_le_half_range [OF assms] by (simp add: np_std_eq)

text \<open>C13. The bar height of a non-empty sample is finite and lies between the sample's
  least and greatest observations.\<close>

theorem np_mean_bounds:
  assumes "a \<noteq> []"
  shows "\<exists>m. np_mean a = Fin m \<and> Min (set a) \<le> m \<and> m \<le> Max (set a)"
  using mean_bounds [OF assms] assms by (simp add: np_mean_eq)

text \<open>C14. The standard deviation of a non-empty sample is zero exactly when all its
  observations are equal.\<close>

theorem np_std_zero_iff:
  assumes "a \<noteq> []"
  shows "np_std 0 a = Fin 0 \<longleftrightarrow> (\<forall>x\<in>set a. \<forall>y\<in>set a. x = y)"
proof
  assume "np_std 0 a = Fin 0"
  with assms have all_mean: "\<forall>x\<in>set a. x = mean a" by (simp add: np_std_eq pstd_eq_0_iff)
  show "\<forall>x\<in>set a. \<forall>y\<in>set a. x = y"
  proof (intro ballI)
    fix x y
    assume "x \<in> set a" "y \<in> set a"
    with all_mean have "x = mean a" and "y = mean a" by blast+
    then show "x = y" by simp
  qed
next
  assume eq: "\<forall>x\<in>set a. \<forall>y\<in>set a. x = y"
  from assms have "hd a \<in> set a" by simp
  with eq have "sq_dev a = 0" by (intro sq_dev_const [of a "hd a"]) blast
  with assms show "np_std 0 a = Fin 0" by (simp add: np_std_eq pstd_def pvar_def)
qed

text \<open> Shifting every observation by a constant leaves the standard deviation as it is,
  on every sample (NaN stays NaN).\<close>

theorem np_std_shift: "np_std 0 (map (\<lambda>x. x + c) a) = np_std 0 a"
  by (cases "a = []") (simp_all add: np_std_eq pstd_def pvar_def sq_dev_shift)

text \<open>A sample of one observation \<open>x\<close> has mean \<open>x\<close> and standard deviation 0.\<close>

theorem np_single_observation: "np_mean [x] = Fin x \<and> np_std 0 [x] = Fin 0"
  by (simp add: np_mean_eq np_std_eq pstd_def pvar_def)

end
