(* ===== verification/Partition.thy ===== *)
theory Partition
  imports Numpy
begin

text \<open>
  Lines 9 to 16 of \<^verbatim>\<open>src/visualize.py\<close>: the rows of the results table are split by
  their \<open>strategy\<close> label into three samples (\<open>df[df['strategy'] == label]
  ['average_shots'].values\<close>), and the per-strategy means and standard deviations are
  computed in the fixed order of \<open>strategies\<close>. A row is a record of the two columns
  the script reads; the table is the list of its rows in file order.
\<close>

record row =
  strategy :: string
  average_shots :: real

type_synonym frame = "row list"

text \<open>The boolean mask \<open>df['strategy'] == label\<close>, the row selection and the column
  read: rows keep their order, labels are compared as exact strings.\<close>

definition select_shots :: "frame \<Rightarrow> string \<Rightarrow> sample" where
  "select_shots df label = map average_shots (filter (\<lambda>r. strategy r = label) df)"

definition strategies :: "string list" where
  "strategies = [''Random'', ''PDF'', ''Hunt and Target'']"

record results =
  random_results :: sample
  pdf_results :: sample
  hunt_target_results :: sample

definition partition_results :: "frame \<Rightarrow> results" where
  "partition_results df =
     \<lparr>random_results = select_shots df ''Random'',
      pdf_results = select_shots df ''PDF'',
      hunt_target_results = select_shots df ''Hunt and Target''\<rparr>"

text \<open>The three samples in the order the script lists them (lines 15, 16 and 28).\<close>

definition result_samples :: "results \<Rightarrow> sample list" where
  "result_samples r = [random_results r, pdf_results r, hunt_target_results r]"

definition means :: "results \<Rightarrow> flt list" where
  "means r = [np_mean (random_results r), np_mean (pdf_results r), np_mean (hunt_target_results r)]"

definition stds :: "results \<Rightarrow> flt list" where
  "stds r = [np_std 0 (random_results r), np_std 0 (pdf_results r), np_std 0 (hunt_target_results r)]"

subsection \<open>Selection\<close>

lemma select_shots_Nil [simp]: "select_shots [] label = []"
  by (simp add: select_shots_def)

lemma select_shots_Cons [simp]:
  "select_shots (r # df) label =
     (if strategy r = label then average_shots r # select_shots df label else select_shots df label)"
  by (simp add: select_shots_def)

lemma select_shots_append: "select_shots (df1 @ df2) label = select_shots df1 label @ select_shots df2 label"
  by (simp add: select_shots_def)

lemma select_shots_empty_iff: "select_shots df label = [] \<longleftrightarrow> label \<notin> strategy ` set df"
  by (auto simp: select_shots_def filter_empty_conv)

lemma length_select_shots: "length (select_shots df label) = length (filter (\<lambda>r. strategy r = label) df)"
  by (simp add: select_shots_def)

lemma select_shots_subseq: "subseq (select_shots df label) (map average_shots df)"
  by (simp add: select_shots_def subseq_map)

lemma mset_select_shots:
  "mset (select_shots df label) = image_mset average_shots (filter_mset (\<lambda>r. strategy r = label) (mset df))"
  by (simp add: select_shots_def)

lemma distinct_strategies: "distinct strategies"
  by (simp add: strategies_def)

lemma results_samples_cases:
  "result_samples (partition_results df) = map (select_shots df) strategies"
  by (simp add: result_samples_def partition_results_def strategies_def)

lemma means_map: "means r = map np_mean (result_samples r)"
  by (simp add: means_def result_samples_def)

lemma stds_map: "stds r = map (np_std 0) (result_samples r)"
  by (simp add: stds_def result_samples_def)

text \<open>C16. Splitting loses and duplicates nothing: the three samples together hold, as a
  multiset, exactly the \<open>average_shots\<close> of the rows whose label is one of the three
  strategies; rows with any other label are dropped.\<close>

theorem partition_mset:
  "mset (random_results (partition_results df)) + mset (pdf_results (partition_results df))
     + mset (hunt_target_results (partition_results df))
   = mset (map average_shots (filter (\<lambda>r. strategy r \<in> set strategies) df))"
  by (induction df) (auto simp: partition_results_def strategies_def)

end
