(* ===== verification/TTest.thy ===== *)
theory TTest
  imports Numpy
begin

text \<open>
  \<open>scipy.stats.ttest_ind(a, b)\<close> with its defaults (\<open>equal_var=True\<close>,
  \<open>alternative='two-sided'\<close>), called three times at lines 35 to 37 of
  \<^verbatim>\<open>src/visualize.py\<close>. The model follows scipy's \<open>_stats_py\<close>: \<open>ttest_ind\<close>
  returns NaNs for an empty input, otherwise takes \<open>_var(a, ddof=1)\<close> of both samples,
  pools them in \<open>_equal_var_ttest_denom\<close>, divides the difference of the means by the
  pooled standard error in \<open>_ttest_ind_from_stats\<close> and computes the p-value in
  \<open>_ttest_finish\<close> as \<open>special.stdtr(df, -abs(t)) * 2\<close>. The Student-t
  distribution function \<open>stdtr\<close> is a parameter \<open>cdf\<close> of every operation here, and
  the lemmas that need its properties (symmetry, monotonicity) take them as hypotheses;
  \<open>StudentT\<close> defines the instance \<open>student_cdf\<close> and proves them.
\<close>

type_synonym t_cdf = "real \<Rightarrow> real \<Rightarrow> real"

record ttest_result =
  statistic :: flt
  pvalue :: flt

text \<open>\<open>_var(x, ddof)\<close>: the second central moment \<open>_moment(x, 2)\<close> (the mean of
  the squared deviations), scaled by \<open>n / (n - ddof)\<close> when \<open>ddof\<close> is not 0.\<close>

definition sp_var :: "nat \<Rightarrow> sample \<Rightarrow> flt" where
  "sp_var ddof x =
     (let n = length x;
          a_zero_mean = map (\<lambda>v. fsub (Fin v) (np_mean x)) x;
          var = fmean (map (\<lambda>d. fmul d d) a_zero_mean)
      in if ddof = 0 then var
         else fmul var (fdiv (Fin (of_nat n)) (Fin (of_int (int n - int ddof)))))"

text \<open>\<open>_equal_var_ttest_denom(v1, n1, v2, n2)\<close>: the degrees of freedom and the
  pooled standard error. As in current scipy, the variance of a sample with a single
  observation (NaN from \<open>_var(ddof=1)\<close>) is replaced by 0 before pooling
  (\<open>v1 = xp.where(n1 == 1, 0, v1)\<close>): its weight \<open>n1 - 1\<close> is 0.\<close>

definition equal_var_ttest_denom :: "flt \<Rightarrow> nat \<Rightarrow> flt \<Rightarrow> nat \<Rightarrow> real \<times> flt" where
  "equal_var_ttest_denom v1 n1 v2 n2 =
     (let v1 = (if n1 = 1 then Fin 0 else v1); v2 = (if n2 = 1 then Fin 0 else v2);
          df = of_nat n1 + of_nat n2 - 2;
          svar = fdiv (fadd (fmul (Fin (of_nat n1 - 1)) v1) (fmul (Fin (of_nat n2 - 1)) v2)) (Fin df)
      in (df, fsqrt (fmul svar (fadd (fdiv (Fin 1) (Fin (of_nat n1))) (fdiv (Fin 1) (Fin (of_nat n2)))))))"

text \<open>\<open>special.stdtr(df, t)\<close>: NaN for \<open>df \<le> 0\<close> or a NaN argument, the limits
  0 and 1 at the infinities, the distribution function elsewhere.\<close>

definition stdtr :: "t_cdf \<Rightarrow> real \<Rightarrow> flt \<Rightarrow> flt" where
  "stdtr cdf df t =
     (if df \<le> 0 then NaN
      else (case t of Fin x \<Rightarrow> Fin (cdf df x) | NInf \<Rightarrow> Fin 0 | PInf \<Rightarrow> Fin 1 | NaN \<Rightarrow> NaN))"

definition ttest_finish :: "t_cdf \<Rightarrow> real \<Rightarrow> flt \<Rightarrow> ttest_result" where
  "ttest_finish cdf df t = \<lparr>statistic = t, pvalue = fmul (stdtr cdf df (fneg (fabs t))) (Fin 2)\<rparr>"

definition ttest_ind_from_stats :: "t_cdf \<Rightarrow> flt \<Rightarrow> flt \<Rightarrow> flt \<Rightarrow> real \<Rightarrow> ttest_result" where
  "ttest_ind_from_stats cdf mean1 mean2 denom df =
     (let d = fsub mean1 mean2; t = fdiv d denom in ttest_finish cdf df t)"

definition ttest_ind :: "t_cdf \<Rightarrow> sample \<Rightarrow> sample \<Rightarrow> ttest_result" where
  "ttest_ind cdf a b =
     (if a = [] \<or> b = [] then \<lparr>statistic = NaN, pvalue = NaN\<rparr>
      else
        (let v1 = sp_var 1 a; v2 = sp_var 1 b;
             n1 = length a; n2 = length b;
             (df, denom) = equal_var_ttest_denom v1 n1 v2 n2
         in ttest_ind_from_stats cdf (np_mean a) (np_mean b) denom df))"

subsection \<open>The exact test statistic\<close>

definition svar :: "sample \<Rightarrow> real" where
  "svar a = sq_dev a / (of_nat (length a) - 1)"

definition pooled_var :: "sample \<Rightarrow> sample \<Rightarrow> real" where
  "pooled_var a b = (sq_dev a + sq_dev b) / (of_nat (length a) + of_nat (length b) - 2)"

definition t_df :: "sample \<Rightarrow> sample \<Rightarrow> real" where
  "t_df a b = of_nat (length a) + of_nat (length b) - 2"

definition t_stat :: "sample \<Rightarrow> sample \<Rightarrow> real" where
  "t_stat a b =
     (mean a - mean b) / sqrt (pooled_var a b * (1 / of_nat (length a) + 1 / of_nat (length b)))"

text \<open>What the model needs of the distribution function: it is one, and the Student
  distribution is symmetric about 0.\<close>

definition is_cdf :: "t_cdf \<Rightarrow> bool" where
  "is_cdf cdf \<longleftrightarrow> (\<forall>k>0. mono (cdf k) \<and> (\<forall>x. 0 \<le> cdf k x \<and> cdf k x \<le> 1))"

definition symmetric_cdf :: "t_cdf \<Rightarrow> bool" where
  "symmetric_cdf cdf \<longleftrightarrow> (\<forall>k>0. \<forall>x. cdf k (- x) = 1 - cdf k x)"

subsection \<open>scipy's variance\<close>

lemma fmean_Nil [simp]: "fmean [] = NaN"
  by (simp add: fmean_def fsum_def)

lemma sp_var_moment:
  assumes "a \<noteq> []"
  shows "fmean (map (\<lambda>d. fmul d d) (map (\<lambda>v. fsub (Fin v) (np_mean a)) a)) = Fin (sq_dev a / of_nat (length a))"
  using assms by (simp add: fmean_def np_var_sum del: map_map)

lemma sp_var_Nil [simp]: "sp_var ddof [] = NaN"
  by (simp add: sp_var_def)

lemma sp_var_one_singleton [simp]: "sp_var 1 [x] = NaN"
  by (simp add: sp_var_def np_mean_eq inf_of_sign_def fmean_def fsum_def)

lemma sp_var_one_eq [stat_simps]:
  assumes "2 \<le> length a"
  shows "sp_var 1 a = Fin (svar a)"
proof -
  from assms have ne: "a \<noteq> []" by auto
  from assms have n1: "of_nat (length a) - 1 \<noteq> (0::real)" by simp
  have "sq_dev a / of_nat (length a) * (of_nat (length a) / (of_nat (length a) - 1)) = svar a"
    using ne n1 by (simp add: svar_def field_simps)
  with ne n1 show ?thesis
    by (simp add: sp_var_def sp_var_moment of_nat_diff del: map_map)
qed

lemma svar_nonneg [simp]: "2 \<le> length a \<Longrightarrow> 0 \<le> svar a"
  by (simp add: svar_def)

lemma sp_var_one_short:
  assumes "length a < 2"
  shows "sp_var 1 a = NaN"
proof (cases a)
  case (Cons x xs)
  with assms have "xs = []" by simp
  with Cons show ?thesis by simp
qed simp

subsection \<open>Unfolding the test\<close>

lemma equal_var_ttest_denom_comm:
  "equal_var_ttest_denom v1 n1 v2 n2 = equal_var_ttest_denom v2 n2 v1 n1"
  by (simp add: equal_var_ttest_denom_def Let_def fadd_comm add.commute)

lemma fst_equal_var_ttest_denom [simp]:
  "fst (equal_var_ttest_denom v1 n1 v2 n2) = of_nat n1 + of_nat n2 - 2"
  by (simp add: equal_var_ttest_denom_def Let_def)

abbreviation ttest_denom :: "sample \<Rightarrow> sample \<Rightarrow> flt" where
  "ttest_denom a b \<equiv> snd (equal_var_ttest_denom (sp_var 1 a) (length a) (sp_var 1 b) (length b))"

lemma ttest_ind_nonempty:
  "a \<noteq> [] \<Longrightarrow> b \<noteq> [] \<Longrightarrow>
   ttest_ind cdf a b = ttest_finish cdf (t_df a b) (fdiv (fsub (np_mean a) (np_mean b)) (ttest_denom a b))"
  by (simp add: ttest_ind_def ttest_ind_from_stats_def t_df_def split_beta Let_def)

text \<open>The guarded variance of a non-empty sample is its unbiased variance, 0 for a single
  observation (\<open>svar [x] = 0 / 0 = 0\<close>).\<close>

lemma guarded_sp_var:
  assumes "a \<noteq> []"
  shows "(if length a = 1 then Fin 0 else sp_var 1 a) = Fin (svar a)"
proof (cases "length a = 1")
  case False
  from assms have "0 < length a" by simp
  with False have "2 \<le> length a" by arith
  with False show ?thesis by (simp add: sp_var_one_eq)
qed (simp add: svar_def)

lemma svar_weight: "(of_nat (length a) - 1) * svar a = sq_dev a"
proof (cases "length a = 1")
  case True
  then obtain x where "a = [x]" by (cases a) auto
  then show ?thesis by (simp add: svar_def sq_dev_def mean_def)
qed (simp add: svar_def)

lemma ttest_denom_gen:
  assumes "a \<noteq> []" "b \<noteq> []" "3 \<le> length a + length b"
  shows "ttest_denom a b = Fin (sqrt (pooled_var a b * (1 / of_nat (length a) + 1 / of_nat (length b))))"
proof -
  have df: "of_nat (length a) + of_nat (length b) - 2 \<noteq> (0::real)"
    and la: "of_nat (length a) \<noteq> (0::real)" and lb: "of_nat (length b) \<noteq> (0::real)"
    using assms by auto
  have "0 \<le> sq_dev a" "0 \<le> sq_dev b" by (rule sq_dev_nonneg)+
  moreover have "0 < of_nat (length a) + of_nat (length b) - (2::real)" using assms(3) by simp
  ultimately have "0 \<le> pooled_var a b" by (simp add: pooled_var_def)
  then have pv: "0 \<le> pooled_var a b * (1 / of_nat (length a) + 1 / of_nat (length b))" by simp
  have "((of_nat (length a) - 1) * svar a + (of_nat (length b) - 1) * svar b)
      / (of_nat (length a) + of_nat (length b) - 2) = pooled_var a b"
    by (simp add: svar_weight pooled_var_def)
  with pv df la lb guarded_sp_var [OF assms(1)] guarded_sp_var [OF assms(2)] show ?thesis
    by (simp add: equal_var_ttest_denom_def Let_def)
qed

lemma ttest_denom_eq:
  assumes "2 \<le> length a" "2 \<le> length b"
  shows "ttest_denom a b = Fin (sqrt (pooled_var a b * (1 / of_nat (length a) + 1 / of_nat (length b))))"
  using assms by (intro ttest_denom_gen) auto

lemma ttest_finish_Fin:
  "0 < df \<Longrightarrow> ttest_finish cdf df (Fin t) = \<lparr>statistic = Fin t, pvalue = Fin (cdf df (- \<bar>t\<bar>) * 2)\<rparr>"
  by (simp add: ttest_finish_def stdtr_def)

lemma ttest_finish_NaN [simp]: "ttest_finish cdf df NaN = \<lparr>statistic = NaN, pvalue = NaN\<rparr>"
  by (simp add: ttest_finish_def stdtr_def)

lemma ttest_finish_inf:
  "0 < df \<Longrightarrow> s \<noteq> 0 \<Longrightarrow> ttest_finish cdf df (inf_of_sign s) = \<lparr>statistic = inf_of_sign s, pvalue = Fin 0\<rparr>"
  by (simp add: ttest_finish_def stdtr_def inf_of_sign_def)

lemma equal_var_ttest_denom_NaN [simp]:
  "n1 \<noteq> 1 \<Longrightarrow> snd (equal_var_ttest_denom NaN n1 v2 n2) = NaN"
  "n2 \<noteq> 1 \<Longrightarrow> snd (equal_var_ttest_denom v1 n1 NaN n2) = NaN"
  by (simp_all add: equal_var_ttest_denom_def Let_def)

lemma t_df_pos: "2 \<le> length a \<Longrightarrow> 2 \<le> length b \<Longrightarrow> 0 < t_df a b"
  by (simp add: t_df_def)

lemma t_df_comm: "t_df b a = t_df a b"
  by (simp add: t_df_def)

lemma pooled_var_eq_0_iff:
  "2 \<le> length a \<Longrightarrow> 2 \<le> length b \<Longrightarrow> pooled_var a b = 0 \<longleftrightarrow> sq_dev a = 0 \<and> sq_dev b = 0"
  by (simp add: pooled_var_def add_nonneg_eq_0_iff)

lemma symmetric_cdf_half: "symmetric_cdf cdf \<Longrightarrow> 0 < k \<Longrightarrow> cdf k 0 = 1 / 2"
  unfolding symmetric_cdf_def by (drule spec [of _ k]) (auto dest: spec [of _ 0])

lemma mean_shift_np: "a \<noteq> [] \<Longrightarrow> np_mean (map (\<lambda>x. x + c) a) = Fin (mean a + c)"
  by (simp add: np_mean_eq mean_shift)

lemma sp_var_shift: "sp_var ddof (map (\<lambda>x. x + c) a) = sp_var ddof a"
proof (cases "a = []")
  case False
  then have "map (\<lambda>v. fsub (Fin v) (np_mean (map (\<lambda>x. x + c) a))) (map (\<lambda>x. x + c) a)
      = map (\<lambda>v. fsub (Fin v) (np_mean a)) a"
    by (simp add: mean_shift_np np_mean_eq mean_shift)
  then show ?thesis by (simp add: sp_var_def Let_def del: map_map)
qed simp

subsection \<open>Behaviour of the test\<close>

lemma ttest_stat_gen:
  assumes "a \<noteq> []" "b \<noteq> []" "3 \<le> length a + length b" "0 < pooled_var a b"
  shows "fdiv (fsub (np_mean a) (np_mean b)) (ttest_denom a b) = Fin (t_stat a b)"
proof -
  have pos: "0 < 1 / real (length a) + 1 / real (length b)" using assms(1,2) by (simp add: add_pos_pos)
  with assms(4) have "0 < pooled_var a b * (1 / real (length a) + 1 / real (length b))"
    by simp
  then show ?thesis
    using assms pos by (simp add: ttest_denom_gen np_mean_eq t_stat_def)
qed

lemma ttest_stat_eq:
  assumes "2 \<le> length a" "2 \<le> length b" "0 < pooled_var a b"
  shows "fdiv (fsub (np_mean a) (np_mean b)) (ttest_denom a b) = Fin (t_stat a b)"
  using assms by (intro ttest_stat_gen) auto

lemma ttest_ind_exact_gen:
  assumes "a \<noteq> []" "b \<noteq> []" "3 \<le> length a + length b" "0 < pooled_var a b"
  shows "ttest_ind cdf a b =
    \<lparr>statistic = Fin (t_stat a b), pvalue = Fin (cdf (t_df a b) (- \<bar>t_stat a b\<bar>) * 2)\<rparr>"
proof -
  have "0 < t_df a b" using assms(3) by (simp add: t_df_def)
  with ttest_stat_gen [OF assms] assms(1,2) show ?thesis
    by (simp add: ttest_ind_nonempty ttest_finish_Fin)
qed

lemma ttest_ind_exact:
  assumes "2 \<le> length a" "2 \<le> length b" "0 < pooled_var a b"
  shows "ttest_ind cdf a b =
    \<lparr>statistic = Fin (t_stat a b), pvalue = Fin (cdf (t_df a b) (- \<bar>t_stat a b\<bar>) * 2)\<rparr>"
  using assms by (intro ttest_ind_exact_gen) auto

lemma ttest_ind_both_short:
  assumes "length a < 2" "length b < 2"
  shows "ttest_ind cdf a b = \<lparr>statistic = NaN, pvalue = NaN\<rparr>"
proof (cases "a = [] \<or> b = []")
  case True
  then show ?thesis by (auto simp: ttest_ind_def)
next
  case False
  with assms have "length a = 1" "length b = 1" by (auto simp: less_2_cases_iff)
  with False show ?thesis by (simp add: ttest_ind_nonempty equal_var_ttest_denom_def Let_def)
qed

text \<open>C1. On two samples of at least two observations whose pooled variance is positive,
  \<open>ttest_ind\<close> returns the exact two-sample t statistic with pooled variance and the
  two-sided p-value \<open>2 F(-|t|)\<close> of the Student distribution with \<open>n1 + n2 - 2\<close>
  degrees of freedom.\<close>

lemma ttest_ind_eq:
  assumes "2 \<le> length a" "2 \<le> length b" "0 < pooled_var a b"
  shows "ttest_ind cdf a b =
    \<lparr>statistic = Fin (t_stat a b), pvalue = Fin (cdf (t_df a b) (- \<bar>t_stat a b\<bar>) * 2)\<rparr>"
  by (rule ttest_ind_exact [OF assms])

text \<open>C6. A single observation against a sample: its variance is undefined, so current
  scipy pools the other sample's alone. \<open>x\<close> against \<open>b\<close> (\<open>n \<ge> 2\<close> observations, some
  spread) gives the finite statistic \<open>(x - mean b) / sqrt (s\<^sub>b\<^sup>2 (1 + 1 / n))\<close> on
  \<open>n - 1\<close> degrees of freedom; two single observations leave none and give NaN.\<close>

lemma ttest_ind_single:
  assumes "2 \<le> length b" "0 < sq_dev b"
  shows "ttest_ind cdf [x] b =
      (let t = (x - mean b) / sqrt (svar b * (1 + 1 / of_nat (length b)))
       in \<lparr>statistic = Fin t, pvalue = Fin (cdf (of_nat (length b) - 1) (- \<bar>t\<bar>) * 2)\<rparr>) \<and>
    ttest_ind cdf [x] [y] = \<lparr>statistic = NaN, pvalue = NaN\<rparr>"
proof
  have p: "pooled_var [x] b = svar b"
    using assms(1) by (simp add: pooled_var_def svar_def sq_dev_def mean_def algebra_simps)
  then have "0 < pooled_var [x] b" using assms by (simp add: svar_def)
  then have "ttest_ind cdf [x] b =
      \<lparr>statistic = Fin (t_stat [x] b), pvalue = Fin (cdf (t_df [x] b) (- \<bar>t_stat [x] b\<bar>) * 2)\<rparr>"
    using assms(1) by (intro ttest_ind_exact_gen) auto
  then show "ttest_ind cdf [x] b =
      (let t = (x - mean b) / sqrt (svar b * (1 + 1 / of_nat (length b)))
       in \<lparr>statistic = Fin t, pvalue = Fin (cdf (of_nat (length b) - 1) (- \<bar>t\<bar>) * 2)\<rparr>)"
    by (simp add: t_stat_def t_df_def p mean_def)
qed (simp add: ttest_ind_both_short)

lemma ttest_ind_no_spread:
  assumes "2 \<le> length a" "2 \<le> length b" "pooled_var a b = 0"
  shows "ttest_ind cdf a b =
    (if mean a = mean b then \<lparr>statistic = NaN, pvalue = NaN\<rparr>
     else \<lparr>statistic = inf_of_sign (mean a - mean b), pvalue = Fin 0\<rparr>)"
proof -
  from assms have ne: "a \<noteq> []" "b \<noteq> []" by auto
  from assms have "ttest_denom a b = Fin 0" by (simp add: ttest_denom_eq)
  with ne t_df_pos [OF assms(1,2)] show ?thesis
    by (simp add: ttest_ind_nonempty np_mean_eq ttest_finish_inf)
qed

lemma mean_replicate: "0 < n \<Longrightarrow> mean (replicate n c) = c"
  by (simp add: mean_def sum_list_replicate)

lemma sq_dev_replicate: "sq_dev (replicate n c) = 0"
  by (cases "n = 0") (simp_all add: sq_dev_def mean_replicate sum_list_replicate)

text \<open>C7. Samples with no spread. A constant sample of an integer \<open>c\<close> with
  \<open>n |c| < 2\<^sup>5\<^sup>3\<close> has an exact float64 sum, so its mean is \<open>c\<close> and its
  deviations are exactly 0, as in the model. Against another such sample of \<open>d\<close> the
  standard error is 0: the statistic is an infinity of the sign of \<open>c - d\<close> and the
  p-value 0, or both are NaN when \<open>c = d\<close>.\<close>

lemma ttest_ind_zero_var:
  assumes "2 \<le> n1" "2 \<le> n2" "real n1 * \<bar>real_of_int c\<bar> < 2 ^ 53" "real n2 * \<bar>real_of_int d\<bar> < 2 ^ 53"
  shows "ttest_ind cdf (replicate n1 (of_int c)) (replicate n2 (of_int d)) =
    (if c = d then \<lparr>statistic = NaN, pvalue = NaN\<rparr>
     else \<lparr>statistic = inf_of_sign (of_int (c - d)), pvalue = Fin 0\<rparr>)"
proof -
  have "pooled_var (replicate n1 (of_int c)) (replicate n2 (of_int d)) = 0"
    by (simp add: pooled_var_def sq_dev_replicate)
  with assms(1,2) show ?thesis by (simp add: ttest_ind_no_spread mean_replicate)
qed

text \<open>C9. Swapping the samples negates the statistic and keeps the p-value.\<close>

lemma ttest_ind_swap:
  "ttest_ind cdf b a =
     \<lparr>statistic = fneg (statistic (ttest_ind cdf a b)), pvalue = pvalue (ttest_ind cdf a b)\<rparr>"
proof (cases "a = [] \<or> b = []")
  case True
  then show ?thesis by (auto simp: ttest_ind_def)
next
  case False
  have "fdiv (fsub (np_mean b) (np_mean a)) (ttest_denom b a)
      = fneg (fdiv (fsub (np_mean a) (np_mean b)) (ttest_denom a b))"
    by (simp add: equal_var_ttest_denom_comm [of "sp_var 1 b"] fsub_antisym [of "np_mean b"] fdiv_fneg_left)
  with False show ?thesis
    by (simp add: ttest_ind_nonempty t_df_comm ttest_finish_def)
qed

text \<open>C10. Adding the same constant to every observation of both samples changes nothing.\<close>

lemma ttest_ind_shift:
  "ttest_ind cdf (map (\<lambda>x. x + c) a) (map (\<lambda>x. x + c) b) = ttest_ind cdf a b"
proof (cases "a = [] \<or> b = []")
  case True
  then show ?thesis by (auto simp: ttest_ind_def)
next
  case False
  then have "fsub (np_mean (map (\<lambda>x. x + c) a)) (np_mean (map (\<lambda>x. x + c) b))
      = fsub (np_mean a) (np_mean b)"
    by (auto simp: np_mean_eq mean_shift)
  with False show ?thesis
    by (simp add: ttest_ind_nonempty sp_var_shift t_df_def)
qed

text \<open>C8. A sample tested against itself: statistic 0 and p-value 1, when the sample has
  some spread (otherwise \<open>ttest_ind_no_spread\<close> applies and both are NaN).\<close>

lemma ttest_ind_same:
  assumes "2 \<le> length a" "sq_dev a \<noteq> 0" "symmetric_cdf cdf"
  shows "ttest_ind cdf a a = \<lparr>statistic = Fin 0, pvalue = Fin 1\<rparr>"
proof -
  from assms(1) have ne: "a \<noteq> []" by auto
  have pv: "0 < pooled_var a a" using assms(1,2) by (simp add: pooled_var_def order_less_le)
  with ne have "0 < pooled_var a a * (1 / real (length a) + 1 / real (length a))"
    by (simp add: add_pos_pos)
  then have "fdiv (fsub (np_mean a) (np_mean a)) (ttest_denom a a) = Fin 0"
    using assms(1) ne pv by (simp add: ttest_denom_eq np_mean_eq)
  moreover have "cdf (t_df a a) 0 = 1 / 2"
    using symmetric_cdf_half [OF assms(3) t_df_pos [OF assms(1,1)]] .
  ultimately show ?thesis
    using ne t_df_pos [OF assms(1,1)] by (simp add: ttest_ind_nonempty ttest_finish_Fin)
qed

lemma cdf_neg_abs_range:
  assumes "is_cdf cdf" "symmetric_cdf cdf" "0 < k"
  shows "0 \<le> cdf k (- \<bar>x\<bar>) \<and> cdf k (- \<bar>x\<bar>) * 2 \<le> 1"
proof -
  from assms(1,3) have "mono (cdf k)" and "0 \<le> cdf k (- \<bar>x\<bar>)" by (auto simp: is_cdf_def)
  then have "cdf k (- \<bar>x\<bar>) \<le> cdf k 0" by (simp add: monoD)
  with symmetric_cdf_half [OF assms(2,3)] \<open>0 \<le> cdf k (- \<bar>x\<bar>)\<close> show ?thesis by simp
qed

lemma ttest_finish_pvalue_range:
  assumes "is_cdf cdf" "symmetric_cdf cdf"
  shows "pvalue (ttest_finish cdf df t) = NaN \<or> (\<exists>p. pvalue (ttest_finish cdf df t) = Fin p \<and> 0 \<le> p \<and> p \<le> 1)"
proof (cases "0 < df")
  case True
  show ?thesis
  proof (cases t)
    case (Fin x)
    with cdf_neg_abs_range [OF assms True, of x] True show ?thesis
      by (simp add: ttest_finish_def stdtr_def)
  qed (simp_all add: ttest_finish_def stdtr_def True)
qed (simp add: ttest_finish_def stdtr_def)

lemma ttest_ind_pvalue_cases:
  assumes "is_cdf cdf" "symmetric_cdf cdf"
  shows "pvalue (ttest_ind cdf a b) = NaN \<or>
    (\<exists>p. pvalue (ttest_ind cdf a b) = Fin p \<and> 0 \<le> p \<and> p \<le> 1)"
proof (cases "a = [] \<or> b = []")
  case True
  then show ?thesis by (auto simp: ttest_ind_def)
next
  case False
  then show ?thesis by (simp add: ttest_ind_nonempty ttest_finish_pvalue_range [OF assms])
qed

text \<open>C11. For a symmetric distribution function the p-value is a probability, or NaN.\<close>

lemma ttest_ind_pvalue_range:
  assumes "is_cdf cdf" "symmetric_cdf cdf"
  shows "pvalue (ttest_ind cdf a b) = NaN \<or>
    (\<exists>p. pvalue (ttest_ind cdf a b) = Fin p \<and> 0 \<le> p \<and> p \<le> 1)"
  by (rule ttest_ind_pvalue_cases [OF assms])

text \<open>scipy's \<open>_var(x, ddof=1)\<close>, a scaled second moment, and numpy's
  \<open>var(x, ddof=1)\<close>, a sum of squares over \<open>n - 1\<close>, agree on every sample,
  the empty and single-observation ones included (both NaN there).\<close>

lemma sp_var_np_var: "sp_var 1 a = np_var 1 a"
proof (cases "2 \<le> length a")
  case True
  then show ?thesis by (simp add: sp_var_one_eq np_var_eq svar_def)
next
  case False
  then have "length a < 2" by simp
  then show ?thesis
  proof (cases a)
    case (Cons x xs)
    with \<open>length a < 2\<close> have "a = [x]" by simp
    then show ?thesis by (simp add: np_var_short)
  qed simp
qed

end
