(* ===== verification/Pyplot.thy ===== *)
theory Pyplot
  imports Float
begin

text \<open>
  The pyplot calls of lines 18 to 32 of \<^verbatim>\<open>src/visualize.py\<close>. pyplot keeps global
  state: the open figures (matplotlib's \<open>Gcf\<close>, the active figure last), and every call
  draws on the active figure, creating one first when none is open (\<open>gcf()\<close>). The
  state here is that list of open figures and the image files \<open>savefig\<close> has written;
  a figure is what was drawn on it (its size, artists, title and y label), and a saved
  image is the figure as it was when saved. Pixels are not modelled.
\<close>

datatype artist =
    BarArtist "string list" "flt list" "flt list" nat
      \<comment> \<open>\<open>bar(x, height, yerr=..., capsize=...)\<close>\<close>
  | BoxArtist "real list list" "string list"
      \<comment> \<open>\<open>boxplot(x, labels=...)\<close>\<close>

record figure =
  fig_size :: "real \<times> real"
  fig_artists :: "artist list"
  fig_title :: string
  fig_ylabel :: string

record plt_state =
  open_figs :: "figure list"
  saved :: "string \<Rightarrow> figure option"

text \<open>A new figure, of the size given or of \<open>rcParams['figure.figsize']\<close>.\<close>

definition new_figure :: "real \<times> real \<Rightarrow> figure" where
  "new_figure sz = \<lparr>fig_size = sz, fig_artists = [], fig_title = [], fig_ylabel = []\<rparr>"

definition default_figsize :: "real \<times> real" where
  "default_figsize = (6.4, 4.8)"

text \<open>\<open>gcf()\<close>: the active figure, created first if no figure is open.\<close>

definition ensure_figure :: "plt_state \<Rightarrow> plt_state" where
  "ensure_figure st =
     (if open_figs st = [] then st\<lparr>open_figs := [new_figure default_figsize]\<rparr> else st)"

definition with_current :: "(figure \<Rightarrow> figure) \<Rightarrow> plt_state \<Rightarrow> plt_state" where
  "with_current f st =
     (let st' = ensure_figure st
      in st'\<lparr>open_figs := butlast (open_figs st') @ [f (last (open_figs st'))]\<rparr>)"

definition plt_figure :: "real \<times> real \<Rightarrow> plt_state \<Rightarrow> plt_state" where
  "plt_figure sz st = st\<lparr>open_figs := open_figs st @ [new_figure sz]\<rparr>"

definition plt_bar :: "string list \<Rightarrow> flt list \<Rightarrow> flt list \<Rightarrow> nat \<Rightarrow> plt_state \<Rightarrow> plt_state" where
  "plt_bar xs heights yerr capsize =
     with_current (\<lambda>f. f\<lparr>fig_artists := fig_artists f @ [BarArtist xs heights yerr capsize]\<rparr>)"

definition plt_boxplot :: "real list list \<Rightarrow> string list \<Rightarrow> plt_state \<Rightarrow> plt_state" where
  "plt_boxplot xs labels = with_current (\<lambda>f. f\<lparr>fig_artists := fig_artists f @ [BoxArtist xs labels]\<rparr>)"

definition plt_title :: "string \<Rightarrow> plt_state \<Rightarrow> plt_state" where
  "plt_title s = with_current (\<lambda>f. f\<lparr>fig_title := s\<rparr>)"

definition plt_ylabel :: "string \<Rightarrow> plt_state \<Rightarrow> plt_state" where
  "plt_ylabel s = with_current (\<lambda>f. f\<lparr>fig_ylabel := s\<rparr>)"

text \<open>\<open>savefig(fname)\<close>: the active figure (created if none is open) is written to the
  file, replacing whatever the file held.\<close>

definition plt_savefig :: "string \<Rightarrow> plt_state \<Rightarrow> plt_state" where
  "plt_savefig fname st =
     (let st' = ensure_figure st in st'\<lparr>saved := (saved st')(fname \<mapsto> last (open_figs st'))\<rparr>)"

text \<open>\<open>close()\<close>: the active figure is closed; with no open figure nothing happens.\<close>

definition plt_close :: "plt_state \<Rightarrow> plt_state" where
  "plt_close st = st\<lparr>open_figs := butlast (open_figs st)\<rparr>"

subsection \<open>The script's calls as a program\<close>

datatype plt_call =
    Figure "real \<times> real"
  | Bar "string list" "flt list" "flt list" nat
  | Boxplot "real list list" "string list"
  | Title string
  | YLabel string
  | SaveFig string
  | Close

fun plt_step :: "plt_state \<Rightarrow> plt_call \<Rightarrow> plt_state" where
  "plt_step st (Figure sz) = plt_figure sz st"
| "plt_step st (Bar xs hs es c) = plt_bar xs hs es c st"
| "plt_step st (Boxplot xs ls) = plt_boxplot xs ls st"
| "plt_step st (Title s) = plt_title s st"
| "plt_step st (YLabel s) = plt_ylabel s st"
| "plt_step st (SaveFig n) = plt_savefig n st"
| "plt_step st Close = plt_close st"

definition plt_run :: "plt_state \<Rightarrow> plt_call list \<Rightarrow> plt_state" where
  "plt_run st cs = foldl plt_step st cs"

text \<open>The abstract machine of a drawing block: the calls between \<open>figure()\<close> and
  \<open>close()\<close> act on the active figure and the files only.\<close>

definition draws_only :: "plt_call list \<Rightarrow> bool" where
  "draws_only cs \<longleftrightarrow> list_all (\<lambda>c. case c of Figure _ \<Rightarrow> False | Close \<Rightarrow> False | _ \<Rightarrow> True) cs"

fun draw_on :: "figure \<times> (string \<Rightarrow> figure option) \<Rightarrow> plt_call \<Rightarrow> figure \<times> (string \<Rightarrow> figure option)" where
  "draw_on (f, fs) (Bar xs hs es c) = (f\<lparr>fig_artists := fig_artists f @ [BarArtist xs hs es c]\<rparr>, fs)"
| "draw_on (f, fs) (Boxplot xs ls) = (f\<lparr>fig_artists := fig_artists f @ [BoxArtist xs ls]\<rparr>, fs)"
| "draw_on (f, fs) (Title s) = (f\<lparr>fig_title := s\<rparr>, fs)"
| "draw_on (f, fs) (YLabel s) = (f\<lparr>fig_ylabel := s\<rparr>, fs)"
| "draw_on (f, fs) (SaveFig n) = (f, fs(n \<mapsto> f))"
| "draw_on (f, fs) (Figure sz) = (f, fs)"
| "draw_on (f, fs) Close = (f, fs)"

text \<open>Lines 19 to 24 and 27 to 32.\<close>

definition bar_chart_calls :: "string list \<Rightarrow> flt list \<Rightarrow> flt list \<Rightarrow> plt_call list" where
  "bar_chart_calls strategies means stds =
     [Figure (10, 6),
      Bar strategies means stds 5,
      Title ''Average Shots to Win by Strategy'',
      YLabel ''Number of Shots'',
      SaveFig ''strategy_comparison.png'',
      Close]"

definition box_plot_calls :: "string list \<Rightarrow> real list list \<Rightarrow> plt_call list" where
  "box_plot_calls strategies samples =
     [Figure (10, 6),
      Boxplot samples strategies,
      Title ''Distribution of Shots to Win by Strategy'',
      YLabel ''Number of Shots'',
      SaveFig ''strategy_distribution.png'',
      Close]"

subsection \<open>The calls on a state with an active figure\<close>

lemma ensure_figure_active [simp]: "open_figs st = F @ [f] \<Longrightarrow> ensure_figure st = st"
  by (simp add: ensure_figure_def)

lemma with_current_active: "open_figs st = F @ [f] \<Longrightarrow> with_current g st = st\<lparr>open_figs := F @ [g f]\<rparr>"
  by (simp add: with_current_def)

lemma plt_savefig_active: "open_figs st = F @ [f] \<Longrightarrow> plt_savefig n st = st\<lparr>saved := (saved st)(n \<mapsto> f)\<rparr>"
  by (simp add: plt_savefig_def)

lemma plt_close_active: "open_figs st = F @ [f] \<Longrightarrow> plt_close st = st\<lparr>open_figs := F\<rparr>"
  by (simp add: plt_close_def)

lemma open_figs_plt_figure [simp]: "open_figs (plt_figure sz st) = open_figs st @ [new_figure sz]"
  by (simp add: plt_figure_def)

lemma saved_plt_figure [simp]: "saved (plt_figure sz st) = saved st"
  by (simp add: plt_figure_def)

lemma plt_run_Nil [simp]: "plt_run st [] = st"
  by (simp add: plt_run_def)

lemma plt_run_Cons [simp]: "plt_run st (c # cs) = plt_run (plt_step st c) cs"
  by (simp add: plt_run_def)

lemma plt_run_append: "plt_run st (cs @ ds) = plt_run (plt_run st cs) ds"
  by (simp add: plt_run_def)

lemma draws_only_Cons [simp]:
  "draws_only (c # cs) \<longleftrightarrow> (case c of Figure _ \<Rightarrow> False | Close \<Rightarrow> False | _ \<Rightarrow> True) \<and> draws_only cs"
  by (simp add: draws_only_def)

lemma draws_only_Nil [simp]: "draws_only []"
  by (simp add: draws_only_def)

text \<open>One drawing call on a state whose active figure is \<open>f\<close> is a step of the abstract
  machine on the active figure and the files.\<close>

lemma plt_step_active:
  assumes "open_figs st = F @ [f]" "case c of Figure _ \<Rightarrow> False | Close \<Rightarrow> False | _ \<Rightarrow> True"
  shows "plt_step st c = st\<lparr>open_figs := F @ [fst (draw_on (f, saved st) c)], saved := snd (draw_on (f, saved st) c)\<rparr>"
  using assms
  by (cases c) (simp_all add: plt_bar_def plt_boxplot_def plt_title_def plt_ylabel_def
      with_current_active plt_savefig_active)

text \<open>Refinement: a run of drawing calls is the abstract machine's run on the active figure;
  the figures below it and nothing else of the state are touched.\<close>

lemma plt_run_draws_only:
  assumes "draws_only cs" "open_figs st = F @ [f]"
  shows "plt_run st cs =
    st\<lparr>open_figs := F @ [fst (foldl draw_on (f, saved st) cs)], saved := snd (foldl draw_on (f, saved st) cs)\<rparr>"
  using assms
proof (induction cs arbitrary: st f)
  case Nil
  then show ?case by simp
next
  case (Cons c cs)
  let ?st' = "plt_step st c"
  from Cons.prems have c: "case c of Figure _ \<Rightarrow> False | Close \<Rightarrow> False | _ \<Rightarrow> True" and "draws_only cs"
    by simp_all
  have st': "?st' = st\<lparr>open_figs := F @ [fst (draw_on (f, saved st) c)], saved := snd (draw_on (f, saved st) c)\<rparr>"
    using plt_step_active [OF Cons.prems(2) c] .
  then have "open_figs ?st' = F @ [fst (draw_on (f, saved st) c)]" by simp
  with \<open>draws_only cs\<close> have "plt_run ?st' cs = ?st'\<lparr>open_figs := F @ [fst (foldl draw_on (fst (draw_on (f, saved st) c), saved ?st') cs)],
      saved := snd (foldl draw_on (fst (draw_on (f, saved st) c), saved ?st') cs)\<rparr>"
    by (rule Cons.IH)
  then show ?case by (simp add: st')
qed

text \<open>A figure block, \<open>figure()\<close> then drawing calls then \<open>close()\<close>, writes the
  files the abstract machine writes from a fresh figure, and changes nothing else.\<close>

lemma plt_run_figure_block:
  assumes "draws_only body"
  shows "plt_run st (Figure sz # body @ [Close]) = st\<lparr>saved := snd (foldl draw_on (new_figure sz, saved st) body)\<rparr>"
proof -
  let ?st1 = "plt_figure sz st"
  have "open_figs ?st1 = open_figs st @ [new_figure sz]" by simp
  with assms have run: "plt_run ?st1 body = ?st1\<lparr>open_figs := open_figs st @ [fst (foldl draw_on (new_figure sz, saved st) body)],
      saved := snd (foldl draw_on (new_figure sz, saved st) body)\<rparr>"
    by (simp add: plt_run_draws_only)
  then have "open_figs (plt_run ?st1 body) = open_figs st @ [fst (foldl draw_on (new_figure sz, saved st) body)]"
    by simp
  then have "plt_close (plt_run ?st1 body) = (plt_run ?st1 body)\<lparr>open_figs := open_figs st\<rparr>"
    by (rule plt_close_active)
  with run show ?thesis by (simp add: plt_run_append plt_figure_def)
qed

text \<open>C17. A figure block (\<open>figure()\<close>, drawing calls, \<open>close()\<close>) leaves the open
  figures as they were, and what it saves does not depend on the figures that were open
  before it: the script's two charts cannot pick up each other's artists.\<close>

theorem figure_block_frame:
  assumes "draws_only body"
  shows "open_figs (plt_run st (Figure sz # body @ [Close])) = open_figs st \<and>
    saved (plt_run st (Figure sz # body @ [Close])) = saved (plt_run (st\<lparr>open_figs := []\<rparr>) (Figure sz # body @ [Close]))"
  using assms by (simp add: plt_run_figure_block del: plt_run_Cons)

end
