(* ===== verification/Boxplot.thy ===== *)
theory Boxplot
  imports Numpy
begin

text \<open>
  What \<open>plt.boxplot\<close> (line 28 of \<^verbatim>\<open>src/visualize.py\<close>) draws for each sample:
  matplotlib's \<open>cbook.boxplot_stats\<close> with its defaults (\<open>whis=1.5\<close>, no bootstrap,
  \<open>autorange=False\<close>), on top of numpy's \<open>percentile\<close> with the default \<open>linear\<close>
  method. The box spans the quartiles, the line in it is the median, the whiskers end at
  the most extreme observations within 1.5 interquartile ranges of the box (or at the
  box), and the observations beyond the whiskers are drawn as fliers.
\<close>

subsection \<open>numpy's percentile\<close>

text \<open>\<open>_lerp(a, b, t)\<close>: \<open>a + (b - a) t\<close>, computed from \<open>b\<close> when \<open>t \<ge> 0.5\<close>.\<close>

definition np_lerp :: "real \<Rightarrow> real \<Rightarrow> real \<Rightarrow> real" where
  "np_lerp a b t = (let diff_b_a = b - a in if 1 / 2 \<le> t then b - diff_b_a * (1 - t) else a + diff_b_a * t)"

text \<open>
  \<open>np.percentile(x, q)\<close>, method \<open>linear\<close> (\<open>alpha = beta = 1\<close>): the virtual index
  \<open>n q + (alpha + q (1 - alpha - beta)) - 1\<close> of \<open>q / 100\<close> in the sorted data,
  clipped to the last element at or above \<open>n - 1\<close> and to the first below 0
  (\<open>_get_indexes\<close>), interpolated between its two neighbours otherwise.
\<close>

definition np_percentile :: "real list \<Rightarrow> real \<Rightarrow> real" where
  "np_percentile x q =
     (let arr = sort x; n = length arr; quantile = q / 100; alpha = 1; beta = 1;
          virtual_index = of_nat n * quantile + (alpha + quantile * (1 - alpha - beta)) - 1
      in if of_nat n - 1 \<le> virtual_index then arr ! (n - 1)
         else if virtual_index < 0 then arr ! 0
         else (let previous = nat \<lfloor>virtual_index\<rfloor>
               in np_lerp (arr ! previous) (arr ! (previous + 1)) (virtual_index - of_nat previous)))"

text \<open>The reference: the piecewise linear function through the sorted data, at virtual
  index \<open>v\<close> (the data at the integers \<open>0 .. n - 1\<close>, constant beyond).\<close>

definition lin_interp :: "real list \<Rightarrow> real \<Rightarrow> real" where
  "lin_interp s v =
     (if of_nat (length s) - 1 \<le> v then last s
      else (let i = nat \<lfloor>v\<rfloor> in s ! i + (s ! Suc i - s ! i) * (v - of_nat i)))"

subsection \<open>matplotlib's box plot statistics\<close>

record bxp_stats =
  bx_label :: string
  bx_mean :: flt
  bx_med :: flt
  bx_q1 :: flt
  bx_q3 :: flt
  bx_iqr :: flt
  bx_cilo :: flt
  bx_cihi :: flt
  bx_whislo :: flt
  bx_whishi :: flt
  bx_fliers :: "real list"

text \<open>\<open>_compute_conf_interval\<close> without bootstrap: the notch \<open>med \<pm> 1.57 iqr / sqrt n\<close>.\<close>

definition compute_conf_interval :: "real list \<Rightarrow> real \<Rightarrow> real \<Rightarrow> real \<times> real" where
  "compute_conf_interval data med iqr =
     (let N = of_nat (length data); notch_min = med - 1.57 * iqr / sqrt N; notch_max = med + 1.57 * iqr / sqrt N
      in (notch_min, notch_max))"

text \<open>The high whisker: the largest observation at or below \<open>hival\<close>, or \<open>q3\<close> when
  there is none or it lies below \<open>q3\<close> (\<open>wiskhi = x[x <= hival]\<close>).\<close>

definition whisker_hi :: "real list \<Rightarrow> real \<Rightarrow> real \<Rightarrow> real" where
  "whisker_hi x q3 hival =
     (let wiskhi = filter (\<lambda>v. v \<le> hival) x
      in if wiskhi = [] \<or> Max (set wiskhi) < q3 then q3 else Max (set wiskhi))"

text \<open>The low whisker, symmetrically (\<open>wisklo = x[x >= loval]\<close>).\<close>

definition whisker_lo :: "real list \<Rightarrow> real \<Rightarrow> real \<Rightarrow> real" where
  "whisker_lo x q1 loval =
     (let wisklo = filter (\<lambda>v. loval \<le> v) x
      in if wisklo = [] \<or> q1 < Min (set wisklo) then q1 else Min (set wisklo))"

text \<open>\<open>np.concatenate([x[x < whislo], x[x > whishi]])\<close>.\<close>

definition fliers_of :: "real list \<Rightarrow> real \<Rightarrow> real \<Rightarrow> real list" where
  "fliers_of x whislo whishi = filter (\<lambda>v. v < whislo) x @ filter (\<lambda>v. whishi < v) x"

text \<open>One sample: NaN everywhere and no fliers for an empty sample, otherwise the quartiles,
  the whisker ends and the fliers as \<open>boxplot_stats\<close> computes them.\<close>

definition boxplot_stats_one :: "real \<Rightarrow> real list \<Rightarrow> string \<Rightarrow> bxp_stats" where
  "boxplot_stats_one whis x label =
     (if x = [] then
        \<lparr>bx_label = label, bx_mean = NaN, bx_med = NaN, bx_q1 = NaN, bx_q3 = NaN, bx_iqr = NaN,
         bx_cilo = NaN, bx_cihi = NaN, bx_whislo = NaN, bx_whishi = NaN, bx_fliers = []\<rparr>
      else
        (let q1 = np_percentile x 25; med = np_percentile x 50; q3 = np_percentile x 75;
             iqr = q3 - q1;
             (cilo, cihi) = compute_conf_interval x med iqr;
             loval = q1 - whis * iqr; hival = q3 + whis * iqr;
             whishi = whisker_hi x q3 hival;
             whislo = whisker_lo x q1 loval
         in \<lparr>bx_label = label, bx_mean = np_mean x, bx_med = Fin med, bx_q1 = Fin q1, bx_q3 = Fin q3,
             bx_iqr = Fin iqr, bx_cilo = Fin cilo, bx_cihi = Fin cihi,
             bx_whislo = Fin whislo, bx_whishi = Fin whishi, bx_fliers = fliers_of x whislo whishi\<rparr>))"

text \<open>\<open>boxplot_stats(X, whis, labels=labels)\<close>: one record per sample, paired with its
  label.\<close>

definition boxplot_stats :: "real \<Rightarrow> real list list \<Rightarrow> string list \<Rightarrow> bxp_stats list" where
  "boxplot_stats whis X labels = map (\<lambda>(x, label). boxplot_stats_one whis x label) (zip X labels)"

text \<open>\<open>rcParams['boxplot.whiskers']\<close>, the \<open>whis\<close> that \<open>plt.boxplot\<close> passes.\<close>

definition default_whis :: real where
  "default_whis = 1.5"

subsection \<open>Percentiles\<close>

lemma np_lerp_eq: "np_lerp a b t = a + (b - a) * t"
  by (simp add: np_lerp_def Let_def algebra_simps)

lemma np_percentile_alt:
  "np_percentile x q =
     (let v = (of_nat (length x) - 1) * (q / 100 :: real)
      in if of_nat (length x) - 1 \<le> v then sort x ! (length x - 1)
         else if v < 0 then sort x ! 0
         else sort x ! nat \<lfloor>v\<rfloor> + (sort x ! Suc (nat \<lfloor>v\<rfloor>) - sort x ! nat \<lfloor>v\<rfloor>) * (v - of_nat (nat \<lfloor>v\<rfloor>)))"
proof -
  have vi: "of_nat (length x) * (q / 100) + (1 + q / 100 * (1 - 1 - 1)) - 1 = (of_nat (length x) - 1) * (q / 100 :: real)"
    by (simp add: algebra_simps)
  show ?thesis
    by (simp only: np_percentile_def Let_def length_sort vi np_lerp_eq Suc_eq_plus1)
qed

lemma np_percentile_lin_interp:
  assumes "x \<noteq> []" "0 \<le> q"
  shows "np_percentile x q = lin_interp (sort x) ((of_nat (length x) - 1) * (q / 100))"
proof -
  define v where "v = (of_nat (length x) - 1) * (q / 100 :: real)"
  have "1 \<le> length x" using assms(1) by (cases x) auto
  then have v0: "0 \<le> v" using assms(2) by (simp add: v_def)
  have ne: "sort x \<noteq> []" using assms(1) by (cases x) auto
  have "np_percentile x q = lin_interp (sort x) v" using ne v0
    unfolding np_percentile_alt lin_interp_def Let_def v_def [symmetric] by (simp add: last_conv_nth)
  then show ?thesis by (simp only: v_def)
qed

lemma np_percentile_nonpos:
  assumes "x \<noteq> []" "q \<le> 0"
  shows "np_percentile x q = sort x ! 0"
proof -
  have "(of_nat (length x) - 1) * (q / 100) \<le> (0::real)"
    using assms by (cases x) (simp_all add: mult_nonneg_nonpos)
  then show ?thesis using assms(1)
    by (cases "length x = 1") (auto simp: np_percentile_alt Let_def)
qed

lemma lin_interp_index:
  fixes v :: real
  assumes "0 \<le> v" "v < of_nat (length s) - 1"
  shows "Suc (nat \<lfloor>v\<rfloor>) < length s" and "of_nat (nat \<lfloor>v\<rfloor>) \<le> v" and "v - of_nat (nat \<lfloor>v\<rfloor>) < 1"
proof -
  have "of_int \<lfloor>v\<rfloor> \<le> v" and "v < of_int \<lfloor>v\<rfloor> + 1" by linarith+
  moreover have "0 \<le> \<lfloor>v\<rfloor>" using assms(1) by simp
  moreover have "of_nat (nat \<lfloor>v\<rfloor>) = (of_int \<lfloor>v\<rfloor> :: real)" using \<open>0 \<le> \<lfloor>v\<rfloor>\<close> by simp
  ultimately show "of_nat (nat \<lfloor>v\<rfloor>) \<le> v" and "v - of_nat (nat \<lfloor>v\<rfloor>) < 1" by linarith+
  from \<open>of_int \<lfloor>v\<rfloor> \<le> v\<close> assms(2) \<open>0 \<le> \<lfloor>v\<rfloor>\<close> have "of_int \<lfloor>v\<rfloor> + 1 < real (length s)" by linarith
  with \<open>0 \<le> \<lfloor>v\<rfloor>\<close> show "Suc (nat \<lfloor>v\<rfloor>) < length s" by linarith
qed

text \<open>Between two neighbours the interpolation lies between their values.\<close>

lemma lin_interp_between:
  assumes "sorted s" "0 \<le> v" "v < of_nat (length s) - 1"
  shows "s ! nat \<lfloor>v\<rfloor> \<le> lin_interp s v \<and> lin_interp s v \<le> s ! Suc (nat \<lfloor>v\<rfloor>)"
proof -
  let ?i = "nat \<lfloor>v\<rfloor>"
  from lin_interp_index [OF assms(2,3)] have i: "Suc ?i < length s" "of_nat ?i \<le> v" "v - of_nat ?i < 1"
    by simp_all
  have d: "0 \<le> s ! Suc ?i - s ! ?i" using assms(1) i(1) by (simp add: sorted_nth_mono)
  have "0 \<le> (s ! Suc ?i - s ! ?i) * (v - of_nat ?i)" using d i(2) by simp
  moreover have "(s ! Suc ?i - s ! ?i) * (v - of_nat ?i) \<le> (s ! Suc ?i - s ! ?i) * 1"
    using d i(3) by (intro mult_left_mono) simp_all
  ultimately show ?thesis using assms(3) by (simp add: lin_interp_def Let_def)
qed

lemma lin_interp_bounds:
  assumes "sorted s" "s \<noteq> []" "0 \<le> v"
  shows "s ! 0 \<le> lin_interp s v \<and> lin_interp s v \<le> last s"
proof (cases "of_nat (length s) - 1 \<le> v")
  case True
  with assms show ?thesis by (simp add: lin_interp_def last_conv_nth sorted_nth_mono)
next
  case False
  then have v: "v < of_nat (length s) - 1" by simp
  let ?i = "nat \<lfloor>v\<rfloor>"
  have i: "Suc ?i < length s" using lin_interp_index(1) [OF assms(3) v] .
  have "s ! 0 \<le> s ! ?i" using assms(1) i by (simp add: sorted_nth_mono)
  moreover have "s ! Suc ?i \<le> last s" using assms(1,2) i by (simp add: last_conv_nth sorted_nth_mono)
  ultimately show ?thesis using lin_interp_between [OF assms(1,3) v] by linarith
qed


lemma sorted_nth0_Min:
  assumes "sorted s" "s \<noteq> []"
  shows "s ! 0 = Min (set s)"
proof (rule Min_eqI [symmetric])
  show "s ! 0 \<in> set s" using assms(2) by simp
  fix y assume "y \<in> set s"
  then obtain j where "j < length s" "y = s ! j" by (auto simp: in_set_conv_nth)
  then show "s ! 0 \<le> y" using assms(1) by (simp add: sorted_nth_mono)
qed simp

lemma sorted_last_Max:
  assumes "sorted s" "s \<noteq> []"
  shows "last s = Max (set s)"
proof (rule Max_eqI [symmetric])
  show "last s \<in> set s" using assms(2) by simp
  fix y assume "y \<in> set s"
  then obtain j where "j < length s" "y = s ! j" by (auto simp: in_set_conv_nth)
  then show "y \<le> last s" using assms by (simp add: sorted_nth_mono last_conv_nth)
qed simp

lemma sort_nth0_Min: "x \<noteq> [] \<Longrightarrow> sort x ! 0 = Min (set x)"
  using sorted_nth0_Min [of "sort x"] by simp

lemma sort_last_Max: "x \<noteq> [] \<Longrightarrow> last (sort x) = Max (set x)"
  using sorted_last_Max [of "sort x"] by simp

lemma lin_interp_inner:
  "v < of_nat (length s) - 1 \<Longrightarrow>
   lin_interp s v = s ! nat \<lfloor>v\<rfloor> + (s ! Suc (nat \<lfloor>v\<rfloor>) - s ! nat \<lfloor>v\<rfloor>) * (v - of_nat (nat \<lfloor>v\<rfloor>))"
  by (simp add: lin_interp_def Let_def)

text \<open>The interpolation is monotone in the virtual index.\<close>

lemma lin_interp_mono:
  assumes "sorted s" "0 \<le> v" "v \<le> w"
  shows "lin_interp s v \<le> lin_interp s w"
proof (cases "of_nat (length s) - 1 \<le> v")
  case True
  with assms(3) show ?thesis by (simp add: lin_interp_def)
next
  case False
  then have v: "v < of_nat (length s) - 1" by simp
  have ne: "s \<noteq> []" using v assms(2) by auto
  show ?thesis
  proof (cases "of_nat (length s) - 1 \<le> w")
    case True
    then show ?thesis using lin_interp_bounds [OF assms(1) ne assms(2)] by (simp add: lin_interp_def)
  next
    case False
    then have w: "w < of_nat (length s) - 1" by simp
    have w0: "0 \<le> w" using assms(2,3) by simp
    let ?i = "nat \<lfloor>v\<rfloor>" and ?j = "nat \<lfloor>w\<rfloor>"
    have ij: "?i \<le> ?j" using assms(3) by (simp add: floor_mono nat_mono)
    show ?thesis
    proof (cases "?i = ?j")
      case True
      have d: "0 \<le> s ! Suc ?i - s ! ?i"
        using assms(1) lin_interp_index(1) [OF assms(2) v] by (simp add: sorted_nth_mono)
      have "(s ! Suc ?i - s ! ?i) * (v - of_nat ?i) \<le> (s ! Suc ?i - s ! ?i) * (w - of_nat ?i)"
        using d assms(3) by (intro mult_left_mono) simp_all
      then show ?thesis using True by (simp add: lin_interp_inner [OF v] lin_interp_inner [OF w])
    next
      case False
      then have "Suc ?i \<le> ?j" using ij by simp
      then have "s ! Suc ?i \<le> s ! ?j"
        using assms(1) lin_interp_index(1) [OF w0 w] by (simp add: sorted_nth_mono)
      then show ?thesis using lin_interp_between [OF assms(1,2) v] lin_interp_between [OF assms(1) w0 w]
        by linarith
    qed
  qed
qed

subsection \<open>Percentile properties\<close>

lemma np_percentile_in_range:
  assumes "x \<noteq> []"
  shows "Min (set x) \<le> np_percentile x q \<and> np_percentile x q \<le> Max (set x)"
proof (cases "0 \<le> q")
  case True
  have "0 \<le> (of_nat (length x) - 1) * (q / 100 :: real)"
    using assms True by (cases x) simp_all
  then show ?thesis using lin_interp_bounds [of "sort x" "(of_nat (length x) - 1) * (q / 100)"] assms True
    by (simp add: np_percentile_lin_interp sort_nth0_Min sort_last_Max)
next
  case False
  then show ?thesis using assms
    by (simp add: np_percentile_nonpos sort_nth0_Min)
qed

lemma np_percentile_mono_nonneg:
  assumes "x \<noteq> []" "0 \<le> q" "q \<le> q'"
  shows "np_percentile x q \<le> np_percentile x q'"
proof -
  have n: "0 \<le> of_nat (length x) - (1::real)" using assms(1) by (cases x) simp_all
  have "(of_nat (length x) - 1) * (q / 100) \<le> (of_nat (length x) - 1) * (q' / 100 :: real)"
    using n assms(3) by (intro mult_left_mono) simp_all
  moreover have "0 \<le> (of_nat (length x) - 1) * (q / 100 :: real)" using n assms(2) by simp
  ultimately show ?thesis using assms lin_interp_mono [of "sort x"]
    by (simp add: np_percentile_lin_interp)
qed

lemma np_percentile_mono:
  assumes "x \<noteq> []" "q \<le> q'"
  shows "np_percentile x q \<le> np_percentile x q'"
proof (cases "0 \<le> q")
  case True
  then show ?thesis using np_percentile_mono_nonneg assms by blast
next
  case False
  then show ?thesis using assms np_percentile_in_range [of x q']
    by (simp add: np_percentile_nonpos sort_nth0_Min)
qed


lemma np_percentile_100:
  assumes "x \<noteq> []"
  shows "np_percentile x 100 = Max (set x)"
proof -
  have "last (sort x) = sort x ! (length x - 1)" using assms by (simp add: last_conv_nth)
  then show ?thesis using assms by (simp add: np_percentile_alt Let_def sort_last_Max)
qed

subsection \<open>Whiskers and fliers\<close>

lemma whisker_hi_ge: "q3 \<le> whisker_hi x q3 hival"
  by (simp add: whisker_hi_def Let_def not_less)

lemma whisker_lo_le: "whisker_lo x q1 loval \<le> q1"
  by (simp add: whisker_lo_def Let_def not_less)

lemma whisker_hi_le_Max:
  assumes "x \<noteq> []" "q3 \<le> Max (set x)"
  shows "whisker_hi x q3 hival \<le> Max (set x)"
proof -
  have "filter (\<lambda>v. v \<le> hival) x \<noteq> [] \<Longrightarrow> Max (set (filter (\<lambda>v. v \<le> hival) x)) \<le> Max (set x)"
    by (rule Max_mono) (auto simp: filter_empty_conv)
  then show ?thesis using assms(2) by (simp add: whisker_hi_def Let_def)
qed

lemma whisker_lo_ge_Min:
  assumes "x \<noteq> []" "Min (set x) \<le> q1"
  shows "Min (set x) \<le> whisker_lo x q1 loval"
proof -
  have "filter (\<lambda>v. loval \<le> v) x \<noteq> [] \<Longrightarrow> Min (set x) \<le> Min (set (filter (\<lambda>v. loval \<le> v) x))"
    by (rule Min_antimono) (auto simp: filter_empty_conv)
  then show ?thesis using assms(2) by (simp add: whisker_lo_def Let_def)
qed

text \<open>With the fence above the box, an observation is beyond the high whisker exactly
  when it is beyond the fence.\<close>

lemma whisker_hi_less_iff:
  assumes "q3 \<le> hival" "v \<in> set x"
  shows "whisker_hi x q3 hival < v \<longleftrightarrow> hival < v"
proof -
  let ?W = "filter (\<lambda>v. v \<le> hival) x"
  have W: "w \<le> hival" if "w \<in> set ?W" for w using that by simp
  show ?thesis
  proof (cases "?W = [] \<or> Max (set ?W) < q3")
    case True
    have "v \<le> hival \<Longrightarrow> v \<le> Max (set ?W) \<and> ?W \<noteq> []" using assms(2) by (auto intro: Max_ge simp: filter_empty_conv)
    then show ?thesis using True assms(1) by (cases "v \<le> hival") (auto simp: whisker_hi_def Let_def)
  next
    case False
    then have "Max (set ?W) \<in> set ?W" by (intro Max_in) (auto simp: filter_empty_conv)
    then have "Max (set ?W) \<le> hival" by (rule W)
    moreover have "v \<le> hival \<Longrightarrow> v \<le> Max (set ?W)" using assms(2) by (auto intro: Max_ge)
    ultimately show ?thesis using False by (cases "v \<le> hival") (auto simp: whisker_hi_def Let_def)
  qed
qed

lemma whisker_lo_greater_iff:
  assumes "loval \<le> q1" "v \<in> set x"
  shows "v < whisker_lo x q1 loval \<longleftrightarrow> v < loval"
proof -
  let ?W = "filter (\<lambda>v. loval \<le> v) x"
  have W: "loval \<le> w" if "w \<in> set ?W" for w using that by simp
  show ?thesis
  proof (cases "?W = [] \<or> q1 < Min (set ?W)")
    case True
    have "loval \<le> v \<Longrightarrow> Min (set ?W) \<le> v \<and> ?W \<noteq> []" using assms(2) by (auto intro: Min_le simp: filter_empty_conv)
    then show ?thesis using True assms(1) by (cases "loval \<le> v") (auto simp: whisker_lo_def Let_def)
  next
    case False
    then have "Min (set ?W) \<in> set ?W" by (intro Min_in) (auto simp: filter_empty_conv)
    then have "loval \<le> Min (set ?W)" by (rule W)
    moreover have "loval \<le> v \<Longrightarrow> Min (set ?W) \<le> v" using assms(2) by (auto intro: Min_le)
    ultimately show ?thesis using False by (cases "loval \<le> v") (auto simp: whisker_lo_def Let_def)
  qed
qed

lemma fliers_of_fences:
  assumes "loval \<le> q1" "q3 \<le> hival"
  shows "fliers_of x (whisker_lo x q1 loval) (whisker_hi x q3 hival) =
         filter (\<lambda>v. v < loval) x @ filter (\<lambda>v. hival < v) x"
  unfolding fliers_of_def
  using whisker_lo_greater_iff [OF assms(1)] whisker_hi_less_iff [OF assms(2)]
  by (simp cong: filter_cong)


lemma np_percentile_mid_odd:
  assumes "length x = 2 * k + 1"
  shows "np_percentile x 50 = sort x ! k"
proof (cases "k = 0")
  case True
  then have "x \<noteq> []" using assms by auto
  then show ?thesis using assms True np_percentile_lin_interp [of x 50]
    by (simp add: lin_interp_def last_conv_nth)
next
  case False
  have x: "x \<noteq> []" using assms by auto
  have v: "(of_nat (length x) - 1) * (50 / 100) = (of_nat k :: real)" using assms by simp
  have "of_nat k < of_nat (length (sort x)) - (1::real)" using assms False by simp
  then show ?thesis using np_percentile_lin_interp [of x 50] x
    by (simp only: v lin_interp_inner) simp
qed

lemma np_percentile_mid_even:
  assumes "length x = 2 * k + 2"
  shows "np_percentile x 50 = (sort x ! k + sort x ! Suc k) / 2"
proof -
  have x: "x \<noteq> []" using assms by auto
  have v: "(of_nat (length x) - 1) * (50 / 100) = of_nat k + (1 / 2 :: real)" using assms by simp
  have fl: "\<lfloor>of_nat k + (1 / 2 :: real)\<rfloor> = int k" by (rule floor_unique) simp_all
  have lt: "of_nat k + 1 / 2 < of_nat (length (sort x)) - (1::real)" using assms by simp
  have "np_percentile x 50 = lin_interp (sort x) ((of_nat (length x) - 1) * (50 / 100))"
    using np_percentile_lin_interp [of x 50] x by simp
  also have "\<dots> = lin_interp (sort x) (of_nat k + 1 / 2)" by (simp only: v)
  also have "\<dots> = sort x ! k + (sort x ! Suc k - sort x ! k) * (of_nat k + 1 / 2 - of_nat k)"
    by (simp only: lin_interp_inner [OF lt] fl nat_int)
  also have "\<dots> = (sort x ! k + sort x ! Suc k) / 2" by (simp add: field_simps)
  finally show ?thesis .
qed

lemma boxplot_stats_one_fields:
  assumes "x \<noteq> []"
  shows "bx_q1 (boxplot_stats_one whis x l) = Fin (np_percentile x 25)"
    and "bx_med (boxplot_stats_one whis x l) = Fin (np_percentile x 50)"
    and "bx_q3 (boxplot_stats_one whis x l) = Fin (np_percentile x 75)"
    and "bx_whislo (boxplot_stats_one whis x l) = Fin (whisker_lo x (np_percentile x 25)
           (np_percentile x 25 - whis * (np_percentile x 75 - np_percentile x 25)))"
    and "bx_whishi (boxplot_stats_one whis x l) = Fin (whisker_hi x (np_percentile x 75)
           (np_percentile x 75 + whis * (np_percentile x 75 - np_percentile x 25)))"
    and "bx_fliers (boxplot_stats_one whis x l) =
           fliers_of x (whisker_lo x (np_percentile x 25) (np_percentile x 25 - whis * (np_percentile x 75 - np_percentile x 25)))
             (whisker_hi x (np_percentile x 75) (np_percentile x 75 + whis * (np_percentile x 75 - np_percentile x 25)))"
  using assms by (simp_all add: boxplot_stats_one_def Let_def split_beta)

lemma np_quartiles_ordered:
  assumes "x \<noteq> []"
  shows "np_percentile x 25 \<le> np_percentile x 50" and "np_percentile x 50 \<le> np_percentile x 75"
  using np_percentile_mono [OF assms] by simp_all

subsection \<open>Properties of the boxes\<close>

text \<open>C19. The line drawn in each box is the textbook median of the sample: its middle
  observation when the size is odd, the mean of its two middle observations when it is even.\<close>

theorem np_percentile_median:
  assumes "x \<noteq> []"
  shows "np_percentile x 50 =
    (let s = sort x; n = length x
     in if odd n then s ! (n div 2) else (s ! (n div 2 - 1) + s ! (n div 2)) / 2)"
proof (cases "odd (length x)")
  case True
  then obtain k where "length x = 2 * k + 1" by (auto elim: oddE)
  then show ?thesis by (simp add: np_percentile_mid_odd)
next
  case False
  then obtain m where m: "length x = 2 * m" by (auto elim: evenE)
  with assms obtain k where "m = Suc k" by (cases m) auto
  with m have "length x = 2 * k + 2" by simp
  then show ?thesis by (simp add: np_percentile_mid_even Let_def)
qed


text \<open>C20. The box of a non-empty sample is ordered: low whisker, first quartile, median,
  third quartile and high whisker are finite and increase in that order, and both whiskers
  lie within the range of the observations.\<close>

theorem boxplot_box_ordered:
  assumes "x \<noteq> []"
  shows "(let r = boxplot_stats_one whis x l
          in fle (Fin (Min (set x))) (bx_whislo r) \<and> fle (bx_whislo r) (bx_q1 r) \<and>
             fle (bx_q1 r) (bx_med r) \<and> fle (bx_med r) (bx_q3 r) \<and>
             fle (bx_q3 r) (bx_whishi r) \<and> fle (bx_whishi r) (Fin (Max (set x))))"
  using assms np_quartiles_ordered [OF assms] np_percentile_in_range [OF assms, of 25]
    np_percentile_in_range [OF assms, of 75]
  by (simp add: boxplot_stats_one_fields whisker_lo_le whisker_hi_ge whisker_lo_ge_Min whisker_hi_le_Max)

text \<open>C21. With a non-negative \<open>whis\<close> the fliers of a non-empty sample are exactly its
  observations below \<open>q1 - whis iqr\<close> followed by those above \<open>q3 + whis iqr\<close>, each group in
  the order of the sample.\<close>

theorem boxplot_fliers_fences:
  assumes "x \<noteq> []" "0 \<le> whis"
  shows "bx_fliers (boxplot_stats_one whis x l) =
    (let q1 = np_percentile x 25; q3 = np_percentile x 75; iqr = q3 - q1
     in filter (\<lambda>v. v < q1 - whis * iqr) x @ filter (\<lambda>v. q3 + whis * iqr < v) x)"
proof -
  have "0 \<le> np_percentile x 75 - np_percentile x 25" using np_quartiles_ordered [OF assms(1)] by simp
  then have "0 \<le> whis * (np_percentile x 75 - np_percentile x 25)" using assms(2) by simp
  then show ?thesis using assms(1) by (simp add: boxplot_stats_one_fields fliers_of_fences Let_def)
qed

text \<open>C22. The quartiles do not depend on the order of the observations: two samples with
  the same multiset of values have the same percentiles.\<close>

theorem np_percentile_mset:
  assumes "mset x = mset y"
  shows "np_percentile x q = np_percentile y q"
proof -
  have "sort x = sort y" using assms by (simp add: properties_for_sort)
  then show ?thesis by (simp add: np_percentile_def)
qed

end
