(* ===== verification/Format.thy ===== *)
theory Format
  imports Float
begin

text \<open>
  Python's float formatting as the script's f-strings use it on lines 40 to 42:
  \<open>{t:.4f}\<close> (fixed point, \<open>format_f 4\<close>) and \<open>{p:.4e}\<close> (scientific,
  \<open>format_e 4\<close>). CPython formats a float through \<open>PyOS_double_to_string\<close>, which
  rounds the exact value correctly, ties to even, to the number of places asked for and
  spells NaN and the infinities \<open>nan\<close>, \<open>inf\<close>, \<open>-inf\<close>. The sign is that of the
  value, also when it rounds to zero. A reference parser for the strings these formats
  produce (the subset of Python's \<open>float()\<close> syntax they use) states what the printed
  text means.
\<close>

subsection \<open>Digits\<close>

definition digit_chars :: string where
  "digit_chars = ''0123456789''"

text \<open>\<open>str(n)\<close> of a non-negative int: its decimal digits, most significant first.\<close>

fun nat_str :: "nat \<Rightarrow> string" where
  "nat_str n = (if n < 10 then [digit_chars ! n] else nat_str (n div 10) @ [digit_chars ! (n mod 10)])"

text \<open>Zero padding on the left to at least \<open>k\<close> characters (\<open>%0kd\<close>).\<close>

definition zpad :: "nat \<Rightarrow> string \<Rightarrow> string" where
  "zpad k s = replicate (k - length s) (CHR ''0'') @ s"

text \<open>Rounding to the nearest integer, ties to even (\<open>_Py_dg_dtoa\<close>'s rounding mode).\<close>

definition round_half_even :: "real \<Rightarrow> int" where
  "round_half_even y =
     (let n = \<lfloor>y\<rfloor>; r = y - of_int n
      in if r < 1 / 2 then n else if 1 / 2 < r then n + 1 else if even n then n else n + 1)"

definition sign_str :: "real \<Rightarrow> string" where
  "sign_str x = (if x < 0 then ''-'' else '''')"

text \<open>The digits of \<open>m / 10^prec\<close>: the integer part, and the point and \<open>prec\<close>
  fraction digits unless \<open>prec = 0\<close>.\<close>

definition point_digits :: "nat \<Rightarrow> nat \<Rightarrow> string" where
  "point_digits prec m =
     nat_str (m div 10 ^ prec) @ (if prec = 0 then [] else CHR ''.'' # zpad prec (nat_str (m mod 10 ^ prec)))"

subsection \<open>The two formats\<close>

text \<open>\<open>format(x, '.{prec}f')\<close>.\<close>

fun format_f :: "nat \<Rightarrow> flt \<Rightarrow> string" where
  "format_f prec (Fin x) = sign_str x @ point_digits prec (nat (round_half_even (\<bar>x\<bar> * 10 ^ prec)))"
| "format_f prec PInf = ''inf''"
| "format_f prec NInf = ''-inf''"
| "format_f prec NaN = ''nan''"

text \<open>The decimal exponent of a non-zero value: \<open>10^e \<le> |x| < 10^(e+1)\<close>.\<close>

definition dec_exp :: "real \<Rightarrow> int" where
  "dec_exp y = \<lfloor>log 10 y\<rfloor>"

text \<open>\<open>format(x, '.{prec}e')\<close>: \<open>prec + 1\<close> significant digits; a mantissa that rounds up
  to \<open>10\<close> moves to the next exponent; the exponent has a sign and at least two digits.\<close>

definition exp_str :: "int \<Rightarrow> string" where
  "exp_str e = CHR ''e'' # (if e < 0 then CHR ''-'' else CHR ''+'') # zpad 2 (nat_str (nat \<bar>e\<bar>))"

fun format_e :: "nat \<Rightarrow> flt \<Rightarrow> string" where
  "format_e prec (Fin x) =
     (if x = 0 then point_digits prec 0 @ exp_str 0
      else (let e0 = dec_exp \<bar>x\<bar>;
                m0 = nat (round_half_even (\<bar>x\<bar> / 10 powi (e0 - int prec)));
                (m, e) = (if m0 = 10 ^ Suc prec then (10 ^ prec, e0 + 1) else (m0, e0))
            in sign_str x @ point_digits prec m @ exp_str e))"
| "format_e prec PInf = ''inf''"
| "format_e prec NInf = ''-inf''"
| "format_e prec NaN = ''nan''"

subsection \<open>Reading the printed text back\<close>

definition digit_val :: "char \<Rightarrow> nat option" where
  "digit_val c = (let k = of_char c :: nat in if 48 \<le> k \<and> k \<le> 57 then Some (k - 48) else None)"

fun digits_acc :: "nat \<Rightarrow> string \<Rightarrow> nat option" where
  "digits_acc a [] = Some a"
| "digits_acc a (c # cs) = (case digit_val c of None \<Rightarrow> None | Some d \<Rightarrow> digits_acc (10 * a + d) cs)"

definition digits_val :: "string \<Rightarrow> nat option" where
  "digits_val s = (if s = [] then None else digits_acc 0 s)"

text \<open>\<open>digits[.digits]\<close>.\<close>

definition parse_mantissa :: "string \<Rightarrow> real option" where
  "parse_mantissa s =
     (let ip = takeWhile (\<lambda>c. c \<noteq> CHR ''.'') s; rest = dropWhile (\<lambda>c. c \<noteq> CHR ''.'') s
      in case digits_val ip of None \<Rightarrow> None
         | Some i \<Rightarrow> if rest = [] then Some (of_nat i)
                    else (case digits_val (tl rest) of None \<Rightarrow> None
                          | Some f \<Rightarrow> Some (of_nat i + of_nat f / 10 ^ length (tl rest))))"

text \<open>\<open>(+|-)digits\<close>.\<close>

definition parse_exponent :: "string \<Rightarrow> int option" where
  "parse_exponent s =
     (if s = [] then None
      else if hd s = CHR ''+'' then map_option int (digits_val (tl s))
      else if hd s = CHR ''-'' then map_option (\<lambda>d. - int d) (digits_val (tl s))
      else None)"

definition parse_unsigned :: "string \<Rightarrow> flt option" where
  "parse_unsigned s =
     (if s = ''nan'' then Some NaN else if s = ''inf'' then Some PInf
      else (let mant = takeWhile (\<lambda>c. c \<noteq> CHR ''e'') s; ex = dropWhile (\<lambda>c. c \<noteq> CHR ''e'') s
            in case parse_mantissa mant of None \<Rightarrow> None
               | Some v \<Rightarrow> if ex = [] then Some (Fin v)
                          else map_option (\<lambda>e. Fin (v * 10 powi e)) (parse_exponent (tl ex))))"

definition parse_float :: "string \<Rightarrow> flt option" where
  "parse_float s =
     (if s \<noteq> [] \<and> hd s = CHR ''-'' then map_option fneg (parse_unsigned (tl s)) else parse_unsigned s)"


subsection \<open>Digit strings read back\<close>

declare nat_str.simps [simp del]

lemma nat_str_small: "n < 10 \<Longrightarrow> nat_str n = [digit_chars ! n]"
  by (subst nat_str.simps) simp

lemma nat_str_big: "\<not> n < 10 \<Longrightarrow> nat_str n = nat_str (n div 10) @ [digit_chars ! (n mod 10)]"
  by (subst nat_str.simps) simp

lemma digit_val_digit: "d < 10 \<Longrightarrow> digit_val (digit_chars ! d) = Some d"
proof -
  assume "d < 10"
  then have "d \<in> {0, 1, 2, 3, 4, 5, 6, 7, 8, 9}" by auto
  then show ?thesis by (auto simp: digit_chars_def digit_val_def)
qed

lemma digit_chars_nonsep:
  "d < 10 \<Longrightarrow> digit_chars ! d \<noteq> CHR ''.'' \<and> digit_chars ! d \<noteq> CHR ''e'' \<and>
     digit_chars ! d \<noteq> CHR ''-'' \<and> digit_chars ! d \<noteq> CHR ''+'' \<and> digit_chars ! d \<noteq> CHR ''n'' \<and>
     digit_chars ! d \<noteq> CHR ''i''"
proof -
  assume "d < 10"
  then have "d \<in> {0, 1, 2, 3, 4, 5, 6, 7, 8, 9}" by auto
  then show ?thesis by (auto simp: digit_chars_def)
qed

lemma nat_str_Cons: "\<exists>d cs. d < 10 \<and> nat_str n = digit_chars ! d # cs"
proof (induction n rule: nat_str.induct)
  case (1 n)
  show ?case
  proof (cases "n < 10")
    case True
    then show ?thesis by (subst nat_str.simps) auto
  next
    case False
    then obtain d cs where "d < 10" "nat_str (n div 10) = digit_chars ! d # cs" using 1 by blast
    then show ?thesis using False by (subst nat_str.simps) auto
  qed
qed

lemma nat_str_ne [simp]: "nat_str n \<noteq> []"
  using nat_str_Cons [of n] by auto

lemma nat_str_chars: "c \<in> set (nat_str n) \<Longrightarrow> \<exists>d < 10. c = digit_chars ! d"
proof (induction n rule: nat_str.induct)
  case (1 n)
  show ?case
  proof (cases "n < 10")
    case True
    then show ?thesis using 1(2) by (subst (asm) nat_str.simps) auto
  next
    case False
    then have "c \<in> set (nat_str (n div 10)) \<or> c = digit_chars ! (n mod 10)"
      using 1(2) by (subst (asm) nat_str.simps) auto
    then show ?thesis
    proof
      assume "c \<in> set (nat_str (n div 10))"
      then show ?thesis using 1(1) False by blast
    next
      assume "c = digit_chars ! (n mod 10)"
      then show ?thesis by (intro exI [of _ "n mod 10"]) simp
    qed
  qed
qed

lemma nat_str_nonsep:
  "CHR ''.'' \<notin> set (nat_str n)" "CHR ''e'' \<notin> set (nat_str n)"
proof -
  have "c \<noteq> CHR ''.'' \<and> c \<noteq> CHR ''e''" if c: "c \<in> set (nat_str n)" for c
  proof -
    obtain d where "d < 10" "c = digit_chars ! d" using nat_str_chars [OF c] by blast
    then show ?thesis using digit_chars_nonsep [of d] by simp
  qed
  then show "CHR ''.'' \<notin> set (nat_str n)" "CHR ''e'' \<notin> set (nat_str n)" by blast+
qed

lemma nat_str_hd: "hd (nat_str n) \<noteq> CHR ''-'' \<and> nat_str n \<noteq> ''nan'' \<and> nat_str n \<noteq> ''inf''"
proof -
  obtain d cs where d: "d < 10" "nat_str n = digit_chars ! d # cs" using nat_str_Cons [of n] by blast
  then show ?thesis using digit_chars_nonsep [OF d(1)] by simp
qed

lemma length_nat_str:
  "length (nat_str n) = (if n < 10 then 1 else Suc (length (nat_str (n div 10))))"
  by (subst nat_str.simps) simp

lemma length_nat_str_le: "n < 10 ^ k \<Longrightarrow> 0 < k \<Longrightarrow> length (nat_str n) \<le> k"
proof (induction n arbitrary: k rule: nat_str.induct)
  case (1 n)
  show ?case
  proof (cases "n < 10")
    case True
    then show ?thesis using 1(3) by (simp add: length_nat_str)
  next
    case False
    then obtain k' where k: "k = Suc k'" using 1(3) by (cases k) auto
    have "n div 10 < 10 ^ k'" using 1(2) k by (simp add: div_less_iff_less_mult mult.commute)
    moreover have "0 < k'" using False 1(2) k by (cases k') auto
    ultimately show ?thesis using 1(1) False k by (simp add: length_nat_str)
  qed
qed

lemma digits_acc_append:
  "digits_acc a (xs @ ys) = (case digits_acc a xs of None \<Rightarrow> None | Some b \<Rightarrow> digits_acc b ys)"
  by (induction xs arbitrary: a) (auto split: option.splits)

lemma digits_acc_nat_str: "digits_acc a (nat_str n) = Some (a * 10 ^ length (nat_str n) + n)"
proof (induction n arbitrary: a rule: nat_str.induct)
  case (1 n)
  show ?case
  proof (cases "n < 10")
    case True
    then show ?thesis by (subst nat_str.simps) (simp add: digit_val_digit length_nat_str)
  next
    case False
    have "10 * (a * 10 ^ length (nat_str (n div 10)) + n div 10) + n mod 10
          = a * 10 ^ Suc (length (nat_str (n div 10))) + n" by simp
    then show ?thesis using 1 False
      by (subst nat_str.simps) (simp add: digits_acc_append digit_val_digit length_nat_str)
  qed
qed

lemma digits_acc_zeros: "digits_acc a (replicate k (CHR ''0'') @ s) = digits_acc (a * 10 ^ k) s"
  by (induction k arbitrary: a) (simp_all add: digit_val_def ac_simps)

lemma digits_val_nat_str [simp]: "digits_val (nat_str n) = Some n"
  by (simp add: digits_val_def digits_acc_nat_str)

lemma digits_val_zpad [simp]: "digits_val (zpad k (nat_str n)) = Some n"
  by (simp add: digits_val_def zpad_def digits_acc_zeros digits_acc_nat_str)


lemma takeWhile_neq: "a \<notin> set s \<Longrightarrow> takeWhile (\<lambda>c. c \<noteq> a) s = s"
  by (induction s) auto

lemma dropWhile_neq: "a \<notin> set s \<Longrightarrow> dropWhile (\<lambda>c. c \<noteq> a) s = []"
  by (induction s) auto

lemma takeWhile_neq_append: "a \<notin> set s \<Longrightarrow> takeWhile (\<lambda>c. c \<noteq> a) (s @ a # t) = s"
  by (induction s) auto

lemma dropWhile_neq_append: "a \<notin> set s \<Longrightarrow> dropWhile (\<lambda>c. c \<noteq> a) (s @ a # t) = a # t"
  by (induction s) auto

lemma length_zpad: "length s \<le> k \<Longrightarrow> length (zpad k s) = k"
  by (simp add: zpad_def)

lemma zpad_nonsep: "c \<in> set (zpad k (nat_str n)) \<Longrightarrow> c \<noteq> CHR ''.'' \<and> c \<noteq> CHR ''e''"
  using nat_str_nonsep [of n] by (auto simp: zpad_def)

subsection \<open>Rounding\<close>

lemma round_half_even_err: "\<bar>of_int (round_half_even y) - y\<bar> \<le> 1 / 2"
proof -
  have "of_int \<lfloor>y\<rfloor> \<le> y" "y < of_int \<lfloor>y\<rfloor> + 1" by linarith+
  then show ?thesis by (simp add: round_half_even_def Let_def abs_le_iff)
qed

lemma round_half_even_nonneg: "0 \<le> y \<Longrightarrow> 0 \<le> round_half_even y"
  by (simp add: round_half_even_def Let_def)

lemma of_nat_round_half_even:
  "0 \<le> y \<Longrightarrow> real (nat (round_half_even y)) = of_int (round_half_even y)"
  by (simp add: round_half_even_nonneg)

lemma round_half_even_eqI:
  assumes "of_int n - 1 / 2 < y" "y < of_int n + 1 / 2"
  shows "round_half_even y = n"
proof (cases "of_int n \<le> y")
  case True
  then have "\<lfloor>y\<rfloor> = n" using assms(2) by (intro floor_unique) simp_all
  then show ?thesis using assms(2) by (simp add: round_half_even_def Let_def)
next
  case False
  then have "\<lfloor>y\<rfloor> = n - 1" using assms(1) by (intro floor_unique) simp_all
  then show ?thesis using assms(1) by (simp add: round_half_even_def Let_def)
qed

lemma dec_exp_eqI:
  assumes "10 powi e \<le> y" "y < 10 powi (e + 1)"
  shows "dec_exp y = e"
proof -
  have y: "0 < y" using assms(1) by (rule order.strict_trans2 [rotated]) simp
  have "10 powr real_of_int e = 10 powi e" and "10 powr real_of_int (e + 1) = 10 powi (e + 1)"
    by (rule powr_real_of_int', simp, simp)+
  then show ?thesis using assms floor_log_eq_powr_iff [OF y, of 10 e] by (simp add: dec_exp_def del: of_int_add)
qed

subsection \<open>The printed numbers read back\<close>

lemma not_special_hd:
  "s \<noteq> [] \<Longrightarrow> hd s \<noteq> CHR ''n'' \<Longrightarrow> hd s \<noteq> CHR ''i'' \<Longrightarrow> s \<noteq> ''nan'' \<and> s \<noteq> ''inf''"
  by auto

lemma point_digits_nonsep:
  "CHR ''.'' \<notin> set (nat_str (m div 10 ^ prec))" "CHR ''e'' \<notin> set (point_digits prec m)"
  using nat_str_nonsep by (auto simp: point_digits_def dest: zpad_nonsep)

lemma point_digits_hd:
  "point_digits prec m \<noteq> [] \<and> hd (point_digits prec m) \<noteq> CHR ''-'' \<and>
   hd (point_digits prec m) \<noteq> CHR ''n'' \<and> hd (point_digits prec m) \<noteq> CHR ''i''"
proof -
  obtain d cs where d: "d < 10" "nat_str (m div 10 ^ prec) = digit_chars ! d # cs"
    using nat_str_Cons by blast
  then show ?thesis using digit_chars_nonsep [OF d(1)] by (auto simp: point_digits_def)
qed

lemma parse_mantissa_point_digits:
  "parse_mantissa (point_digits prec m) = Some (of_nat m / 10 ^ prec)"
proof (cases "prec = 0")
  case True
  then show ?thesis using nat_str_nonsep(1) [of m]
    by (simp add: point_digits_def parse_mantissa_def Let_def takeWhile_neq dropWhile_neq)
next
  case False
  let ?q = "m div 10 ^ prec" and ?r = "m mod 10 ^ prec"
  have len: "length (zpad prec (nat_str ?r)) = prec"
    using False by (intro length_zpad length_nat_str_le) simp_all
  have "real ?q + real ?r / 10 ^ prec = real m / 10 ^ prec"
  proof -
    have "real m = real (?q * 10 ^ prec + ?r)" by (simp only: div_mult_mod_eq)
    also have "\<dots> = real ?q * 10 ^ prec + real ?r" by simp
    finally have "real m = real ?q * 10 ^ prec + real ?r" .
    then show ?thesis by (simp add: field_simps)
  qed
  then show ?thesis using False nat_str_nonsep(1) [of ?q] len
    by (simp add: point_digits_def parse_mantissa_def Let_def takeWhile_neq_append dropWhile_neq_append)
qed

lemma parse_exponent_exp_str: "parse_exponent (tl (exp_str e)) = Some e"
  by (simp add: exp_str_def parse_exponent_def)

lemma parse_unsigned_point_digits:
  "parse_unsigned (point_digits prec m) = Some (Fin (of_nat m / 10 ^ prec))"
  using point_digits_hd [of prec m] point_digits_nonsep(2) [of prec m] not_special_hd [of "point_digits prec m"]
  by (simp add: parse_unsigned_def Let_def takeWhile_neq dropWhile_neq parse_mantissa_point_digits)

lemma parse_unsigned_point_digits_exp:
  "parse_unsigned (point_digits prec m @ exp_str e) = Some (Fin (of_nat m / 10 ^ prec * 10 powi e))"
proof -
  have "point_digits prec m @ exp_str e \<noteq> ''nan'' \<and> point_digits prec m @ exp_str e \<noteq> ''inf''"
    using point_digits_hd [of prec m] not_special_hd [of "point_digits prec m @ exp_str e"] by simp
  moreover obtain rest where ex: "exp_str e = CHR ''e'' # rest" by (simp add: exp_str_def)
  moreover have "parse_exponent rest = Some e" using parse_exponent_exp_str [of e] by (simp add: ex)
  ultimately show ?thesis using point_digits_nonsep(2) [of prec m]
    by (simp add: parse_unsigned_def Let_def takeWhile_neq_append dropWhile_neq_append
        parse_mantissa_point_digits)
qed

lemma parse_float_signed:
  assumes "s \<noteq> []" "hd s \<noteq> CHR ''-''"
  shows "parse_float (sign_str x @ s) = map_option (if x < 0 then fneg else id) (parse_unsigned s)"
proof -
  show ?thesis using assms by (simp add: sign_str_def parse_float_def option.map_id)
qed


lemma parse_float_point_digits:
  "parse_float (sign_str x @ point_digits prec m) =
     Some (Fin (if x < 0 then - (of_nat m / 10 ^ prec) else of_nat m / 10 ^ prec))"
  using point_digits_hd [of prec m] by (simp add: parse_float_signed parse_unsigned_point_digits)

lemma parse_float_point_digits_exp:
  "parse_float (sign_str x @ point_digits prec m @ exp_str e) =
     Some (Fin (if x < 0 then - (of_nat m / 10 ^ prec * 10 powi e) else of_nat m / 10 ^ prec * 10 powi e))"
  using point_digits_hd [of prec m]
  by (simp add: parse_float_signed [where s = "point_digits prec m @ exp_str e", simplified]
      parse_unsigned_point_digits_exp)

lemma parse_float_special:
  "parse_float ''nan'' = Some NaN" "parse_float ''inf'' = Some PInf" "parse_float ''-inf'' = Some NInf"
  by (simp_all add: parse_float_def parse_unsigned_def)

text \<open>Rounding \<open>a \<ge> 0\<close> to \<open>prec\<close> places moves it by at most half a unit in the last place.\<close>

lemma fixed_round_err:
  assumes "0 \<le> a"
  shows "\<bar>of_nat (nat (round_half_even (a * 10 ^ prec))) / 10 ^ prec - a\<bar> \<le> 1 / (2 * 10 ^ prec)"
proof -
  let ?r = "of_int (round_half_even (a * 10 ^ prec)) :: real"
  have e: "\<bar>?r - a * 10 ^ prec\<bar> \<le> 1 / 2" by (rule round_half_even_err)
  have "?r / 10 ^ prec - a = (?r - a * 10 ^ prec) / 10 ^ prec" by (simp add: field_simps)
  then have "\<bar>?r / 10 ^ prec - a\<bar> = \<bar>?r - a * 10 ^ prec\<bar> / 10 ^ prec" by simp
  also have "\<dots> \<le> (1 / 2) / 10 ^ prec" using e by (intro divide_right_mono) simp_all
  finally show ?thesis using assms by (simp add: of_nat_round_half_even)
qed

lemma signed_err:
  "\<bar>a - \<bar>x\<bar>\<bar> \<le> d \<Longrightarrow> \<bar>(if x < 0 then - a else a) - x\<bar> \<le> (d::real)"
  by (cases "x < 0") (simp_all add: abs_if split: if_splits)

lemma dec_exp_bounds:
  assumes "0 < y"
  shows "10 powi dec_exp y \<le> y" and "y < 10 powi (dec_exp y + 1)"
proof -
  have "\<lfloor>log 10 y\<rfloor> = dec_exp y" by (simp add: dec_exp_def)
  then have b: "10 powr real_of_int (dec_exp y) \<le> y \<and> y < 10 powr real_of_int (dec_exp y + 1)"
    using floor_log_eq_powr_iff [OF assms, of 10] by (simp del: of_int_add)
  have "10 powr real_of_int (dec_exp y) = 10 powi dec_exp y"
    and "10 powr real_of_int (dec_exp y + 1) = 10 powi (dec_exp y + 1)"
    by (rule powr_real_of_int', simp, simp)+
  with b show "10 powi dec_exp y \<le> y" and "y < 10 powi (dec_exp y + 1)" by simp_all
qed

lemma carry_value:
  assumes "(if m0 = 10 ^ Suc prec then (10 ^ prec, e0 + 1) else (m0, e0)) = (m, e)"
  shows "of_nat m / 10 ^ prec * 10 powi e = of_nat m0 * (10 powi (e0 - int prec) :: real)"
proof (cases "m0 = 10 ^ Suc prec")
  case True
  then have "m = 10 ^ prec" "e = e0 + 1" using assms by simp_all
  then show ?thesis using True by (simp add: power_int_diff power_int_add_1 power_int_of_nat)
next
  case False
  then have "m = m0" "e = e0" using assms by simp_all
  then show ?thesis by (simp add: power_int_diff power_int_of_nat)
qed

lemma sci_round_err:
  assumes "0 < a"
  shows "\<bar>of_nat (nat (round_half_even (a / 10 powi (dec_exp a - int prec)))) * 10 powi (dec_exp a - int prec) - a\<bar>
         \<le> a / (2 * 10 ^ prec)"
proof -
  let ?u = "10 powi (dec_exp a - int prec) :: real"
  let ?r = "of_int (round_half_even (a / ?u)) :: real"
  have u: "0 < ?u" by simp
  have "0 \<le> a / ?u" using assms u by simp
  then have r: "of_nat (nat (round_half_even (a / ?u))) = ?r" by (rule of_nat_round_half_even)
  have "?r * ?u - a = (?r - a / ?u) * ?u" using u by (simp add: field_simps)
  then have "\<bar>?r * ?u - a\<bar> = \<bar>?r - a / ?u\<bar> * ?u" using u by (simp add: abs_mult)
  also have "\<dots> \<le> 1 / 2 * ?u" using round_half_even_err u by (intro mult_right_mono) simp_all
  finally have e: "\<bar>?r * ?u - a\<bar> \<le> 1 / 2 * ?u" .
  have "?u = 10 powi dec_exp a / 10 ^ prec" by (simp add: power_int_diff power_int_of_nat)
  then have "1 / 2 * ?u \<le> a / (2 * 10 ^ prec)"
    using dec_exp_bounds(1) [OF assms] by (simp add: field_simps)
  with e have "\<bar>?r * ?u - a\<bar> \<le> a / (2 * 10 ^ prec)" by linarith
  then show ?thesis by (simp only: r)
qed

subsection \<open>The printed text denotes the value\<close>

text \<open>C23. What \<open>{t:.4f}\<close> prints reads back as the value it formats: NaN and the
  infinities exactly, a finite value to within half a unit in the last printed place.\<close>

theorem format_f_roundtrip:
  "case v of Fin x \<Rightarrow> \<exists>y. parse_float (format_f prec v) = Some (Fin y) \<and> \<bar>y - x\<bar> \<le> 1 / (2 * 10 ^ prec)
   | _ \<Rightarrow> parse_float (format_f prec v) = Some v"
proof (cases v)
  case (Fin x)
  have "\<bar>(if x < 0 then - (of_nat (nat (round_half_even (\<bar>x\<bar> * 10 ^ prec))) / 10 ^ prec)
           else of_nat (nat (round_half_even (\<bar>x\<bar> * 10 ^ prec))) / 10 ^ prec) - x\<bar> \<le> 1 / (2 * 10 ^ prec)"
    by (intro signed_err fixed_round_err) simp
  then show ?thesis using Fin by (simp add: parse_float_point_digits)
qed (simp_all add: parse_float_special)

text \<open>C24. What \<open>{p:.4e}\<close> prints reads back as the value it formats: NaN and the
  infinities exactly, zero exactly, and any other value to within a relative error of half
  a unit in the last of the \<open>prec + 1\<close> significant digits.\<close>

theorem format_e_roundtrip:
  "case v of Fin x \<Rightarrow> \<exists>y. parse_float (format_e prec v) = Some (Fin y) \<and> \<bar>y - x\<bar> \<le> \<bar>x\<bar> / (2 * 10 ^ prec)
   | _ \<Rightarrow> parse_float (format_e prec v) = Some v"
proof (cases v)
  case (Fin x)
  show ?thesis
  proof (cases "x = 0")
    case True
    have "parse_float (sign_str 0 @ point_digits prec 0 @ exp_str 0) = Some (Fin 0)"
      by (simp only: parse_float_point_digits_exp) simp
    then show ?thesis using Fin True by (simp add: sign_str_def)
  next
    case False
    define e0 where "e0 = dec_exp \<bar>x\<bar>"
    define m0 where "m0 = nat (round_half_even (\<bar>x\<bar> / 10 powi (e0 - int prec)))"
    obtain m e where me: "(if m0 = 10 ^ Suc prec then (10 ^ prec, e0 + 1) else (m0, e0)) = (m, e)"
      by (metis surj_pair)
    have f: "format_e prec (Fin x) = sign_str x @ point_digits prec m @ exp_str e"
      using False by (simp only: format_e.simps if_False Let_def e0_def [symmetric] m0_def [symmetric] me prod.case)
    have "\<bar>of_nat m0 * 10 powi (e0 - int prec) - \<bar>x\<bar>\<bar> \<le> \<bar>x\<bar> / (2 * 10 ^ prec)"
      unfolding m0_def e0_def using False by (intro sci_round_err) simp
    then have "\<bar>(if x < 0 then - (of_nat m / 10 ^ prec * 10 powi e) else of_nat m / 10 ^ prec * 10 powi e) - x\<bar>
               \<le> \<bar>x\<bar> / (2 * 10 ^ prec)"
      unfolding carry_value [OF me] by (rule signed_err)
    then show ?thesis using Fin f by (simp add: parse_float_point_digits_exp del: format_e.simps)
  qed
qed (simp_all add: parse_float_special)


text \<open>The \<open>.{prec}e\<close> text of a positive value from its decade and its rounded mantissa.\<close>

lemma format_e_eqI:
  assumes "10 powi e \<le> x" "x < 10 powi (e + 1)"
    and "(of_nat m - 1 / 2) * 10 powi (e - int prec) < x" "x < (of_nat m + 1 / 2) * 10 powi (e - int prec)"
    and "m < 10 ^ Suc prec"
  shows "format_e prec (Fin x) = point_digits prec m @ exp_str e"
proof -
  have x: "0 < x" using assms(1) by (rule order.strict_trans2 [rotated]) simp
  have d: "dec_exp \<bar>x\<bar> = e" using dec_exp_eqI [OF assms(1,2)] x by simp
  have u: "0 < (10 powi (e - int prec) :: real)" by simp
  have "round_half_even (\<bar>x\<bar> / 10 powi (e - int prec)) = int m"
    using assms(3,4) u x by (intro round_half_even_eqI) (simp_all add: pos_less_divide_eq pos_divide_less_eq)
  then show ?thesis using d x assms(5) by (simp add: sign_str_def Let_def)
qed

lemma format_e_between:
  assumes "lo \<le> x" "x \<le> hi" "10 powi e \<le> lo" "hi < 10 powi (e + 1)"
    and "(of_nat m - 1 / 2) * 10 powi (e - int prec) < lo" "hi < (of_nat m + 1 / 2) * 10 powi (e - int prec)"
    and "m < 10 ^ Suc prec"
  shows "format_e prec (Fin x) = point_digits prec m @ exp_str e"
proof (rule format_e_eqI)
  show "10 powi e \<le> x" using assms(1,3) by linarith
  show "x < 10 powi (e + 1)" using assms(2,4) by linarith
  show "(of_nat m - 1 / 2) * 10 powi (e - int prec) < x" using assms(1,5) by linarith
  show "x < (of_nat m + 1 / 2) * 10 powi (e - int prec)" using assms(2,6) by linarith
qed (rule assms(7))

text \<open>The facts that evaluate a printed number to its characters.\<close>

lemma replicate_numeral: "replicate (numeral k) x = x # replicate (pred_numeral k) x"
  by (simp add: numeral_eq_Suc)

lemmas print_eval = sign_str_def point_digits_def zpad_def nat_str_small nat_str_big digit_chars_def exp_str_def
  replicate_numeral One_nat_def

text \<open>C26. \<open>{p:.4e}\<close> prints \<open>prec + 1\<close> significant digits: a non-zero value is
  printed as its sign, a mantissa \<open>m / 10^prec\<close> with \<open>10^prec \<le> m < 10^(prec+1)\<close> (one
  non-zero digit before the point, \<open>prec\<close> after it) and an exponent.\<close>

theorem format_e_significant:
  assumes "x \<noteq> 0"
  shows "\<exists>m e. format_e prec (Fin x) = sign_str x @ point_digits prec m @ exp_str e \<and>
           10 ^ prec \<le> m \<and> m < 10 ^ Suc prec"
proof -
  define e0 where "e0 = dec_exp \<bar>x\<bar>"
  define y where "y = \<bar>x\<bar> / 10 powi (e0 - int prec)"
  define m0 where "m0 = nat (round_half_even y)"
  have ax: "0 < \<bar>x\<bar>" using assms by simp
  have u: "10 powi (e0 - int prec) = 10 powi e0 / (10 ^ prec :: real)"
    by (simp add: power_int_diff power_int_of_nat)
  have "10 powi e0 \<le> \<bar>x\<bar>" "\<bar>x\<bar> < 10 powi e0 * 10"
    using dec_exp_bounds [OF ax] by (simp_all add: e0_def power_int_add_1)
  then have ylo: "10 ^ prec \<le> y" and yhi: "y < 10 ^ Suc prec"
    by (simp_all add: y_def u field_simps)
  have "of_int (round_half_even y) \<ge> y - 1 / 2" "of_int (round_half_even y) \<le> y + 1 / 2"
    using round_half_even_err [of y] by linarith+
  then have "real (10 ^ prec) - 1 / 2 \<le> of_int (round_half_even y)"
    and "of_int (round_half_even y) < real (10 ^ Suc prec) + 1 / 2"
    using ylo yhi by simp_all
  then have lo: "10 ^ prec \<le> m0" and hi: "m0 \<le> 10 ^ Suc prec"
    unfolding m0_def by linarith+
  obtain m e where me: "(if m0 = 10 ^ Suc prec then (10 ^ prec, e0 + 1) else (m0, e0)) = (m, e)"
    by (metis surj_pair)
  have "format_e prec (Fin x) = sign_str x @ point_digits prec m @ exp_str e"
    using assms by (simp only: format_e.simps if_False Let_def e0_def [symmetric] y_def [symmetric]
        m0_def [symmetric] me prod.case)
  moreover have "10 ^ prec \<le> m \<and> m < 10 ^ Suc prec"
    using me lo hi by (cases "m0 = 10 ^ Suc prec") auto
  ultimately show ?thesis by blast
qed

end
