(* ===== verification/Script.thy ===== *)
theory Script
  imports Partition TTest Pyplot Boxplot Format
begin

text \<open>
  The script's composition of the components: the two charts of lines 18 to 32 of
  \<^verbatim>\<open>src/visualize.py\<close>, drawn from the means, standard deviations and samples, and the
  three pairwise t-tests of lines 35 to 37, in the order the script runs and prints them
  (Random against PDF, Random against Hunt and Target, PDF against Hunt and Target).
\<close>

definition draw_charts :: "results \<Rightarrow> plt_state \<Rightarrow> plt_state" where
  "draw_charts r st =
     plt_run st (bar_chart_calls strategies (means r) (stds r) @ box_plot_calls strategies (result_samples r))"

definition script_ttests :: "t_cdf \<Rightarrow> results \<Rightarrow> ttest_result list" where
  "script_ttests cdf r =
     [ttest_ind cdf (random_results r) (pdf_results r),
      ttest_ind cdf (random_results r) (hunt_target_results r),
      ttest_ind cdf (pdf_results r) (hunt_target_results r)]"

text \<open>One printed result line, \<open>f"{name}: t={t:.4f}, p={p:.4e}"\<close> (lines 40 to 42).\<close>

definition ttest_line :: "string \<Rightarrow> ttest_result \<Rightarrow> string" where
  "ttest_line name res = name @ '': t='' @ format_f 4 (statistic res) @ '', p='' @ format_e 4 (pvalue res)"

text \<open>Lines 39 to 42: the header and one line per pair, in the order of \<open>script_ttests\<close>.\<close>

definition print_ttests :: "ttest_result list \<Rightarrow> string list" where
  "print_ttests ts =
     ''T-test results:'' # map2 ttest_line [''Random vs PDF'', ''Random vs Hunt and Target'', ''PDF vs Hunt and Target''] ts"

text \<open>Everything the script writes to standard output (lines 35 to 42).\<close>

definition script_output :: "t_cdf \<Rightarrow> results \<Rightarrow> string list" where
  "script_output cdf r = print_ttests (script_ttests cdf r)"

lemma script_output_length: "length (script_output cdf r) = 4"
  by (simp add: script_output_def print_ttests_def script_ttests_def)

text \<open>Both call lists are figure blocks: \<open>figure()\<close>, drawing calls, \<open>close()\<close>.\<close>

lemma chart_blocks:
  "bar_chart_calls strategies ms ss =
     Figure (10, 6) # [Bar strategies ms ss 5, Title ''Average Shots to Win by Strategy'',
       YLabel ''Number of Shots'', SaveFig ''strategy_comparison.png''] @ [Close]"
  "box_plot_calls strategies xs =
     Figure (10, 6) # [Boxplot xs strategies, Title ''Distribution of Shots to Win by Strategy'',
       YLabel ''Number of Shots'', SaveFig ''strategy_distribution.png''] @ [Close]"
  by (simp_all add: bar_chart_calls_def box_plot_calls_def)

text \<open>C18. Lines 18 to 32 write exactly two files, whatever figures were open and whatever
  files existed: \<^verbatim>\<open>strategy_comparison.png\<close> holds one bar artist with the three means
  and the three standard deviations as error bars (capsize 5) and
  \<^verbatim>\<open>strategy_distribution.png\<close> one box plot of the three samples, each 10 by 6 inches
  with its title and y label; the open figures end as they began.\<close>

theorem draw_charts_eq:
  "draw_charts r st =
     st\<lparr>saved := (saved st)
        (''strategy_comparison.png'' \<mapsto>
           \<lparr>fig_size = (10, 6), fig_artists = [BarArtist strategies (means r) (stds r) 5],
            fig_title = ''Average Shots to Win by Strategy'', fig_ylabel = ''Number of Shots''\<rparr>,
         ''strategy_distribution.png'' \<mapsto>
           \<lparr>fig_size = (10, 6), fig_artists = [BoxArtist (result_samples r) strategies],
            fig_title = ''Distribution of Shots to Win by Strategy'', fig_ylabel = ''Number of Shots''\<rparr>)\<rparr>"
  unfolding draw_charts_def plt_run_append chart_blocks
  by (simp only: plt_run_figure_block draws_only_Cons draws_only_Nil plt_call.simps) (simp add: new_figure_def)

text \<open>C25. When no strategy has two rows (one row per strategy, the spec's first testable
  input, or fewer), the script prints \<open>t=nan, p=nan\<close> for all three pairs.\<close>

theorem script_output_short:
  assumes "\<forall>lab \<in> set strategies. length (select_shots df lab) < 2"
  shows "script_output cdf (partition_results df) =
    [''T-test results:'', ''Random vs PDF: t=nan, p=nan'', ''Random vs Hunt and Target: t=nan, p=nan'',
     ''PDF vs Hunt and Target: t=nan, p=nan'']"
proof -
  have "length (random_results (partition_results df)) < 2" "length (pdf_results (partition_results df)) < 2"
    "length (hunt_target_results (partition_results df)) < 2"
    using assms by (simp_all add: strategies_def partition_results_def)
  then show ?thesis
    by (simp add: script_output_def script_ttests_def print_ttests_def ttest_line_def ttest_ind_both_short)
qed

end
