(* ===== verification/Csv.thy ===== *)
theory Csv
  imports Format Partition Pyplot
begin

text \<open>
  Line 7 of \<^verbatim>\<open>src/visualize.py\<close>, \<open>pd.read_csv('battleship_results.csv')\<close>, with the
  defaults the script relies on (separator \<open>,\<close>, quote character \<open>"\<close> with doubled
  quotes inside quoted fields, blank lines skipped, first record the header), and the
  column accesses \<open>df['strategy']\<close> and \<open>['average_shots']\<close> of lines 10 to 12. The
  text is split into records by pandas' tokenizer, a state machine over the characters
  (\<open>tokenizer.c\<close>: \<open>START_RECORD\<close>, \<open>START_FIELD\<close>, \<open>IN_FIELD\<close>,
  \<open>IN_QUOTED_FIELD\<close>, \<open>QUOTE_IN_QUOTED_FIELD\<close>, \<open>WHITESPACE_LINE\<close>: a line of
  blanks and tabs only is skipped, and on any other character the blanks already seen
  start the field, as pandas' backtracking does); short records are padded with missing
  values, long ones are a parser error; a column is numeric when all its values parse as
  numbers. Every exception the script can raise while loading is a value of \<open>py_error\<close>.
  A first data record longer than the header makes its extra leading fields the index,
  as pandas does. One input pandas accepts is outside the modelled subset and gives
  \<open>Unmodelled\<close>: a missing, NaN or infinite \<open>average_shots\<close> value (the samples of
  the model are finite reals).
\<close>

datatype py_error =
    FileNotFoundError string
  | UnicodeDecodeError
  | EmptyDataError
  | EOFInsideString
  | FieldCountError nat nat nat  \<comment> \<open>expected fields, data record (from 1), fields seen\<close>
  | KeyError string
  | TypeError
  | Unmodelled string

text \<open>A file of the file system: text, or an image written by \<open>savefig\<close>.\<close>

datatype fs_entry = TextFile string | ImageFile figure

type_synonym fsys = "string \<Rightarrow> fs_entry option"

subsection \<open>The tokenizer\<close>

datatype tstate = StartRecord | StartField | InField | InQuoted | QuoteInQuoted | WhitespaceLine

record tok =
  tst :: tstate
  cur_field :: string
  cur_record :: "string list"
  done_records :: "string list list"

definition tok_init :: tok where
  "tok_init = \<lparr>tst = StartRecord, cur_field = [], cur_record = [], done_records = []\<rparr>"

definition end_field :: "tok \<Rightarrow> tok" where
  "end_field t = t\<lparr>cur_field := [], cur_record := cur_record t @ [cur_field t]\<rparr>"

definition end_record :: "tok \<Rightarrow> tok" where
  "end_record t = (let t' = end_field t in t'\<lparr>tst := StartRecord, cur_record := [], done_records := done_records t' @ [cur_record t']\<rparr>)"

definition push_char :: "char \<Rightarrow> tstate \<Rightarrow> tok \<Rightarrow> tok" where
  "push_char c s t = t\<lparr>tst := s, cur_field := cur_field t @ [c]\<rparr>"

definition is_eol :: "char \<Rightarrow> bool" where
  "is_eol c \<longleftrightarrow> c = CHR 0x0A \<or> c = CHR 0x0D"

text \<open>One character. A line end outside quotes ends the record (\<open>\r\n\<close> ends it at
  \<open>\r\<close> and leaves an empty line, which is skipped); a quote opens a quoted field only at
  the start of a field; in a quoted field a doubled quote is a quote character.\<close>

text \<open>\<open>IS_WHITESPACE\<close>: a blank or a tab.\<close>

definition is_space :: "char \<Rightarrow> bool" where
  "is_space c \<longleftrightarrow> c = CHR '' '' \<or> c = CHR 0x09"

fun tok_step :: "tok \<Rightarrow> char \<Rightarrow> tok" where
  "tok_step t c =
     (case tst t of
        StartRecord \<Rightarrow>
          (if is_eol c then t
           else if c = CHR 0x22 then t\<lparr>tst := InQuoted\<rparr>
           else if c = CHR '','' then (end_field t)\<lparr>tst := StartField\<rparr>
           else if is_space c then push_char c WhitespaceLine t
           else push_char c InField t)
      | StartField \<Rightarrow>
          (if is_eol c then end_record t
           else if c = CHR 0x22 then t\<lparr>tst := InQuoted\<rparr>
           else if c = CHR '','' then (end_field t)\<lparr>tst := StartField\<rparr>
           else push_char c InField t)
      | InField \<Rightarrow>
          (if is_eol c then end_record t
           else if c = CHR '','' then (end_field t)\<lparr>tst := StartField\<rparr>
           else push_char c InField t)
      | InQuoted \<Rightarrow>
          (if c = CHR 0x22 then t\<lparr>tst := QuoteInQuoted\<rparr> else push_char c InQuoted t)
      | QuoteInQuoted \<Rightarrow>
          (if c = CHR 0x22 then push_char c InQuoted t
           else if is_eol c then end_record t
           else if c = CHR '','' then (end_field t)\<lparr>tst := StartField\<rparr>
           else push_char c InField t)
      | WhitespaceLine \<Rightarrow>
          (if is_eol c then t\<lparr>tst := StartRecord, cur_field := []\<rparr>
           else if is_space c then push_char c WhitespaceLine t
           else if c = CHR '','' then (end_field t)\<lparr>tst := StartField\<rparr>
           else push_char c InField t))"

text \<open>End of input: an open record is ended, an open quoted field is an error, a line
  of blanks is dropped.\<close>

definition tok_finish :: "tok \<Rightarrow> py_error + string list list" where
  "tok_finish t =
     (case tst t of
        StartRecord \<Rightarrow> Inr (done_records t)
      | WhitespaceLine \<Rightarrow> Inr (done_records t)
      | InQuoted \<Rightarrow> Inl EOFInsideString
      | _ \<Rightarrow> Inr (done_records (end_record t)))"

definition tokenize :: "string \<Rightarrow> py_error + string list list" where
  "tokenize s = tok_finish (foldl tok_step tok_init s)"

subsection \<open>Tables\<close>

record table =
  tbl_header :: "string list"
  tbl_body :: "string list list"

text \<open>The first record over-long in the body, numbered from 1, with its length.\<close>

fun first_long :: "nat \<Rightarrow> nat \<Rightarrow> string list list \<Rightarrow> (nat \<times> nat) option" where
  "first_long n k [] = None"
| "first_long n k (r # rs) = (if n < length r then Some (k, length r) else first_long n (Suc k) rs)"

definition pad_record :: "nat \<Rightarrow> string list \<Rightarrow> string list" where
  "pad_record n r = r @ replicate (n - length r) []"

text \<open>The number of fields every record is read with: the header's, or the first data
  record's when that one is longer. The tokenizer exempts the first data record from the
  field-count check (\<open>end_line\<close>), and \<open>TextReader\<close> then takes its extra fields as
  \<open>leading_cols\<close>, the implicit index.\<close>

definition row_width :: "string list \<Rightarrow> string list list \<Rightarrow> nat" where
  "row_width hdr rs = (if rs = [] then length hdr else max (length hdr) (length (hd rs)))"

text \<open>\<open>pd.read_csv(path)\<close>: the file's records, the first one the header. A later record
  longer than \<open>row_width\<close> is a tokenizing error; shorter ones are padded with missing
  (empty) values; the first \<open>row_width - length hdr\<close> fields of every record form the
  index, and the rest are the columns the header names.\<close>

definition read_csv :: "fsys \<Rightarrow> string \<Rightarrow> py_error + table" where
  "read_csv fs path =
     (case fs path of
        None \<Rightarrow> Inl (FileNotFoundError path)
      | Some (ImageFile f) \<Rightarrow> Inl UnicodeDecodeError
      | Some (TextFile s) \<Rightarrow>
          (case tokenize s of
             Inl e \<Rightarrow> Inl e
           | Inr [] \<Rightarrow> Inl EmptyDataError
           | Inr (hdr # rs) \<Rightarrow>
               (let m = row_width hdr rs
                in case first_long m 1 rs of
                     Some (k, f) \<Rightarrow> Inl (FieldCountError m k f)
                   | None \<Rightarrow>
                       Inr \<lparr>tbl_header = hdr,
                            tbl_body = map (\<lambda>r. drop (m - length hdr) (pad_record m r)) rs\<rparr>)))"

subsection \<open>Numbers in a column\<close>

text \<open>pandas' default missing-value strings (\<open>STR_NA_VALUES\<close>).\<close>

definition na_values :: "string list" where
  "na_values = ['''', ''#N/A'', ''#N/A N/A'', ''#NA'', ''-1.#IND'', ''-1.#QNAN'', ''-NaN'', ''-nan'',
     ''1.#IND'', ''1.#QNAN'', ''<NA>'', ''N/A'', ''NA'', ''NULL'', ''NaN'', ''None'', ''n/a'', ''nan'', ''null'']"

definition lower_char :: "char \<Rightarrow> char" where
  "lower_char c = (let k = of_char c :: nat in if 65 \<le> k \<and> k \<le> 90 then char_of (k + 32) else c)"


definition trim :: "string \<Rightarrow> string" where
  "trim s = rev (dropWhile is_space (rev (dropWhile is_space s)))"

definition is_digit :: "char \<Rightarrow> bool" where
  "is_digit c \<longleftrightarrow> digit_val c \<noteq> None"

text \<open>An optional sign, then digits with an optional point (at least one digit), then
  an optional exponent \<open>e\<close> or \<open>E\<close> with an optional sign and at least one digit.\<close>

definition parse_signed_digits :: "string \<Rightarrow> int option" where
  "parse_signed_digits s =
     (if s \<noteq> [] \<and> hd s = CHR ''-'' then map_option (\<lambda>d. - int d) (digits_val (tl s))
      else if s \<noteq> [] \<and> hd s = CHR ''+'' then map_option int (digits_val (tl s))
      else map_option int (digits_val s))"

definition parse_decimal :: "string \<Rightarrow> real option" where
  "parse_decimal s =
     (let neg = (s \<noteq> [] \<and> hd s = CHR ''-'');
          t = (if s \<noteq> [] \<and> (hd s = CHR ''-'' \<or> hd s = CHR ''+'') then tl s else s);
          ip = takeWhile is_digit t; r1 = dropWhile is_digit t;
          fp = (if r1 \<noteq> [] \<and> hd r1 = CHR ''.'' then takeWhile is_digit (tl r1) else []);
          r2 = (if r1 \<noteq> [] \<and> hd r1 = CHR ''.'' then dropWhile is_digit (tl r1) else r1);
          ex = (if r2 = [] then Some 0
                else if hd r2 = CHR ''e'' \<or> hd r2 = CHR ''E'' then parse_signed_digits (tl r2) else None)
      in if ip @ fp = [] then None
         else (case (digits_val (ip @ fp), ex) of
                 (Some m, Some e) \<Rightarrow> Some ((if neg then -1 else 1) * of_nat m * 10 powi (e - int (length fp)))
               | _ \<Rightarrow> None))"

text \<open>A field of a numeric column: a missing-value string is NaN, \<open>inf\<close> and
  \<open>infinity\<close> (any case, optional sign) are infinities, otherwise a decimal number with
  surrounding blanks allowed.\<close>

definition parse_number :: "string \<Rightarrow> flt option" where
  "parse_number s =
     (if s \<in> set na_values then Some NaN
      else (let l = map lower_char (trim s)
            in if l \<in> {''inf'', ''+inf'', ''infinity'', ''+infinity''} then Some PInf
               else if l \<in> {''-inf'', ''-infinity''} then Some NInf
               else map_option Fin (parse_decimal (trim s))))"

fun is_fin :: "flt option \<Rightarrow> bool" where
  "is_fin (Some (Fin x)) = True"
| "is_fin _ = False"

text \<open>The first index of a column name (pandas renames later duplicates).\<close>

fun find_index :: "string \<Rightarrow> string list \<Rightarrow> nat option" where
  "find_index x [] = None"
| "find_index x (y # ys) = (if x = y then Some 0 else map_option Suc (find_index x ys))"

definition column :: "table \<Rightarrow> string \<Rightarrow> py_error + string list" where
  "column tbl name =
     (case find_index name (tbl_header tbl) of
        None \<Rightarrow> Inl (KeyError name)
      | Some i \<Rightarrow> Inr (map (\<lambda>r. r ! i) (tbl_body tbl)))"

text \<open>The values of the \<open>average_shots\<close> column as the script reads them: a column with a
  value that is not a number has dtype object, and \<open>np.mean\<close> of its selection raises
  a \<open>TypeError\<close> on line 15.\<close>

definition numeric_values :: "string list \<Rightarrow> py_error + real list" where
  "numeric_values vs =
     (let ps = map parse_number vs
      in if None \<in> set ps then Inl TypeError
         else if \<not> list_all is_fin ps then Inl (Unmodelled ''non-finite average_shots'')
         else Inr (map (\<lambda>v. case v of Some (Fin x) \<Rightarrow> x | _ \<Rightarrow> 0) ps))"

text \<open>The rows the script reads: \<open>df['strategy']\<close> first (line 10), then
  \<open>['average_shots']\<close>, then the numeric use on line 15.\<close>

definition table_frame :: "table \<Rightarrow> py_error + frame" where
  "table_frame tbl =
     (case column tbl ''strategy'' of
        Inl e \<Rightarrow> Inl e
      | Inr ss \<Rightarrow>
          (case column tbl ''average_shots'' of
             Inl e \<Rightarrow> Inl e
           | Inr vs \<Rightarrow>
               (case numeric_values vs of
                  Inl e \<Rightarrow> Inl e
                | Inr xs \<Rightarrow> Inr (map2 (\<lambda>s x. \<lparr>strategy = s, average_shots = x\<rparr>) ss xs))))"

definition results_path :: string where
  "results_path = ''battleship_results.csv''"

definition load_frame :: "fsys \<Rightarrow> py_error + frame" where
  "load_frame fs = (case read_csv fs results_path of Inl e \<Rightarrow> Inl e | Inr tbl \<Rightarrow> table_frame tbl)"


subsection \<open>A reference writer\<close>

text \<open>CSV text with every field quoted and its quotes doubled (Python's
  \<open>csv.QUOTE_ALL\<close>), one record per line: the reference the tokenizer is checked against.\<close>

definition escape_quotes :: "string \<Rightarrow> string" where
  "escape_quotes f = concat (map (\<lambda>c. if c = CHR 0x22 then [CHR 0x22, CHR 0x22] else [c]) f)"

definition quote_field :: "string \<Rightarrow> string" where
  "quote_field f = CHR 0x22 # escape_quotes f @ [CHR 0x22]"

fun render_fields :: "string list \<Rightarrow> string" where
  "render_fields [] = []"
| "render_fields [f] = quote_field f"
| "render_fields (f # fs) = quote_field f @ CHR '','' # render_fields fs"

definition render_csv :: "string list list \<Rightarrow> string" where
  "render_csv rs = concat (map (\<lambda>r. render_fields r @ [CHR 0x0A]) rs)"

subsection \<open>The tokenizer reads the reference writer's text back\<close>

declare tok_step.simps [simp del]

lemma is_eol_chars [simp]: "is_eol (CHR 0x0A)" "\<not> is_eol (CHR 0x22)" "\<not> is_eol (CHR '','')"
  by (simp_all add: is_eol_def)

lemma tok_step_state:
  "tst t = StartRecord \<Longrightarrow> tok_step t c =
     (if is_eol c then t else if c = CHR 0x22 then t\<lparr>tst := InQuoted\<rparr>
      else if c = CHR '','' then (end_field t)\<lparr>tst := StartField\<rparr>
      else if is_space c then push_char c WhitespaceLine t else push_char c InField t)"
  "tst t = StartField \<Longrightarrow> tok_step t c =
     (if is_eol c then end_record t else if c = CHR 0x22 then t\<lparr>tst := InQuoted\<rparr>
      else if c = CHR '','' then (end_field t)\<lparr>tst := StartField\<rparr> else push_char c InField t)"
  "tst t = InField \<Longrightarrow> tok_step t c =
     (if is_eol c then end_record t
      else if c = CHR '','' then (end_field t)\<lparr>tst := StartField\<rparr> else push_char c InField t)"
  "tst t = InQuoted \<Longrightarrow> tok_step t c =
     (if c = CHR 0x22 then t\<lparr>tst := QuoteInQuoted\<rparr> else push_char c InQuoted t)"
  "tst t = QuoteInQuoted \<Longrightarrow> tok_step t c =
     (if c = CHR 0x22 then push_char c InQuoted t else if is_eol c then end_record t
      else if c = CHR '','' then (end_field t)\<lparr>tst := StartField\<rparr> else push_char c InField t)"
  by (simp_all add: tok_step.simps)

lemma tok_escape:
  "tst t = InQuoted \<Longrightarrow> foldl tok_step t (escape_quotes f) = t\<lparr>cur_field := cur_field t @ f\<rparr>"
proof (induction f arbitrary: t)
  case Nil
  then show ?case by (simp add: escape_quotes_def)
next
  case (Cons c f)
  then show ?case by (simp add: escape_quotes_def push_char_def tok_step_state)
qed

lemma tok_quote_field:
  assumes "tst t = StartRecord \<or> tst t = StartField" "cur_field t = []"
  shows "foldl tok_step t (quote_field f) = t\<lparr>tst := QuoteInQuoted, cur_field := f\<rparr>"
proof -
  have "foldl tok_step t [CHR 0x22] = t\<lparr>tst := InQuoted\<rparr>" using assms(1) by (auto simp: tok_step_state)
  then show ?thesis using assms(2) by (simp add: quote_field_def tok_escape tok_step_state)
qed

lemma tok_render_fields:
  assumes "tst t = StartRecord \<or> tst t = StartField" "cur_field t = []" "fs \<noteq> []"
  shows "foldl tok_step t (render_fields fs @ [CHR 0x0A]) =
    t\<lparr>tst := StartRecord, cur_record := [], done_records := done_records t @ [cur_record t @ fs]\<rparr>"
  using assms
proof (induction fs arbitrary: t rule: render_fields.induct)
  case (2 f)
  then show ?case by (simp add: tok_quote_field end_record_def end_field_def tok_step_state)
next
  case (3 f g fs)
  let ?t = "(end_field (t\<lparr>tst := QuoteInQuoted, cur_field := f\<rparr>))\<lparr>tst := StartField\<rparr>"
  have "foldl tok_step t (quote_field f @ [CHR '','']) = ?t"
    using 3(2,3) by (simp add: tok_quote_field tok_step_state)
  moreover have "foldl tok_step ?t (render_fields (g # fs) @ [CHR 0x0A]) =
    ?t\<lparr>tst := StartRecord, cur_record := [], done_records := done_records ?t @ [cur_record ?t @ g # fs]\<rparr>"
    by (rule 3(1)) (simp_all add: end_field_def)
  ultimately show ?case using 3(3) by (simp add: end_field_def)
qed simp

lemma tok_render_csv:
  assumes "tst t = StartRecord" "cur_field t = []" "cur_record t = []" "\<forall>r \<in> set rs. r \<noteq> []"
  shows "foldl tok_step t (render_csv rs) = t\<lparr>done_records := done_records t @ rs\<rparr>"
  using assms
proof (induction rs arbitrary: t)
  case (Cons r rs)
  let ?t = "t\<lparr>done_records := done_records t @ [r]\<rparr>"
  have "foldl tok_step t (render_fields r @ [CHR 0x0A]) = ?t"
    using Cons.prems tok_render_fields [of t r] by simp
  then show ?case using Cons.prems Cons.IH [of ?t] by (simp add: render_csv_def)
qed (simp add: render_csv_def)

text \<open>The facts that run the tokenizer on a concrete text.\<close>

lemmas tok_eval = tokenize_def tok_init_def tok_step.simps tok_finish_def end_record_def end_field_def
  push_char_def is_eol_def is_space_def

subsection \<open>Properties of loading\<close>

text \<open>C27. Text written with every field quoted is read back by pandas' tokenizer as
  exactly the records written, whatever characters the fields hold (commas, quotes,
  line breaks), provided no record is empty.\<close>

theorem tokenize_render_csv:
  assumes "\<forall>r \<in> set rs. r \<noteq> []"
  shows "tokenize (render_csv rs) = Inr rs"
  using tok_render_csv [of tok_init rs] assms by (simp add: tokenize_def tok_init_def tok_finish_def)

lemma first_long_None: "first_long n k rs = None \<longleftrightarrow> (\<forall>r \<in> set rs. length r \<le> n)"
  by (induction rs arbitrary: k) auto

lemma pad_record_length: "length r \<le> m \<Longrightarrow> length (pad_record m r) = m"
  by (simp add: pad_record_def)

lemma row_width_bounds: "length hdr \<le> row_width hdr rs" "rs \<noteq> [] \<Longrightarrow> length (hd rs) \<le> row_width hdr rs"
  by (simp_all add: row_width_def)

text \<open>The facts that evaluate \<open>read_csv\<close> on a concrete file.\<close>

lemmas read_csv_eval = read_csv_def row_width_def pad_record_def Let_def

text \<open>C28. A table \<open>read_csv\<close> returns is rectangular: every body record has exactly
  as many fields as the header.\<close>

theorem read_csv_rectangular:
  assumes "read_csv fs path = Inr tbl"
  shows "\<forall>r \<in> set (tbl_body tbl). length r = length (tbl_header tbl)"
  using assms
  by (auto simp: read_csv_def first_long_None Let_def pad_record_length row_width_bounds
      split: option.splits fs_entry.splits sum.splits list.splits if_splits)


lemma drop_pad_record: "drop k (pad_record (n + k) r) = pad_record n (drop k r)"
  by (cases "k \<le> length r") (simp_all add: pad_record_def)

text \<open>C15. Leading index fields do not change what is read: when the first data record
  has \<open>k\<close> fields more than the header and no record is longer, the table is the one
  read from the same records without their first \<open>k\<close> fields.\<close>

theorem read_csv_implicit_index:
  assumes "tokenize s = Inr (hdr # rs)" "tokenize s' = Inr (hdr # map (drop k) rs)"
    and "rs \<noteq> []" "length (hd rs) = length hdr + k"
    and "\<forall>r \<in> set rs. length r \<le> length hdr + k"
  shows "read_csv (fs(p \<mapsto> TextFile s)) p = read_csv (fs(p \<mapsto> TextFile s')) p"
proof -
  have w: "row_width hdr rs = length hdr + k" "row_width hdr (map (drop k) rs) = length hdr"
    using assms(3,4) by (auto simp: row_width_def neq_Nil_conv)
  have "first_long (length hdr + k) 1 rs = None" "first_long (length hdr) 1 (map (drop k) rs) = None"
    using assms(5) by (auto simp: first_long_None)
  moreover have "map (\<lambda>r. drop k (pad_record (length hdr + k) r)) rs = map (pad_record (length hdr) \<circ> drop k) rs"
    by (simp add: drop_pad_record)
  ultimately show ?thesis using assms(1,2) w by (simp add: read_csv_def Let_def comp_def)
qed

lemma is_fin_not_None: "is_fin p \<Longrightarrow> p \<noteq> None"
  by (cases p rule: is_fin.cases) simp_all

lemma numeric_values_fin:
  assumes "list_all (\<lambda>v. is_fin (parse_number v)) vs"
  shows "numeric_values vs = Inr (map (\<lambda>v. case parse_number v of Some (Fin x) \<Rightarrow> x | _ \<Rightarrow> 0) vs)"
proof -
  have "None \<notin> set (map parse_number vs)"
    using assms by (auto simp: list_all_iff dest: is_fin_not_None)
  then show ?thesis using assms by (simp add: numeric_values_def list_all_iff)
qed

lemma find_index_None [simp]: "find_index x ys = None \<longleftrightarrow> x \<notin> set ys"
  by (induction ys) auto

lemma find_index_Some: "find_index x ys = Some i \<Longrightarrow> x \<in> set ys"
  by (induction ys arbitrary: i) (auto split: if_splits)

lemma table_frame_missing:
  assumes "''strategy'' \<notin> set (tbl_header tbl) \<or> ''average_shots'' \<notin> set (tbl_header tbl)"
  shows "table_frame tbl =
    Inl (KeyError (if ''strategy'' \<notin> set (tbl_header tbl) then ''strategy'' else ''average_shots''))"
  using assms by (auto simp: table_frame_def column_def dest!: find_index_Some split: option.splits)

end
