(* ===== verification/Run.thy ===== *)
theory Run
  imports Script Csv
begin

text \<open>
  The whole of \<^verbatim>\<open>src/visualize.py\<close> as one run of a fresh Python process on a file
  system: load the table (line 7) and read its columns (lines 10 to 12), then, when no
  exception was raised, draw and save the two charts (lines 18 to 32) with pyplot's
  initial state and print the test results (lines 35 to 42). Every exception the script
  can raise comes from loading, before any file is written or any line printed; it ends
  the process with the exception and nothing else done.
\<close>

record run_result =
  files :: fsys
  stdout :: "string list"
  exc :: "py_error option"

definition initial_plt :: plt_state where
  "initial_plt = \<lparr>open_figs = [], saved = Map.empty\<rparr>"

text \<open>The images \<open>savefig\<close> wrote, over the files that were there.\<close>

definition write_images :: "(string \<Rightarrow> figure option) \<Rightarrow> fsys \<Rightarrow> fsys" where
  "write_images imgs fs = (\<lambda>p. case imgs p of Some f \<Rightarrow> Some (ImageFile f) | None \<Rightarrow> fs p)"

definition run_script :: "t_cdf \<Rightarrow> fsys \<Rightarrow> run_result" where
  "run_script cdf fs =
     (case load_frame fs of
        Inl e \<Rightarrow> \<lparr>files = fs, stdout = [], exc = Some e\<rparr>
      | Inr df \<Rightarrow>
          (let r = partition_results df; st = draw_charts r initial_plt
           in \<lparr>files = write_images (saved st) fs, stdout = script_output cdf r, exc = None\<rparr>))"

subsection \<open>The run on a loaded table\<close>

definition bar_figure :: "results \<Rightarrow> figure" where
  "bar_figure r =
     \<lparr>fig_size = (10, 6), fig_artists = [BarArtist strategies (means r) (stds r) 5],
      fig_title = ''Average Shots to Win by Strategy'', fig_ylabel = ''Number of Shots''\<rparr>"

definition box_figure :: "results \<Rightarrow> figure" where
  "box_figure r =
     \<lparr>fig_size = (10, 6), fig_artists = [BoxArtist (result_samples r) strategies],
      fig_title = ''Distribution of Shots to Win by Strategy'', fig_ylabel = ''Number of Shots''\<rparr>"

lemma draw_charts_initial:
  "saved (draw_charts r initial_plt) =
     Map.empty(''strategy_comparison.png'' \<mapsto> bar_figure r, ''strategy_distribution.png'' \<mapsto> box_figure r)"
  unfolding draw_charts_def plt_run_append chart_blocks
  by (simp only: plt_run_figure_block draws_only_Cons draws_only_Nil plt_call.simps)
    (simp add: new_figure_def initial_plt_def bar_figure_def box_figure_def)

lemma run_script_Inr:
  "load_frame fs = Inr df \<Longrightarrow>
   run_script cdf fs =
     \<lparr>files = fs(''strategy_comparison.png'' \<mapsto> ImageFile (bar_figure (partition_results df)),
                 ''strategy_distribution.png'' \<mapsto> ImageFile (box_figure (partition_results df))),
      stdout = script_output cdf (partition_results df), exc = None\<rparr>"
  by (simp add: run_script_def draw_charts_initial write_images_def Let_def fun_eq_iff)

lemma run_script_Inl:
  "load_frame fs = Inl e \<Longrightarrow> run_script cdf fs = \<lparr>files = fs, stdout = [], exc = Some e\<rparr>"
  by (simp add: run_script_def)

lemma load_frame_input:
  "fs results_path = fs' results_path \<Longrightarrow> load_frame fs = load_frame fs'"
  by (simp add: load_frame_def read_csv_def)

lemma results_path_images:
  "results_path \<noteq> ''strategy_comparison.png''" "results_path \<noteq> ''strategy_distribution.png''"
  by (simp_all add: results_path_def)

lemma run_script_input_unchanged: "files (run_script cdf fs) results_path = fs results_path"
  by (cases "load_frame fs") (simp_all add: run_script_Inl run_script_Inr results_path_images)


subsection \<open>Properties of the run\<close>

text \<open>C29. Running the script a second time on the files the first run left changes
  nothing: the same images are written over themselves, the same lines are printed and
  the same exception, if any, is raised. The input file is never written.\<close>

theorem run_script_rerun: "run_script cdf (files (run_script cdf fs)) = run_script cdf fs"
proof -
  have l: "load_frame (files (run_script cdf fs)) = load_frame fs"
    by (rule load_frame_input) (rule run_script_input_unchanged)
  show ?thesis
  proof (cases "load_frame fs")
    case (Inl e)
    then show ?thesis using l by (simp add: run_script_Inl)
  next
    case (Inr df)
    then show ?thesis using l by (simp add: run_script_Inr fun_eq_iff)
  qed
qed

text \<open>C30. A table without the column \<open>strategy\<close> or \<open>average_shots\<close> makes the
  script raise \<open>KeyError\<close> for the first of them it reads (\<open>strategy\<close>, on line 10),
  with no file written and nothing printed.\<close>

theorem run_script_missing_column:
  assumes "read_csv fs results_path = Inr tbl"
    and "''strategy'' \<notin> set (tbl_header tbl) \<or> ''average_shots'' \<notin> set (tbl_header tbl)"
  shows "run_script cdf fs =
    \<lparr>files = fs, stdout = [],
     exc = Some (KeyError (if ''strategy'' \<notin> set (tbl_header tbl) then ''strategy'' else ''average_shots''))\<rparr>"
  using assms by (simp add: run_script_Inl load_frame_def table_frame_missing)


end
