(* ===== verification/StudentT.thy ===== *)
theory StudentT
  imports TTest "HOL-Library.While_Combinator"
begin

text \<open>
  The Student t distribution function that \<open>_ttest_finish\<close> calls as
  \<open>special.stdtr(df, -abs(t))\<close> (lines 35 to 37 of \<^verbatim>\<open>src/visualize.py\<close>), at
  the integer degrees of freedom \<open>df = n1 + n2 - 2\<close> that \<open>ttest_ind\<close> passes. It is
  the finite series of Abramowitz and Stegun 26.7.3 and 26.7.4, summed the way Cephes'
  \<open>stdtr\<close> sums it: a \<open>while\<close> loop over \<open>j = 2, 4, ...\<close> (even \<open>k\<close>) or
  \<open>j = 3, 5, ...\<close> (odd \<open>k\<close>) up to \<open>k - 2\<close> that multiplies the term by
  \<open>(j - 1) / (z * j)\<close> with \<open>z = 1 + x\<^sup>2 / k\<close> and adds it to the sum. The values are
  exact reals, so the loop's early exit once a term falls below the machine epsilon is
  not modelled, as no other rounding is. \<open>stdtr_p k x\<close> is the probability of
  \<open>[-x, x]\<close>; \<open>student_t_cdf\<close> turns it into the distribution function, and
  \<open>student_cdf\<close> is the parameter \<open>cdf\<close> of \<open>TTest\<close> it instantiates.
\<close>

text \<open>One pass of the loop body \<open>tz *= (j - 1) / (z * j); f += tz; j += 2\<close>.\<close>

definition stdtr_body :: "real \<Rightarrow> nat \<times> real \<times> real \<Rightarrow> nat \<times> real \<times> real" where
  "stdtr_body z = (\<lambda>(j, f, tz). let tz' = tz * (real j - 1) / (z * real j) in (j + 2, f + tz', tz'))"

definition stdtr_loop :: "nat \<Rightarrow> real \<Rightarrow> nat \<Rightarrow> (nat \<times> real \<times> real) option" where
  "stdtr_loop k z j0 = while_option (\<lambda>(j, f, tz). j + 2 \<le> k) (stdtr_body z) (j0, 1, 1)"

text \<open>The \<open>i\<close>-th term of the series that starts at \<open>j\<close>, in closed form.\<close>

definition stdtr_term :: "real \<Rightarrow> nat \<Rightarrow> nat \<Rightarrow> real" where
  "stdtr_term z j i = (\<Prod>l<i. (real (j + 2 * l) - 1) / (z * real (j + 2 * l)))"

definition stdtr_sum :: "nat \<Rightarrow> real \<Rightarrow> nat \<Rightarrow> real" where
  "stdtr_sum k z j0 = (case stdtr_loop k z j0 of Some (_, f, _) \<Rightarrow> f | None \<Rightarrow> 0)"

text \<open>The integral from \<open>-x\<close> to \<open>x\<close>, for \<open>x \<ge> 0\<close>: \<open>x / sqrt (z * k)\<close> times the
  even series, or \<open>2 / pi\<close> times \<open>arctan (x / sqrt k)\<close> plus the odd series.\<close>

definition stdtr_p :: "nat \<Rightarrow> real \<Rightarrow> real" where
  "stdtr_p k x =
     (let rk = real k; z = 1 + x\<^sup>2 / rk
      in if even k then stdtr_sum k z 2 * x / sqrt (z * rk)
         else let xsqk = x / sqrt rk
              in (arctan xsqk + (if 1 < k then stdtr_sum k z 3 * xsqk / z else 0)) * (2 / pi))"

definition student_t_cdf :: "nat \<Rightarrow> real \<Rightarrow> real" where
  "student_t_cdf k t = (let p = stdtr_p k \<bar>t\<bar> in 1 / 2 + 1 / 2 * (if t < 0 then - p else p))"

text \<open>The parameter of \<open>TTest\<close>: \<open>ttest_ind\<close> only passes integer degrees of freedom.\<close>

definition student_cdf :: t_cdf where
  "student_cdf df t = student_t_cdf (nat \<lfloor>df\<rfloor>) t"

subsection \<open>The loop\<close>

lemma stdtr_term_0 [simp]: "stdtr_term z j 0 = 1"
  by (simp add: stdtr_term_def)

lemma stdtr_term_last: "stdtr_term z j (Suc i) = stdtr_term z j i * ((real (j + 2 * i) - 1) / (z * real (j + 2 * i)))"
  by (simp add: stdtr_term_def)

lemma stdtr_term_scale: "stdtr_term z j i = stdtr_term 1 j i / z ^ i"
  by (induction i) (simp_all add: stdtr_term_last)

lemma stdtr_term_scale_fun: "stdtr_term z j = (\<lambda>i. stdtr_term 1 j i / z ^ i)"
  by (rule ext) (rule stdtr_term_scale)

lemma stdtr_term_nonneg: "1 \<le> j \<Longrightarrow> 0 \<le> stdtr_term 1 j i"
  by (induction i) (simp_all add: stdtr_term_last)

lemma stdtr_term_Suc: "stdtr_term z j (Suc i) = (real j - 1) / (z * real j) * stdtr_term z (j + 2) i"
  by (simp only: stdtr_term_def prod.lessThan_Suc_shift) (simp add: algebra_simps)

lemma stdtr_loop_run:
  "(k - j) div 2 = n \<Longrightarrow>
   while_option (\<lambda>(j, f, tz). j + 2 \<le> k) (stdtr_body z) (j, f, tz) =
     Some (j + 2 * n, f + (\<Sum>i<n. tz * stdtr_term z j (Suc i)), tz * stdtr_term z j n)"
proof (induction n arbitrary: j f tz)
  case 0
  then have "\<not> j + 2 \<le> k" by simp
  then show ?case by (simp add: while_option_unfold [of _ _ "(j, f, tz)"] stdtr_term_def)
next
  case (Suc n)
  then have g: "j + 2 \<le> k" and n: "(k - (j + 2)) div 2 = n" by simp_all
  define tz1 where "tz1 = tz * ((real j - 1) / (z * real j))"
  have b: "stdtr_body z (j, f, tz) = (j + 2, f + tz1, tz1)"
    by (simp add: stdtr_body_def tz1_def Let_def)
  have "while_option (\<lambda>(j, f, tz). j + 2 \<le> k) (stdtr_body z) (j, f, tz) =
      while_option (\<lambda>(j, f, tz). j + 2 \<le> k) (stdtr_body z) (j + 2, f + tz1, tz1)"
    using g by (simp add: while_option_unfold [of _ _ "(j, f, tz)"] b)
  also have "\<dots> = Some (j + 2 + 2 * n, f + tz1 + (\<Sum>i<n. tz1 * stdtr_term z (j + 2) (Suc i)),
      tz1 * stdtr_term z (j + 2) n)"
    by (rule Suc.IH [OF n])
  also have "\<dots> = Some (j + 2 * Suc n, f + (\<Sum>i<Suc n. tz * stdtr_term z j (Suc i)),
      tz * stdtr_term z j (Suc n))"
    unfolding sum.lessThan_Suc_shift
    by (simp only: stdtr_term_Suc) (simp add: tz1_def stdtr_term_def sum_distrib_left mult_ac)
  finally show ?case .
qed

lemma stdtr_sum_eq: "stdtr_sum k z j0 = (\<Sum>i<Suc ((k - j0) div 2). stdtr_term z j0 i)"
  unfolding stdtr_sum_def stdtr_loop_def stdtr_loop_run [OF refl] sum.lessThan_Suc_shift
  by (simp add: stdtr_term_def)

text \<open>The series loop always returns: from \<open>j0\<close> it runs \<open>(k - j0) div 2\<close>
  times and leaves \<open>j\<close> past \<open>k - 2\<close>, the sum of the first terms of the series in
  \<open>f\<close> and the last term in \<open>tz\<close>.\<close>

lemma stdtr_loop_result:
  "stdtr_loop k z j0 =
     Some (j0 + 2 * ((k - j0) div 2), \<Sum>i<Suc ((k - j0) div 2). stdtr_term z j0 i, stdtr_term z j0 ((k - j0) div 2))"
  unfolding stdtr_loop_def stdtr_loop_run [OF refl] sum.lessThan_Suc_shift
  by (simp add: stdtr_term_def)

subsection \<open>Symmetry and closed forms\<close>

lemma stdtr_p_0 [simp]: "stdtr_p k 0 = 0"
  by (simp add: stdtr_p_def Let_def)

lemma stdtr_p_df0 [simp]: "stdtr_p 0 x = 0"
  by (simp add: stdtr_p_def)

lemma student_t_cdf_neg: "student_t_cdf k (- t) = 1 - student_t_cdf k t"
  by (cases t "0::real" rule: linorder_cases) (simp_all add: student_t_cdf_def Let_def)

lemma student_t_cdf_1: "student_t_cdf 1 t = 1 / 2 + arctan t / pi"
  by (cases "t < 0") (simp_all add: student_t_cdf_def stdtr_p_def arctan_minus abs_if)

lemma student_t_cdf_2: "student_t_cdf 2 t = 1 / 2 + t / (2 * sqrt (2 + t\<^sup>2))"
proof -
  have "stdtr_p 2 \<bar>t\<bar> = \<bar>t\<bar> / sqrt (2 + t\<^sup>2)"
    by (simp add: stdtr_p_def stdtr_sum_eq stdtr_term_def algebra_simps)
  then show ?thesis by (simp add: student_t_cdf_def abs_if)
qed

lemma symmetric_student_cdf: "symmetric_cdf student_cdf"
  by (simp add: symmetric_cdf_def student_cdf_def student_t_cdf_neg)

lemma student_cdf_eq: "student_cdf df = student_t_cdf (nat \<lfloor>df\<rfloor>)"
  by (simp add: student_cdf_def fun_eq_iff)

lemma student_cdf_t_df:
  assumes "2 \<le> length a" "2 \<le> length b"
  shows "student_cdf (t_df a b) = student_t_cdf (length a + length b - 2)"
proof -
  have "t_df a b = real (length a + length b - 2)" using assms by (simp add: t_df_def of_nat_diff)
  then show ?thesis by (simp only: student_cdf_eq floor_of_nat nat_int)
qed

end
