(* ===== verification/StudentT_Series.thy ===== *)
theory StudentT_Series
  imports StudentT
begin

text \<open>
  That \<open>student_t_cdf\<close> is a distribution function. Written with
  \<open>s = x / sqrt (k + x\<^sup>2)\<close>, the even series is a polynomial in \<open>s\<close> whose
  derivative telescopes to a non-negative term and whose value at \<open>s = 1\<close> is 1; the
  odd one is \<open>1 - 2 / pi\<close> times the remainder of Euler's series for \<open>arctan\<close> at
  \<open>v = sqrt k / x\<close>, whose derivative telescopes to the non-negative term
  \<open>odd_density\<close>. Both give monotonicity in \<open>x\<close> and the bounds 0 and 1.
\<close>

text \<open>The even series as a function of \<open>s = x / sqrt (k + x\<^sup>2)\<close>.\<close>

definition even_series :: "nat \<Rightarrow> real \<Rightarrow> real" where
  "even_series m s = (\<Sum>i<m. stdtr_term 1 2 i * s * (1 - s\<^sup>2) ^ i)"

text \<open>The odd series: the remainder of Euler's series for \<open>arctan\<close>.\<close>

definition odd_series :: "nat \<Rightarrow> real \<Rightarrow> real" where
  "odd_series m v = arctan v - (\<Sum>i<m. stdtr_term 1 3 i * v ^ (2 * i + 1) / (1 + v\<^sup>2) ^ (i + 1))"

definition odd_density :: "nat \<Rightarrow> real \<Rightarrow> real" where
  "odd_density i v = (2 * real i + 1) * stdtr_term 1 3 i * v ^ (2 * i) / (1 + v\<^sup>2) ^ (i + 1)"

subsection \<open>The even series\<close>

lemma even_term_deriv:
  "((\<lambda>s. stdtr_term 1 2 i * s * (1 - s\<^sup>2) ^ i) has_real_derivative
     stdtr_term 1 2 i * ((1 - s\<^sup>2) ^ i - 2 * real i * s\<^sup>2 * (1 - s\<^sup>2) ^ (i - 1))) (at s)"
  by (rule derivative_eq_intros refl | simp)+ (simp add: power2_eq_square algebra_simps)

lemma even_deriv_sum:
  "(\<Sum>i<Suc m. stdtr_term 1 2 i * ((1 - s\<^sup>2) ^ i - 2 * real i * s\<^sup>2 * (1 - s\<^sup>2) ^ (i - 1))) =
     (2 * real m + 1) * stdtr_term 1 2 m * (1 - s\<^sup>2) ^ m"
proof (induction m)
  case 0
  then show ?case by simp
next
  case (Suc m)
  define u where "u = 1 - s\<^sup>2"
  have c: "(2 * real m + 1) * stdtr_term 1 2 m = 2 * (real m + 1) * stdtr_term 1 2 (Suc m)"
    by (simp add: stdtr_term_last field_simps)
  have "(\<Sum>i<Suc (Suc m). stdtr_term 1 2 i * ((1 - s\<^sup>2) ^ i - 2 * real i * s\<^sup>2 * (1 - s\<^sup>2) ^ (i - 1))) =
      (2 * real m + 1) * stdtr_term 1 2 m * u ^ m +
      stdtr_term 1 2 (Suc m) * (u ^ Suc m - 2 * real (Suc m) * (1 - u) * u ^ m)"
    by (simp only: sum.lessThan_Suc [of _ "Suc m"] Suc.IH) (simp add: u_def)
  also have "\<dots> = (2 * real (Suc m) + 1) * stdtr_term 1 2 (Suc m) * u ^ Suc m"
    using arg_cong [OF c, of "\<lambda>y. y * u ^ m"] by (simp add: algebra_simps)
  finally show ?case by (simp add: u_def)
qed

lemma even_series_deriv:
  "(even_series (Suc m) has_real_derivative (2 * real m + 1) * stdtr_term 1 2 m * (1 - s\<^sup>2) ^ m) (at s)"
proof -
  have "even_series (Suc m) = (\<lambda>s. \<Sum>i<Suc m. stdtr_term 1 2 i * s * (1 - s\<^sup>2) ^ i)"
    by (simp add: even_series_def fun_eq_iff)
  moreover have "((\<lambda>s. \<Sum>i<Suc m. stdtr_term 1 2 i * s * (1 - s\<^sup>2) ^ i) has_real_derivative
      (\<Sum>i<Suc m. stdtr_term 1 2 i * ((1 - s\<^sup>2) ^ i - 2 * real i * s\<^sup>2 * (1 - s\<^sup>2) ^ (i - 1)))) (at s)"
    by (rule DERIV_sum) (rule even_term_deriv)
  ultimately show ?thesis by (simp only: even_deriv_sum)
qed

lemma even_series_mono:
  assumes "0 \<le> a" "a \<le> b" "b \<le> 1"
  shows "even_series m a \<le> even_series m b"
proof (cases m)
  case 0
  then show ?thesis by (simp add: even_series_def)
next
  case (Suc n)
  have "0 \<le> (2 * real n + 1) * stdtr_term 1 2 n * (1 - s\<^sup>2) ^ n" if "a \<le> s" "s \<le> b" for s
  proof -
    have "s\<^sup>2 \<le> 1" using that assms by (simp add: abs_square_le_1)
    then show ?thesis by (simp add: stdtr_term_nonneg)
  qed
  then show ?thesis
    using Suc assms(2) by (blast intro: DERIV_nonneg_imp_nondecreasing even_series_deriv)
qed

lemma even_series_0 [simp]: "even_series m 0 = 0"
  by (simp add: even_series_def)

lemma even_series_1: "0 < m \<Longrightarrow> even_series m 1 = 1"
  by (cases m) (simp_all add: even_series_def sum.lessThan_Suc_shift)

subsection \<open>The odd series\<close>

lemma one_plus_square_nonzero: "1 + v\<^sup>2 \<noteq> (0::real)"
  by (metis add_pos_nonneg zero_less_one zero_le_power2 less_irrefl)

lemma power_odd_deriv: "((\<lambda>v::real. v ^ (2 * i + 1)) has_real_derivative real (2 * i + 1) * v ^ (2 * i)) (at v)"
  using DERIV_pow [of "2 * i + 1" v] by simp
lemma one_plus_square_power_deriv: "((\<lambda>v::real. (1 + v\<^sup>2) ^ (i + 1)) has_real_derivative real (i + 1) * (1 + v\<^sup>2) ^ i * (2 * v)) (at v)"
proof -
  have "((\<lambda>v::real. 1 + v\<^sup>2) has_real_derivative 2 * v) (at v)"
    by (rule derivative_eq_intros refl | simp)+
  from DERIV_power [OF this, of "i + 1"] show ?thesis by (simp add: mult_ac)
qed
lemma odd_density_field: fixes w Q :: real assumes "w \<noteq> 0" "Q \<noteq> 0"
  shows "(d * (a * P) * (w * Q) - d * (v * P) * (b * Q * (2 * v))) / ((w * Q) * (w * Q)) =
         a * d * P / (w * Q) - 2 * b * d * (v\<^sup>2 * P) / (w * w * Q)"
  using assms by (simp add: field_simps power2_eq_square)
lemma odd_quotient_deriv: "((\<lambda>v::real. d * v ^ (2 * i + 1) / (1 + v\<^sup>2) ^ (i + 1)) has_real_derivative
   (d * (real (2 * i + 1) * v ^ (2 * i)) * (1 + v\<^sup>2) ^ (i + 1) - d * v ^ (2 * i + 1) * (real (i + 1) * (1 + v\<^sup>2) ^ i * (2 * v))) /
   ((1 + v\<^sup>2) ^ (i + 1) * (1 + v\<^sup>2) ^ (i + 1))) (at v)"
proof -
  have "(1 + v\<^sup>2) ^ (i + 1) \<noteq> 0" using one_plus_square_nonzero by simp
  then show ?thesis using DERIV_divide [OF DERIV_cmult [OF power_odd_deriv] one_plus_square_power_deriv] by simp
qed
lemma odd_density_diff:
  "(stdtr_term 1 3 i * (real (2 * i + 1) * v ^ (2 * i)) * (1 + v\<^sup>2) ^ (i + 1) -
    stdtr_term 1 3 i * v ^ (2 * i + 1) * (real (i + 1) * (1 + v\<^sup>2) ^ i * (2 * v))) /
   ((1 + v\<^sup>2) ^ (i + 1) * (1 + v\<^sup>2) ^ (i + 1)) = odd_density i v - odd_density (Suc i) v"
proof -
  have w: "1 + v\<^sup>2 \<noteq> 0" by (rule one_plus_square_nonzero)
  then have q: "(1 + v\<^sup>2) ^ i \<noteq> 0" by simp
  have d: "(2 * real (Suc i) + 1) * stdtr_term 1 3 (Suc i) = 2 * real (i + 1) * stdtr_term 1 3 i"
    by (simp add: stdtr_term_last field_simps)
  have "odd_density (Suc i) v = 2 * real (i + 1) * stdtr_term 1 3 i * (v\<^sup>2 * v ^ (2 * i)) /
      ((1 + v\<^sup>2) * (1 + v\<^sup>2) * (1 + v\<^sup>2) ^ i)"
    unfolding odd_density_def d [symmetric] by (simp add: power_add power_mult mult_ac power2_eq_square)
  moreover have "odd_density i v = real (2 * i + 1) * stdtr_term 1 3 i * v ^ (2 * i) / ((1 + v\<^sup>2) * (1 + v\<^sup>2) ^ i)"
    by (simp add: odd_density_def)
  ultimately show ?thesis
    using odd_density_field [OF w q, of "stdtr_term 1 3 i" "real (2 * i + 1)" "v ^ (2 * i)" v "real (i + 1)"]
    by (simp add: mult_ac)
qed
lemma odd_term_deriv:
  "((\<lambda>v. stdtr_term 1 3 i * v ^ (2 * i + 1) / (1 + v\<^sup>2) ^ (i + 1)) has_real_derivative
     odd_density i v - odd_density (Suc i) v) (at v)"
  using odd_quotient_deriv [of "stdtr_term 1 3 i" i v] by (simp only: odd_density_diff)

lemma odd_series_deriv: "(odd_series m has_real_derivative odd_density m v) (at v)"
proof -
  have e: "odd_series m = (\<lambda>v. arctan v - (\<Sum>i<m. stdtr_term 1 3 i * v ^ (2 * i + 1) / (1 + v\<^sup>2) ^ (i + 1)))"
    by (simp add: odd_series_def fun_eq_iff)
  have "((\<lambda>v. \<Sum>i<m. stdtr_term 1 3 i * v ^ (2 * i + 1) / (1 + v\<^sup>2) ^ (i + 1)) has_real_derivative
      (\<Sum>i<m. odd_density i v - odd_density (Suc i) v)) (at v)"
    by (rule DERIV_sum) (rule odd_term_deriv)
  moreover have "inverse (1 + v\<^sup>2) - (\<Sum>i<m. odd_density i v - odd_density (Suc i) v) = odd_density m v"
    using sum_lessThan_telescope' [of "\<lambda>i. odd_density i v" m] by (simp add: odd_density_def inverse_eq_divide)
  ultimately show ?thesis
    unfolding e by (rule DERIV_cong [OF DERIV_diff [OF DERIV_arctan]])
qed

lemma odd_density_nonneg: "0 \<le> odd_density m v"
  by (simp add: odd_density_def stdtr_term_nonneg power_mult)

lemma odd_series_mono: "a \<le> b \<Longrightarrow> odd_series m a \<le> odd_series m b"
  by (blast intro: DERIV_nonneg_imp_nondecreasing odd_series_deriv odd_density_nonneg)

lemma odd_series_0 [simp]: "odd_series m 0 = 0"
  by (simp add: odd_series_def)

subsection \<open>The two series as the distribution function\<close>

lemma ratio_sqrt_mono:
  fixes K x y :: real
  assumes "0 < K" "0 \<le> x" "x \<le> y"
  shows "x / sqrt (K + x\<^sup>2) \<le> y / sqrt (K + y\<^sup>2)"
proof -
  have "x\<^sup>2 * (K + y\<^sup>2) \<le> y\<^sup>2 * (K + x\<^sup>2)"
    using assms by (simp add: algebra_simps mult_left_mono power_mono)
  then have "sqrt (x\<^sup>2 * (K + y\<^sup>2)) \<le> sqrt (y\<^sup>2 * (K + x\<^sup>2))" by simp
  then have "x * sqrt (K + y\<^sup>2) \<le> y * sqrt (K + x\<^sup>2)"
    using assms by (simp add: real_sqrt_mult)
  moreover have "0 < sqrt (K + x\<^sup>2)" "0 < sqrt (K + y\<^sup>2)"
    using assms by (simp_all add: add_pos_nonneg)
  ultimately show ?thesis by (simp add: divide_simps mult.commute)
qed

lemma ratio_sqrt_bounds:
  fixes K x :: real
  assumes "0 < K" "0 \<le> x"
  shows "0 \<le> x / sqrt (K + x\<^sup>2)" "x / sqrt (K + x\<^sup>2) \<le> 1"
proof -
  have "x \<le> sqrt (K + x\<^sup>2)" by (rule real_le_rsqrt) (use assms in simp)
  then show "x / sqrt (K + x\<^sup>2) \<le> 1" using assms by (simp add: divide_le_eq_1 add_pos_nonneg)
qed (use assms in simp)

lemma stdtr_p_even:
  assumes "0 < m" "0 \<le> x"
  shows "stdtr_p (2 * m) x = even_series m (x / sqrt (real (2 * m) + x\<^sup>2))"
proof -
  define K where "K = real (2 * m)"
  define z where "z = 1 + x\<^sup>2 / K"
  have K: "0 < K" using assms by (simp add: K_def)
  have zK: "z * K = K + x\<^sup>2" using K by (simp add: z_def field_simps)
  have Kx: "0 < K + x\<^sup>2" using K by (simp add: add_pos_nonneg)
  have q: "1 / z = 1 - (x / sqrt (K + x\<^sup>2))\<^sup>2"
    using K Kx by (simp add: z_def power_divide field_simps)
  have n: "Suc ((2 * m - 2) div 2) = m" using assms by simp
  have "stdtr_p (2 * m) x = stdtr_sum (2 * m) z 2 * x / sqrt (z * K)"
    by (simp add: stdtr_p_def Let_def z_def K_def)
  also have "\<dots> = (\<Sum>i<m. stdtr_term 1 2 i / z ^ i) * x / sqrt (K + x\<^sup>2)"
    unfolding stdtr_sum_eq n zK by (simp only: stdtr_term_scale_fun [of z])
  also have "\<dots> = even_series m (x / sqrt (K + x\<^sup>2))"
    unfolding even_series_def q [symmetric]
    by (simp add: sum_distrib_left sum_distrib_right power_one_over power_inverse divide_inverse mult_ac)
  finally show ?thesis by (simp add: K_def)
qed

lemma inverse_term:
  fixes w :: real
  assumes "w \<noteq> 0"
  shows "(1 / w) ^ (2 * i + 1) / (1 + (1 / w)\<^sup>2) ^ (i + 1) = w / (1 + w\<^sup>2) ^ (i + 1)"
proof -
  define P where "P = w ^ (2 * i + 1)"
  define Q where "Q = (1 + w\<^sup>2) ^ (i + 1)"
  have P: "P \<noteq> 0" using assms by (simp add: P_def)
  have Q: "Q \<noteq> 0" using one_plus_square_nonzero by (simp add: Q_def)
  have "1 + (1 / w)\<^sup>2 = (1 + w\<^sup>2) / w\<^sup>2" using assms by (simp add: field_simps)
  then have "(1 + (1 / w)\<^sup>2) ^ (i + 1) = Q / (w\<^sup>2) ^ (i + 1)"
    by (simp only: Q_def power_divide)
  also have "(w\<^sup>2) ^ (i + 1) = w * P"
    by (simp only: P_def power_mult [symmetric]) simp
  finally have e1: "(1 + (1 / w)\<^sup>2) ^ (i + 1) = Q / (w * P)" .
  have e2: "(1 / w) ^ (2 * i + 1) = 1 / P" by (simp add: P_def power_one_over)
  have "(1 / w) ^ (2 * i + 1) / (1 + (1 / w)\<^sup>2) ^ (i + 1) = (1 / P) / (Q / (w * P))"
    by (simp only: e1 e2)
  also have "\<dots> = w / Q" using P Q by (simp add: field_simps)
  finally show ?thesis by (simp only: Q_def)
qed

lemma half_pi_scale: "(pi / 2 - A + S) * (2 / pi) = 1 - 2 / pi * (A - S)"
  by (simp add: field_simps)

lemma stdtr_p_odd:
  assumes "0 < x"
  shows "stdtr_p (2 * m + 1) x = 1 - 2 / pi * odd_series m (sqrt (real (2 * m + 1)) / x)"
proof -
  define K where "K = real (2 * m + 1)"
  define w where "w = x / sqrt K"
  define z where "z = 1 + x\<^sup>2 / K"
  have K: "0 < K" by (simp add: K_def)
  have w: "0 < w" using assms K by (simp add: w_def)
  have z: "z = 1 + w\<^sup>2" using K by (simp add: z_def w_def power_divide)
  have v: "sqrt K / x = 1 / w" by (simp add: w_def)
  have s: "(if 1 < 2 * m + 1 then stdtr_sum (2 * m + 1) z 3 * w / z else 0) =
      (\<Sum>i<m. stdtr_term 1 3 i * (1 / w) ^ (2 * i + 1) / (1 + (1 / w)\<^sup>2) ^ (i + 1))"
  proof (cases m)
    case (Suc n)
    have n: "Suc ((2 * m + 1 - 3) div 2) = m" using Suc by simp
    have "stdtr_sum (2 * m + 1) z 3 * w / z = (\<Sum>i<m. stdtr_term 1 3 i / z ^ i * w / z)"
      unfolding stdtr_sum_eq n stdtr_term_scale_fun [of z] by (simp only: sum_distrib_right sum_divide_distrib)
    also have "\<dots> = (\<Sum>i<m. stdtr_term 1 3 i * (1 / w) ^ (2 * i + 1) / (1 + (1 / w)\<^sup>2) ^ (i + 1))"
    proof (rule sum.cong [OF refl])
      fix i
      have "stdtr_term 1 3 i / z ^ i * w / z = stdtr_term 1 3 i * (w / (1 + w\<^sup>2) ^ (i + 1))"
        by (simp add: z)
      also have "\<dots> = stdtr_term 1 3 i * ((1 / w) ^ (2 * i + 1) / (1 + (1 / w)\<^sup>2) ^ (i + 1))"
        using w by (simp only: inverse_term [symmetric] less_irrefl not_False_eq_True)
      finally show "stdtr_term 1 3 i / z ^ i * w / z =
          stdtr_term 1 3 i * (1 / w) ^ (2 * i + 1) / (1 + (1 / w)\<^sup>2) ^ (i + 1)" by simp
    qed
    finally show ?thesis using Suc by simp
  qed simp
  have a: "arctan w = pi / 2 - arctan (1 / w)"
    using arctan_inverse [of "1 / w"] w by simp
  have "stdtr_p (2 * m + 1) x =
      (arctan w + (if 1 < 2 * m + 1 then stdtr_sum (2 * m + 1) z 3 * w / z else 0)) * (2 / pi)"
    by (simp add: stdtr_p_def Let_def z_def K_def w_def)
  also have "\<dots> = 1 - 2 / pi * odd_series m (1 / w)"
    unfolding s a odd_series_def by (rule half_pi_scale)
  finally show ?thesis unfolding K_def [symmetric] v .
qed

subsection \<open>The distribution function\<close>

lemma odd_series_le_arctan: "0 \<le> v \<Longrightarrow> odd_series m v \<le> arctan v"
  unfolding odd_series_def by (simp add: sum_nonneg stdtr_term_nonneg)

lemma stdtr_p_cases:
  fixes k :: nat
  obtains "k = 0" | m where "0 < m" "k = 2 * m" | m where "k = 2 * m + 1"
proof (cases "even k")
  case True
  then obtain m where "k = 2 * m" by (rule evenE)
  then show ?thesis using that(1,2) by (cases "m = 0") simp_all
next
  case False
  then obtain m where "k = 2 * m + 1" by (rule oddE)
  then show ?thesis by (rule that(3))
qed

lemma stdtr_p_bounds:
  assumes "0 \<le> x"
  shows "0 \<le> stdtr_p k x \<and> stdtr_p k x \<le> 1"
proof (cases k rule: stdtr_p_cases)
  case (2 m)
  define s where "s = x / sqrt (real (2 * m) + x\<^sup>2)"
  have s: "0 \<le> s" "s \<le> 1" using ratio_sqrt_bounds [of "real (2 * m)" x] 2 assms by (simp_all add: s_def)
  have "even_series m 0 \<le> even_series m s" "even_series m s \<le> even_series m 1"
    using s even_series_mono [of 0 s m] even_series_mono [of s 1 m] by simp_all
  then show ?thesis
    unfolding 2 stdtr_p_even [OF 2(1) assms] s_def [symmetric] using 2 by (simp add: even_series_1)
next
  case (3 m)
  show ?thesis
  proof (cases "x = 0")
    case False
    define v where "v = sqrt (real (2 * m + 1)) / x"
    have v: "0 \<le> v" using assms by (simp add: v_def)
    have "odd_series m v \<le> pi / 2"
      using odd_series_le_arctan [of v m] v arctan_ubound [of v] by simp
    moreover have "0 \<le> odd_series m v" using odd_series_mono [OF v, of m] by simp
    moreover have "stdtr_p k x = 1 - 2 / pi * odd_series m v"
      unfolding 3 v_def using False assms by (simp only: stdtr_p_odd less_le not_False_eq_True simp_thms)
    moreover have "2 / pi * odd_series m v \<le> 1" using \<open>odd_series m v \<le> pi / 2\<close> by (simp add: field_simps)
    moreover have "0 \<le> 2 / pi * odd_series m v" using \<open>0 \<le> odd_series m v\<close> by simp
    ultimately show ?thesis by linarith
  qed simp
qed simp

lemma stdtr_p_mono:
  assumes "0 \<le> x" "x \<le> y"
  shows "stdtr_p k x \<le> stdtr_p k y"
proof (cases k rule: stdtr_p_cases)
  case (2 m)
  have "x / sqrt (real (2 * m) + x\<^sup>2) \<le> y / sqrt (real (2 * m) + y\<^sup>2)"
    using 2 assms by (intro ratio_sqrt_mono) simp_all
  moreover have "y / sqrt (real (2 * m) + y\<^sup>2) \<le> 1" "0 \<le> x / sqrt (real (2 * m) + x\<^sup>2)"
    using 2 assms ratio_sqrt_bounds [of "real (2 * m)"] by simp_all
  ultimately show ?thesis using 2 assms by (simp add: stdtr_p_even even_series_mono)
next
  case (3 m)
  show ?thesis
  proof (cases "x = 0")
    case True
    then show ?thesis using stdtr_p_bounds [of y k] assms by simp
  next
    case False
    then have "sqrt (real (2 * m + 1)) / y \<le> sqrt (real (2 * m + 1)) / x"
      using assms by (simp add: frac_le)
    then have "odd_series m (sqrt (real (2 * m + 1)) / y) \<le> odd_series m (sqrt (real (2 * m + 1)) / x)"
      by (rule odd_series_mono)
    then have "2 / pi * odd_series m (sqrt (real (2 * m + 1)) / y) \<le>
        2 / pi * odd_series m (sqrt (real (2 * m + 1)) / x)"
      by (rule mult_left_mono) simp
    moreover have "0 < x" "0 < y" using False assms by simp_all
    ultimately show ?thesis unfolding 3 by (simp only: stdtr_p_odd)
  qed
qed simp

lemma student_t_cdf_bounds: "0 \<le> student_t_cdf k t \<and> student_t_cdf k t \<le> 1"
proof -
  define p where "p = stdtr_p k \<bar>t\<bar>"
  have "0 \<le> p \<and> p \<le> 1" using stdtr_p_bounds [of "\<bar>t\<bar>" k] by (simp add: p_def)
  then show ?thesis unfolding student_t_cdf_def Let_def p_def [symmetric] by auto
qed

lemma student_t_cdf_mono: "mono (student_t_cdf k)"
proof (rule monoI)
  fix s t :: real
  assume st: "s \<le> t"
  have b: "0 \<le> stdtr_p k \<bar>s\<bar>" "0 \<le> stdtr_p k \<bar>t\<bar>"
    using stdtr_p_bounds by simp_all
  show "student_t_cdf k s \<le> student_t_cdf k t"
  proof (cases "s < 0"; cases "t < 0")
    assume "s < 0" "t < 0"
    then have "stdtr_p k \<bar>t\<bar> \<le> stdtr_p k \<bar>s\<bar>" using st by (intro stdtr_p_mono) simp_all
    then show ?thesis using \<open>s < 0\<close> \<open>t < 0\<close> by (simp add: student_t_cdf_def Let_def)
  next
    assume "\<not> s < 0" "\<not> t < 0"
    then have "stdtr_p k \<bar>s\<bar> \<le> stdtr_p k \<bar>t\<bar>" using st by (intro stdtr_p_mono) simp_all
    then show ?thesis using \<open>\<not> s < 0\<close> \<open>\<not> t < 0\<close> by (simp add: student_t_cdf_def Let_def)
  qed (use st b in \<open>simp_all add: student_t_cdf_def Let_def\<close>)
qed

text \<open>C3. The Student t distribution function of every degree of freedom is a
  distribution function: non-decreasing, with values in \<open>[0, 1]\<close>.\<close>

theorem is_cdf_student_cdf: "is_cdf student_cdf"
  by (simp add: is_cdf_def student_cdf_eq student_t_cdf_mono student_t_cdf_bounds)

end
