(* ===== verification/Spec2Isabelle.thy ===== *)
theory Spec2Isabelle
  imports Run StudentT_Series
begin

text \<open>
  \<^bold>\<open>A verification development of the Battleship results visualiser.\<close>

  \<^emph>\<open>The program.\<close> The repository's only source, \<^verbatim>\<open>src/visualize.py\<close>, is a
  41-line script with no functions of its own. It runs one straight pipeline:
  \<^enum> load \<^verbatim>\<open>battleship_results.csv\<close> with \<open>pandas.read_csv\<close> (line 7);
  \<^enum> split the rows by the \<open>strategy\<close> column into three samples of
    \<open>average_shots\<close>, one per label \<open>Random\<close>, \<open>PDF\<close>, \<open>Hunt and Target\<close>
    (lines 10 to 14);
  \<^enum> compute each sample's \<open>np.mean\<close> and \<open>np.std\<close> (lines 15, 16);
  \<^enum> draw a bar chart of the means with the standard deviations as error bars and save it
    to \<^verbatim>\<open>strategy_comparison.png\<close> (lines 19 to 24), then a box plot of the three
    samples saved to \<^verbatim>\<open>strategy_distribution.png\<close> (lines 27 to 32);
  \<^enum> run \<open>scipy.stats.ttest_ind\<close> on the three pairs (lines 35 to 37) and print a
    header and one line per pair (lines 39 to 42).
  The components interact only through the values the script passes from one line to
  the next; the file system and standard output are the only effects.

  \<^emph>\<open>The model.\<close> Each library routine the script relies on for a value is modelled as
  its library computes it, and the script's lines compose them:
  \<^item> \<open>Float\<close>: float64 values as \<open>flt\<close> (\<open>Fin\<close> of a real, the two infinities,
    NaN) with IEEE addition, multiplication, division, square root and absolute value
    on exact reals: the special values and how they arise and propagate are modelled,
    rounding and signed zero are not.
  \<^item> \<open>Numpy\<close>: \<open>np_mean\<close>, \<open>np_var\<close>, \<open>np_std\<close> as numpy's \<open>_methods._mean\<close> and
    \<open>_var\<close> compute them (an IEEE sum divided by the count), beside the exact
    \<open>mean\<close>, \<open>sq_dev\<close>, \<open>pvar\<close>, \<open>pstd\<close> of a sample.
  \<^item> \<open>Partition\<close>: a row is a record of the two columns read, a table a list of rows
    in file order; \<open>select_shots\<close> is the mask-select-column expression of lines 10 to 12,
    \<open>partition_results\<close> the three assignments, \<open>means\<close> and \<open>stds\<close> lines 15 and 16.
  \<^item> \<open>TTest\<close>: scipy's \<open>ttest_ind\<close> as \<open>_stats_py\<close> computes it: the NaN result
    for an empty input, \<open>_var(ddof=1)\<close> (\<open>sp_var\<close>), \<open>_equal_var_ttest_denom\<close>,
    \<open>_ttest_ind_from_stats\<close>, \<open>_ttest_finish\<close>, with current scipy's guard that
    pools a sample of one observation with variance 0 (\<open>xp.where(n == 1, 0, v)\<close>, weight
    \<open>n - 1 = 0\<close>). The Student distribution function
    \<open>special.stdtr\<close> is a parameter \<open>cdf\<close> there; lemmas that need it to be a
    symmetric distribution function assume \<open>is_cdf\<close> and \<open>symmetric_cdf\<close>.
  \<^item> \<open>StudentT\<close>: the parameter's instance \<open>student_cdf\<close>, the Student t
    distribution function at the integer degrees of freedom \<open>ttest_ind\<close> passes: the
    finite series of Cephes' \<open>stdtr\<close>, summed by its \<open>while\<close> loop
    (\<open>stdtr_loop\<close>, a \<open>while_option\<close> over \<open>stdtr_body\<close>), with \<open>arctan\<close> for
    odd degrees. \<open>StudentT_Series\<close> analyses the two series with derivatives
    (telescoping sums, \<open>DERIV_nonneg_imp_nondecreasing\<close>).
  \<^item> \<open>Pyplot\<close>: pyplot's global state, the open figures with the active one last
    (matplotlib's \<open>Gcf\<close>) and the files \<open>savefig\<close> has written, as a record; each
    call the script makes (\<open>figure\<close>, \<open>bar\<close>, \<open>boxplot\<close>, \<open>title\<close>,
    \<open>ylabel\<close>, \<open>savefig\<close>, \<open>close\<close>) as an operation on it, with \<open>gcf()\<close>
    creating a figure when none is open; the calls as a datatype \<open>plt_call\<close> run by
    \<open>plt_step\<close>; the blocks of lines 19 to 24 and 27 to 32 as call lists. A saved image
    is the description of what was drawn (size, artists, title, y label). \<open>draw_on\<close> is
    the abstract machine of a drawing block, on the active figure and the files only.
  \<^item> \<open>Boxplot\<close>: what \<open>plt.boxplot\<close> computes for each box it draws, matplotlib's
    \<open>cbook.boxplot_stats\<close> with its defaults (\<open>whis = 1.5\<close>, no bootstrap):
    numpy's \<open>percentile\<close> with the \<open>linear\<close> method (\<open>np_percentile\<close>, with
    \<open>_lerp\<close> as \<open>np_lerp\<close>), the notch (\<open>compute_conf_interval\<close>), the whisker ends
    (\<open>whisker_lo\<close>, \<open>whisker_hi\<close>) and the fliers (\<open>fliers_of\<close>), composed in
    \<open>boxplot_stats_one\<close>; \<open>lin_interp\<close> is the reference piecewise linear function
    through the sorted data.
  \<^item> \<open>Format\<close>: Python's \<open>.4f\<close> and \<open>.4e\<close> float formats (\<open>format_f\<close>,
    \<open>format_e\<close>: correct rounding ties to even, \<open>nan\<close>/\<open>inf\<close>, the mantissa carry into the
    exponent) and a reference parser \<open>parse_float\<close> for the text they print.
  \<^item> \<open>Csv\<close>: \<open>pd.read_csv\<close> of line 7 as pandas' tokenizer state machine
    (\<open>tok_step\<close> over the states of \<open>tokenizer.c\<close>, a line of blanks and tabs
    skipped as in \<open>WHITESPACE_LINE\<close>), the header and field-count checks
    (\<open>read_csv\<close>, with pandas' implicit index when the first data record is longer
    than the header, \<open>row_width\<close>), the numeric conversion of a column (\<open>parse_number\<close>,
    \<open>numeric_values\<close>) and the column reads of lines 10 to 12 (\<open>table_frame\<close>), every
    exception a value of \<open>py_error\<close>; a reference writer \<open>render_csv\<close>.
  \<^item> \<open>Script\<close>: \<open>draw_charts\<close>, lines 18 to 32 run on a pyplot state,
    \<open>script_ttests\<close>, the three calls of lines 35 to 37 in the order the script prints
    them, and \<open>script_output\<close>, the four lines of lines 39 to 42.
  \<^item> \<open>Run\<close>: the whole script, \<open>run_script\<close>, from a file system (\<open>fsys\<close>, a map from
    names to text files and images) to the files it leaves, the lines it prints and the
    exception it raises, if any; pyplot starts from its initial state.
  No fuel is needed: the recursion is structural over lists and strings (the tokenizer
  is a \<open>foldl\<close> over the characters), \<open>nat_str\<close> recurses on \<open>n div 10\<close>, whose
  termination \<open>fun\<close> proves, and the one loop, that of \<open>stdtr\<close>, is a
  \<open>while_option\<close> proved to return (\<open>StudentT.stdtr_loop_result\<close>).

  \<^emph>\<open>What is proved.\<close>
  \<^item> Refinement: numpy's reductions compute the exact mean and population standard
    deviation of every non-empty sample (\<open>Numpy.np_mean_std_eq\<close>), and \<open>ttest_ind\<close>
    the exact pooled-variance t statistic and two-sided p-value whenever both samples have
    two observations and some spread (\<open>TTest.ttest_ind_eq\<close>).
  \<^item> The degenerate inputs the script does not guard against: an absent label gives an
    empty sample whose mean, standard deviation and t-tests are NaN
    (\<open>missing_label_nan\<close>); a sample of one observation is pooled with variance 0,
    and two such samples give NaN (\<open>TTest.ttest_ind_single\<close>); constant samples of
    integers exact in float64 make the statistic infinite or NaN
    (\<open>TTest.ttest_ind_zero_var\<close>).
  \<^item> Laws of the test: antisymmetry (\<open>TTest.ttest_ind_swap\<close>), shift invariance
    (\<open>TTest.ttest_ind_shift\<close>), a sample against itself (\<open>TTest.ttest_ind_same\<close>),
    p-values in \<open>[0, 1]\<close> (\<open>TTest.ttest_ind_pvalue_range\<close>).
  \<^item> The Student t distribution: the series is a distribution function, monotone
    with values in \<open>[0, 1]\<close> (\<open>StudentT_Series.is_cdf_student_cdf\<close>), symmetric,
    and the Cauchy and \<open>x / sqrt (2 + x\<^sup>2)\<close> closed forms at 1 and 2 degrees (lemmas of
    \<open>StudentT\<close>, with the lemma that the series loop returns).
  \<^item> Bounds and laws of the chart data: means within the sample range
    (\<open>Numpy.np_mean_bounds\<close>), error bars at most half the range
    (\<open>Numpy.np_std_half_range\<close>), zero exactly for constant samples
    (\<open>Numpy.np_std_zero_iff\<close>), shift invariance (\<open>Numpy.np_std_shift\<close>).
  \<^item> The split loses no labelled row (\<open>Partition.partition_mset\<close>).
  \<^item> Charts: a run of drawing calls on the active figure refines the abstract machine
    \<open>draw_on\<close> (\<open>Pyplot.plt_run_draws_only\<close>); a \<open>figure()\<close> ... \<open>close()\<close>
    block leaves the open figures as they were and saves images independent of them
    (\<open>Pyplot.figure_block_frame\<close>); lines 18 to 32 write exactly the two image files,
    with the bars, error bars and box data the statistics give
    (\<open>Script.draw_charts_eq\<close>).
  \<^item> Boxes: numpy's percentile equals the reference interpolation, lies within the data
    and is monotone in \<open>q\<close> (lemmas of \<open>Boxplot\<close>); the median line is the textbook
    median (\<open>Boxplot.np_percentile_median\<close>); a box is ordered from the minimum through
    the whiskers and quartiles to the maximum (\<open>Boxplot.boxplot_box_ordered\<close>); the
    fliers are exactly the observations beyond the \<open>1.5 IQR\<close> fences
    (\<open>Boxplot.boxplot_fliers_fences\<close>); the quartiles do not depend on the row order
    (\<open>Boxplot.np_percentile_mset\<close>), so the box is not the spec's five-number summary
    (evaluated on \<open>[1, 2, 3, 4, 100]\<close> in \<open>spec_box_outlier\<close>).
  \<^item> Printing: what \<open>.4f\<close> and \<open>.4e\<close> print reads back as the value within half a unit
    of the last digit (\<open>Format.format_f_roundtrip\<close>, \<open>Format.format_e_roundtrip\<close>);
    \<open>.4e\<close> prints 5 significant digits (\<open>Format.format_e_significant\<close>); with one row
    per strategy every printed result is \<open>nan\<close> (\<open>Script.script_output_short\<close>).
  \<^item> Loading: the tokenizer reads the reference writer's text back exactly
    (\<open>Csv.tokenize_render_csv\<close>); every table read is rectangular
    (\<open>Csv.read_csv_rectangular\<close>); leading index fields are dropped as if they were
    not there (\<open>Csv.read_csv_implicit_index\<close>), which makes a file with trailing
    commas read with shifted columns (\<open>trailing_comma_read\<close>).
  \<^item> The run: a second run on the files of the first changes nothing
    (\<open>Run.run_script_rerun\<close>); a missing column raises \<open>KeyError\<close> for
    \<open>strategy\<close> first, writing and printing nothing (\<open>Run.run_script_missing_column\<close>),
    which a blank in the header triggers (evaluated in \<open>spaced_header_run\<close>); a file
    with both columns and finite shot counts always runs to the end
    (\<open>Run.run_script_succeeds\<close>).
  \<^item> End to end (\<open>run_script_exact_output\<close>): on every file that loads and whose
    three tested pairs have at least two observations a sample and some spread, the run with
    \<open>student_cdf\<close> raises nothing and prints, per pair, the exact pooled t statistic and
    the textbook p-value \<open>2 (1 - F(|t|))\<close> in the script's formats (\<open>exact_line\<close>).
  \<^item> The spec's worked example: with any distribution function that is the Student
    one at 2 degrees of freedom, the exact text printed (\<open>spec_example_printed\<close>, which
    \<open>student_cdf\<close> satisfies); the means, deviations and the whole run on the spec's file
    are also evaluated (\<open>spec_example_stats\<close>, \<open>spec_example_run\<close>).

  \<^emph>\<open>Not modelled, and why.\<close>
  \<^item> Rounding of float64 arithmetic and signed zero: values are exact reals with the IEEE
    special values (\<open>Float\<close>); the printed digits are those of the exact values.
  \<^item> scipy's numerical routine for \<open>special.stdtr\<close>: the model computes the exact
    function it approximates, by the finite series of Cephes' \<open>|t| < 2\<close> branch for every
    \<open>t\<close>; Cephes' incomplete beta branch for larger \<open>|t|\<close>, its early exit once a term is
    below the machine epsilon and its rounding are not followed, so the p-values agree with
    scipy's only up to float error. Non-integer degrees
    of freedom, which the script never passes, are not modelled.
  \<^item> NaN or infinite \<open>average_shots\<close> values give \<open>Unmodelled\<close> (see \<open>Csv\<close>): the
    samples of the model are lists of finite reals, and carrying the special values
    through numpy, scipy and matplotlib would need every statistic over \<open>flt\<close> samples.
    Options of \<open>read_csv\<close> the script does not pass are not modelled, nor pandas'
    boolean column inference (a column of \<open>True\<close>/\<open>False\<close> cells, which numpy
    averages as 1 and 0): the model treats such a column as non-numeric, an error.
  \<^item> The drawing itself (pixels of the PNG files): a saved image is the description of
    what was drawn.
  \<^item> Lines 1 to 4 only import the libraries.
\<close>

section \<open>Example data\<close>

text \<open>The six rows of the spec's worked example.\<close>

definition spec_example_df :: frame where
  "spec_example_df =
     [\<lparr>strategy = ''Random'', average_shots = 10\<rparr>, \<lparr>strategy = ''Random'', average_shots = 12\<rparr>,
      \<lparr>strategy = ''PDF'', average_shots = 5\<rparr>, \<lparr>strategy = ''PDF'', average_shots = 5\<rparr>,
      \<lparr>strategy = ''Hunt and Target'', average_shots = 3\<rparr>,
      \<lparr>strategy = ''Hunt and Target'', average_shots = 4\<rparr>]"

text \<open>A symmetric distribution function to instantiate the test's \<open>cdf\<close> parameter in
  the witnesses: that of the uniform distribution on \<open>[-1, 1]\<close>.\<close>

definition uniform_cdf :: t_cdf where
  "uniform_cdf k x = max 0 (min 1 ((x + 1) / 2))"

text \<open>The spec's six rows as the file \<^verbatim>\<open>battleship_results.csv\<close> holds them, with its
  header line.\<close>

definition spec_csv :: string where
  "spec_csv = concat (map (\<lambda>l. l @ [CHR 0x0A])
     [''strategy,average_shots'', ''Random,10'', ''Random,12'', ''PDF,5'', ''PDF,5'',
      ''Hunt and Target,3'', ''Hunt and Target,4''])"

text \<open>The same file with a blank after the comma of the header.\<close>

definition spaced_header_csv :: string where
  "spaced_header_csv = concat (map (\<lambda>l. l @ [CHR 0x0A]) [''strategy, average_shots'', ''Random,10''])"

text \<open>The specification of one printed result line: the exact pooled t statistic and
  the two-sided p-value \<open>2 (1 - F(|t|))\<close> of the Student distribution, in the script's
  formats; and when a pair of samples can be tested.\<close>

definition exact_line :: "string \<Rightarrow> sample \<Rightarrow> sample \<Rightarrow> string" where
  "exact_line name a b =
     name @ '': t='' @ format_f 4 (Fin (t_stat a b)) @ '', p='' @
     format_e 4 (Fin (2 * (1 - student_t_cdf (length a + length b - 2) \<bar>t_stat a b\<bar>)))"

definition pair_testable :: "sample \<Rightarrow> sample \<Rightarrow> bool" where
  "pair_testable a b \<longleftrightarrow> 2 \<le> length a \<and> 2 \<le> length b \<and> 0 < pooled_var a b"

text \<open>A results file whose data records carry an index field the header does not name,
  and the same file without it.\<close>

definition indexed_csv :: string where
  "indexed_csv = ''strategy,average_shots'' @ [CHR 0x0A] @ ''0,Random,10'' @ [CHR 0x0A] @ ''1,PDF,5'' @ [CHR 0x0A]"

definition unindexed_csv :: string where
  "unindexed_csv = ''strategy,average_shots'' @ [CHR 0x0A] @ ''Random,10'' @ [CHR 0x0A] @ ''PDF,5'' @ [CHR 0x0A]"

section \<open>Properties of the script\<close>

lemma spec_example_partition:
  "partition_results spec_example_df =
     \<lparr>random_results = [10, 12], pdf_results = [5, 5], hunt_target_results = [3, 4]\<rparr>"
  by (simp add: spec_example_df_def partition_results_def)

lemma spec_example_samples:
  "mean [10, 12] = (11::real)" "sq_dev [10, 12] = 2"
  "mean [5, 5] = (5::real)" "sq_dev [5, 5] = 0"
  "mean [3, 4] = (7 / 2::real)" "sq_dev [3, 4] = 1 / 2"
  by (simp_all add: sq_dev_def mean_def power2_eq_square)

lemma sqrt_example_values:
  "sqrt (1 / 4) = (1 / 2::real)" "15 / (2 * sqrt (5 / 4)) = 3 * sqrt (5::real)"
proof -
  show "sqrt (1 / 4) = (1 / 2::real)" by (rule sqrt_eq_numeral_frac) simp_all
  have "sqrt 4 = (2::real)" by (rule sqrt_eq_numeral_frac) simp_all
  then have "sqrt (5 / 4) = sqrt 5 / (2::real)" by (simp add: real_sqrt_divide)
  moreover have "sqrt 5 * sqrt 5 = (5::real)" by simp
  ultimately show "15 / (2 * sqrt (5 / 4)) = 3 * sqrt (5::real)" by (simp add: field_simps)
qed

text \<open>On the spec's six rows the bar heights are 11, 5 and 3.5 and the error bars
  (population standard deviations) 1, 0 and 0.5.\<close>

theorem spec_example_stats:
  "means (partition_results spec_example_df) = [Fin 11, Fin 5, Fin (7 / 2)] \<and>
   stds (partition_results spec_example_df) = [Fin 1, Fin 0, Fin (1 / 2)]"
  by (simp add: spec_example_partition means_def stds_def np_mean_eq np_std_eq pstd_def
      pvar_def spec_example_samples sqrt_example_values)

lemma spec_example_ttest_values:
  "script_ttests cdf (partition_results spec_example_df) =
     [\<lparr>statistic = Fin 6, pvalue = Fin (cdf 2 (- 6) * 2)\<rparr>,
      \<lparr>statistic = Fin (3 * sqrt 5), pvalue = Fin (cdf 2 (- (3 * sqrt 5)) * 2)\<rparr>,
      \<lparr>statistic = Fin 3, pvalue = Fin (cdf 2 (- 3) * 2)\<rparr>]"
proof -
  have t: "t_stat [10, 12] [5, 5] = 6" "t_stat [10, 12] [3, 4] = 3 * sqrt 5" "t_stat [5, 5] [3, 4] = 3"
    by (simp_all add: t_stat_def pooled_var_def spec_example_samples sqrt_example_values)
  have p: "0 < pooled_var [10, 12] [5, 5]" "0 < pooled_var [10, 12] [3, 4]" "0 < pooled_var [5, 5] [3, 4]"
    by (simp_all add: pooled_var_def spec_example_samples)
  have e: "fdiv (fsub (np_mean [10, 12]) (np_mean [5, 5])) (ttest_denom [10, 12] [5, 5]) = Fin 6"
    "fdiv (fsub (np_mean [10, 12]) (np_mean [3, 4])) (ttest_denom [10, 12] [3, 4]) = Fin (3 * sqrt 5)"
    "fdiv (fsub (np_mean [5, 5]) (np_mean [3, 4])) (ttest_denom [5, 5] [3, 4]) = Fin 3"
    using ttest_stat_eq [OF _ _ p(1)] ttest_stat_eq [OF _ _ p(2)] ttest_stat_eq [OF _ _ p(3)]
    by (simp_all only: t) simp_all
  show ?thesis
    using e by (simp add: spec_example_partition script_ttests_def ttest_ind_nonempty
        ttest_finish_Fin t_df_def)
qed

lemma ttest_line_exact:
  "pair_testable a b \<Longrightarrow> ttest_line name (ttest_ind student_cdf a b) = exact_line name a b"
  by (simp add: pair_testable_def ttest_line_def exact_line_def ttest_ind_exact student_cdf_t_df
      student_t_cdf_neg [of _ "\<bar>t_stat a b\<bar>", symmetric] mult.commute del: format_e.simps format_f.simps)

text \<open>C2. End to end: when the file loads and each pair the script tests has two
  samples of at least two observations with a positive pooled variance, the run with
  scipy's Student t distribution raises nothing and prints the header and, for each pair
  in order, its name, the exact pooled t statistic in \<open>.4f\<close> and the textbook two-sided
  p-value \<open>2 (1 - F(|t|))\<close> on \<open>n1 + n2 - 2\<close> degrees of freedom in \<open>.4e\<close>.\<close>

theorem run_script_exact_output:
  assumes "load_frame fs = Inr df" and "r = partition_results df"
    and "pair_testable (random_results r) (pdf_results r)"
    and "pair_testable (random_results r) (hunt_target_results r)"
    and "pair_testable (pdf_results r) (hunt_target_results r)"
  shows "exc (run_script student_cdf fs) = None \<and>
    stdout (run_script student_cdf fs) =
      [''T-test results:'',
       exact_line ''Random vs PDF'' (random_results r) (pdf_results r),
       exact_line ''Random vs Hunt and Target'' (random_results r) (hunt_target_results r),
       exact_line ''PDF vs Hunt and Target'' (pdf_results r) (hunt_target_results r)]"
  using assms by (simp add: run_script_Inr script_output_def print_ttests_def script_ttests_def
      ttest_line_exact del: format_e.simps format_f.simps)

text \<open>C5. A strategy label that no row carries yields an empty sample: its bar height and
  error bar are NaN, and so are the statistic and p-value of both tests it takes part in.
  The script checks none of this.\<close>

theorem missing_label_nan:
  assumes "label \<notin> strategy ` set df"
  shows "np_mean (select_shots df label) = NaN \<and> np_std 0 (select_shots df label) = NaN \<and>
    ttest_ind cdf (select_shots df label) b = \<lparr>statistic = NaN, pvalue = NaN\<rparr> \<and>
    ttest_ind cdf b (select_shots df label) = \<lparr>statistic = NaN, pvalue = NaN\<rparr>"
proof -
  from assms have "select_shots df label = []" by (simp add: select_shots_empty_iff)
  then show ?thesis by (simp add: ttest_ind_def)
qed

lemma sqrt5_printed: "round_half_even (\<bar>3 * sqrt 5\<bar> * 10 ^ 4) = 67082"
proof (rule round_half_even_eqI)
  have "(134163 / 60000) < sqrt (5::real)" by (rule real_less_rsqrt) (simp add: power2_eq_square)
  then show "of_int 67082 - 1 / 2 < \<bar>3 * sqrt 5\<bar> * (10::real) ^ 4" by simp
  have "sqrt (5::real) < 134165 / 60000" by (rule real_less_lsqrt) (simp_all add: power2_eq_square)
  then show "\<bar>3 * sqrt 5\<bar> * (10::real) ^ 4 < of_int 67082 + 1 / 2" by simp
qed

lemma spec_example_t_printed:
  "format_f 4 (Fin 6) = ''6.0000''" "format_f 4 (Fin (3 * sqrt 5)) = ''6.7082''"
  "format_f 4 (Fin 3) = ''3.0000''"
proof -
  have r: "round_half_even 60000 = 60000" "round_half_even 30000 = 30000"
    by (rule round_half_even_eqI, simp, simp)+
  show "format_f 4 (Fin 6) = ''6.0000''" "format_f 4 (Fin 3) = ''3.0000''"
    using r by (simp_all add: print_eval)
  show "format_f 4 (Fin (3 * sqrt 5)) = ''6.7082''"
    by (simp only: format_f.simps sqrt5_printed)
      (simp add: print_eval)
qed

lemma pvalue_third_printed: "format_e 4 (Fin (1 / 3)) = ''3.3333e-01''"
proof -
  have e: "dec_exp \<bar>1 / 3\<bar> = - 1" by (rule dec_exp_eqI) simp_all
  have m: "round_half_even (\<bar>1 / 3\<bar> / 10 powi (- 1 - int 4)) = 33333"
    by (rule round_half_even_eqI) (simp_all add: power_int_minus)
  show ?thesis
    by (simp only: format_e.simps e m Let_def) (simp add: print_eval)
qed

text \<open>On the spec's six rows the script prints the header and the t statistics
  \<open>6.0000\<close>, \<open>6.7082\<close> and \<open>3.0000\<close>, each followed by its p-value in \<open>.4e\<close> format.\<close>

theorem spec_example_output:
  "script_output cdf (partition_results spec_example_df) =
     [''T-test results:'',
      ''Random vs PDF: t=6.0000, p='' @ format_e 4 (Fin (cdf 2 (- 6) * 2)),
      ''Random vs Hunt and Target: t=6.7082, p='' @ format_e 4 (Fin (cdf 2 (- (3 * sqrt 5)) * 2)),
      ''PDF vs Hunt and Target: t=3.0000, p='' @ format_e 4 (Fin (cdf 2 (- 3) * 2))]"
  by (simp add: script_output_def spec_example_ttest_values print_ttests_def ttest_line_def
      spec_example_t_printed del: format_e.simps format_f.simps)

text \<open>Loading the spec's file.\<close>

lemma spec_csv_tokens:
  "tokenize spec_csv = Inr [[''strategy'', ''average_shots''], [''Random'', ''10''], [''Random'', ''12''],
     [''PDF'', ''5''], [''PDF'', ''5''], [''Hunt and Target'', ''3''], [''Hunt and Target'', ''4'']]"
  by (simp add: spec_csv_def tok_eval)

lemma spec_csv_read:
  "read_csv (fs(results_path \<mapsto> TextFile spec_csv)) results_path =
     Inr \<lparr>tbl_header = [''strategy'', ''average_shots''],
          tbl_body = [[''Random'', ''10''], [''Random'', ''12''], [''PDF'', ''5''], [''PDF'', ''5''],
                      [''Hunt and Target'', ''3''], [''Hunt and Target'', ''4'']]\<rparr>"
  by (simp add: read_csv_eval spec_csv_tokens)

lemma spec_csv_numbers:
  "parse_number ''10'' = Some (Fin 10)" "parse_number ''12'' = Some (Fin 12)" "parse_number ''5'' = Some (Fin 5)"
  "parse_number ''3'' = Some (Fin 3)" "parse_number ''4'' = Some (Fin 4)"
  by (simp_all add: parse_number_def na_values_def lower_char_def trim_def is_space_def parse_decimal_def
      is_digit_def digit_val_def digits_val_def Let_def)

lemma spec_csv_frame: "load_frame (fs(results_path \<mapsto> TextFile spec_csv)) = Inr spec_example_df"
  by (simp add: load_frame_def spec_csv_read table_frame_def column_def numeric_values_def spec_csv_numbers
      spec_example_df_def)

text \<open>Run on a file system holding the spec's file, the script raises nothing,
  prints the header and the three result lines, writes the bar chart of the three
  samples' statistics and the box plot of the samples, and leaves every other file,
  the input included, as it was.\<close>

theorem spec_example_run:
  "run_script cdf (fs(results_path \<mapsto> TextFile spec_csv)) =
     \<lparr>files = fs(results_path \<mapsto> TextFile spec_csv,
         ''strategy_comparison.png'' \<mapsto>
           ImageFile (bar_figure \<lparr>random_results = [10, 12], pdf_results = [5, 5], hunt_target_results = [3, 4]\<rparr>),
         ''strategy_distribution.png'' \<mapsto>
           ImageFile (box_figure \<lparr>random_results = [10, 12], pdf_results = [5, 5], hunt_target_results = [3, 4]\<rparr>)),
      stdout = [''T-test results:'',
        ''Random vs PDF: t=6.0000, p='' @ format_e 4 (Fin (cdf 2 (- 6) * 2)),
        ''Random vs Hunt and Target: t=6.7082, p='' @ format_e 4 (Fin (cdf 2 (- (3 * sqrt 5)) * 2)),
        ''PDF vs Hunt and Target: t=3.0000, p='' @ format_e 4 (Fin (cdf 2 (- 3) * 2))],
      exc = None\<rparr>"
  by (simp add: run_script_Inr spec_csv_frame script_output_def
      spec_example_ttest_values print_ttests_def ttest_line_def spec_example_t_printed
      del: format_e.simps format_f.simps) (simp only: spec_example_partition)

text \<open>A header written with a blank after the comma names the column
  \<open>' average_shots'\<close>: the script raises \<open>KeyError: 'average_shots'\<close>, prints
  nothing and writes no file.\<close>

theorem spaced_header_run:
  "run_script cdf (fs(results_path \<mapsto> TextFile spaced_header_csv)) =
     \<lparr>files = fs(results_path \<mapsto> TextFile spaced_header_csv), stdout = [],
      exc = Some (KeyError ''average_shots'')\<rparr>"
proof -
  have "tokenize spaced_header_csv = Inr [[''strategy'', '' average_shots''], [''Random'', ''10'']]"
    by (simp add: spaced_header_csv_def tok_eval)
  then have "load_frame (fs(results_path \<mapsto> TextFile spaced_header_csv)) = Inl (KeyError ''average_shots'')"
    by (simp add: load_frame_def read_csv_eval table_frame_def column_def)
  then show ?thesis by (rule run_script_Inl)
qed

text \<open>The p-values of the spec's example for 2 degrees of freedom, printed.\<close>

lemma sqrt_bounds:
  "6164414 / 10 ^ 6 \<le> sqrt (38::real)" "sqrt (38::real) \<le> 61644141 / 10 ^ 7"
  "22360679 / 10 ^ 7 \<le> sqrt (5::real)" "sqrt (5::real) \<le> 2236068 / 10 ^ 6"
  "68556546 / 10 ^ 7 \<le> sqrt (47::real)" "sqrt (47::real) \<le> 68556547 / 10 ^ 7"
  "33166247 / 10 ^ 7 \<le> sqrt (11::real)" "sqrt (11::real) \<le> 33166248 / 10 ^ 7"
  by (rule real_le_rsqrt real_le_lsqrt; simp add: power2_eq_square)+

lemma printed_pvalues:
  "format_e 4 (Fin (1 - 6 / sqrt 38)) = ''2.6671e-02''"
  "format_e 4 (Fin (1 - 3 * sqrt 5 / sqrt 47)) = ''2.1508e-02''"
  "format_e 4 (Fin (1 - 3 / sqrt 11)) = ''9.5466e-02''"
proof -
  have "1 - 6 / (6164414 / 10 ^ 6) \<le> 1 - 6 / sqrt (38::real)" "1 - 6 / sqrt (38::real) \<le> 1 - 6 / (61644141 / 10 ^ 7)"
    using sqrt_bounds(1,2)
    by (intro one_minus_div_bounds [where bl = "6164414 / 10 ^ 6" and bu = "61644141 / 10 ^ 7" and al = 6 and au = 6];
        simp)+
  then have h26671: "format_e 4 (Fin (1 - 6 / sqrt 38)) = point_digits 4 26671 @ exp_str (- 2)"
    by (rule format_e_between) (simp_all add: power_int_minus)
  show "format_e 4 (Fin (1 - 6 / sqrt 38)) = ''2.6671e-02''"
    unfolding h26671 by (simp add: print_eval)
  have "1 - 3 * 2236068 / 10 ^ 6 / (68556546 / 10 ^ 7) \<le> 1 - 3 * sqrt 5 / sqrt (47::real)"
    "1 - 3 * sqrt 5 / sqrt (47::real) \<le> 1 - 3 * 22360679 / 10 ^ 7 / (68556547 / 10 ^ 7)"
    using sqrt_bounds(3-6)
    by (intro one_minus_div_bounds [where bl = "68556546 / 10 ^ 7" and bu = "68556547 / 10 ^ 7"
          and al = "3 * 22360679 / 10 ^ 7" and au = "3 * 2236068 / 10 ^ 6"]; simp)+
  then have h21508: "format_e 4 (Fin (1 - 3 * sqrt 5 / sqrt 47)) = point_digits 4 21508 @ exp_str (- 2)"
    by (rule format_e_between) (simp_all add: power_int_minus)
  show "format_e 4 (Fin (1 - 3 * sqrt 5 / sqrt 47)) = ''2.1508e-02''"
    unfolding h21508 by (simp add: print_eval)
  have "1 - 3 / (33166247 / 10 ^ 7) \<le> 1 - 3 / sqrt (11::real)" "1 - 3 / sqrt (11::real) \<le> 1 - 3 / (33166248 / 10 ^ 7)"
    using sqrt_bounds(7,8)
    by (intro one_minus_div_bounds [where bl = "33166247 / 10 ^ 7" and bu = "33166248 / 10 ^ 7" and al = 3 and au = 3];
        simp)+
  then have h95466: "format_e 4 (Fin (1 - 3 / sqrt 11)) = point_digits 4 95466 @ exp_str (- 2)"
    by (rule format_e_between) (simp_all add: power_int_minus)
  show "format_e 4 (Fin (1 - 3 / sqrt 11)) = ''9.5466e-02''"
    unfolding h95466 by (simp add: print_eval)
qed

lemma student2_pvalue:
  assumes "cdf 2 = (\<lambda>x. 1 / 2 + x / (2 * sqrt (2 + x\<^sup>2)))"
  shows "cdf 2 (- t) * 2 = 1 - t / sqrt (2 + t\<^sup>2)"
proof -
  have "0 < sqrt (2 + t\<^sup>2)" by (simp add: add_pos_nonneg)
  then show ?thesis using assms by (simp add: field_simps)
qed

text \<open>C31. With \<open>stdtr\<close> the Student t distribution function, the script run on the
  spec's file prints exactly
  \<open>Random vs PDF: t=6.0000, p=2.6671e-02\<close>,
  \<open>Random vs Hunt and Target: t=6.7082, p=2.1508e-02\<close> and
  \<open>PDF vs Hunt and Target: t=3.0000, p=9.5466e-02\<close> after its header: all three
  p-values finite, as the spec expects.\<close>

theorem spec_example_printed:
  assumes "cdf 2 = (\<lambda>x. 1 / 2 + x / (2 * sqrt (2 + x\<^sup>2)))"
  shows "stdout (run_script cdf (fs(results_path \<mapsto> TextFile spec_csv))) =
    [''T-test results:'', ''Random vs PDF: t=6.0000, p=2.6671e-02'',
     ''Random vs Hunt and Target: t=6.7082, p=2.1508e-02'', ''PDF vs Hunt and Target: t=3.0000, p=9.5466e-02'']"
proof -
  have sq: "(3 * sqrt 5)\<^sup>2 = (45::real)" by (simp add: power_mult_distrib)
  have p: "cdf 2 (- 6) * 2 = 1 - 6 / sqrt 38" "cdf 2 (- (3 * sqrt 5)) * 2 = 1 - 3 * sqrt 5 / sqrt 47"
    "cdf 2 (- 3) * 2 = 1 - 3 / sqrt 11"
    using student2_pvalue [where cdf = cdf, OF assms, of 6] student2_pvalue [where cdf = cdf, OF assms, of "3 * sqrt 5"]
      student2_pvalue [where cdf = cdf, OF assms, of 3] by (simp_all add: sq)
  show ?thesis
    by (simp add: run_script_Inr spec_csv_frame script_output_def spec_example_ttest_values print_ttests_def
        ttest_line_def spec_example_t_printed p printed_pvalues del: format_e.simps format_f.simps)
qed

text \<open>Box statistics of a sample with one far observation.\<close>

lemma box_example_quartiles:
  "np_percentile [1, 2, 3, 4, 100] 25 = 2" "np_percentile [1, 2, 3, 4, 100] 50 = 3"
  "np_percentile [1, 2, 3, 4, 100] 75 = 4"
  by (simp_all add: np_percentile_def np_lerp_def)

lemma box_example_whiskers:
  "whisker_hi [1, 2, 3, 4, 100] 4 7 = 4" "whisker_lo [1, 2, 3, 4, 100] 2 (- 1) = 1"
  by (simp_all add: whisker_hi_def whisker_lo_def)

text \<open>The box plot does not draw a five-number summary: for the sample
  \<open>[1, 2, 3, 4, 100]\<close> the high whisker ends at 4, not at the maximum 100, which is drawn
  as a flier; the quartiles are 2 and 4 and the median 3.\<close>

theorem spec_box_outlier:
  "boxplot_stats_one default_whis [1, 2, 3, 4, 100] ''Random'' =
     \<lparr>bx_label = ''Random'', bx_mean = Fin 22, bx_med = Fin 3, bx_q1 = Fin 2, bx_q3 = Fin 4,
      bx_iqr = Fin 2, bx_cilo = Fin (3 - 1.57 * 2 / sqrt 5), bx_cihi = Fin (3 + 1.57 * 2 / sqrt 5),
      bx_whislo = Fin 1, bx_whishi = Fin 4, bx_fliers = [100]\<rparr> \<and>
   Max (set [1, 2, 3, 4, 100 :: real]) = 100"
  by (simp add: boxplot_stats_one_def default_whis_def box_example_quartiles box_example_whiskers
      compute_conf_interval_def fliers_of_def np_mean_eq mean_def)

text \<open>With the Student t distribution function for \<open>stdtr\<close>, each of the three
  tests the script prints has a p-value that is NaN or a probability, whatever the table.\<close>

theorem script_ttests_pvalues:
  "list_all (\<lambda>res. pvalue res = NaN \<or> (\<exists>p. pvalue res = Fin p \<and> 0 \<le> p \<and> p \<le> 1))
     (script_ttests student_cdf r)"
proof -
  have c: "is_cdf student_cdf"
    by (simp add: is_cdf_def student_cdf_eq student_t_cdf_mono student_t_cdf_bounds)
  show ?thesis
    using ttest_ind_pvalue_cases [OF c symmetric_student_cdf] by (simp add: script_ttests_def)
qed

text \<open>A data line with a trailing comma has one field more than the header, so pandas
  takes its first field as the index: the \<open>strategy\<close> column holds the shot counts and
  \<open>average_shots\<close> is empty, and no row carries any of the three labels.\<close>

lemma trailing_comma_read:
  "read_csv (fs(results_path \<mapsto> TextFile (''strategy,average_shots'' @ [CHR 0x0A] @ ''Random,10,'' @ [CHR 0x0A])))
     results_path = Inr \<lparr>tbl_header = [''strategy'', ''average_shots''], tbl_body = [[''10'', '''']]\<rparr>"
  by (simp add: read_csv_eval tok_eval)

section \<open>Witnesses\<close>

lemma uniform_cdf_is_cdf: "is_cdf uniform_cdf"
  unfolding is_cdf_def uniform_cdf_def mono_def by (auto simp: max_def min_def)

lemma uniform_cdf_symmetric: "symmetric_cdf uniform_cdf"
  unfolding symmetric_cdf_def uniform_cdf_def by (auto simp: max_def min_def field_simps)

theorem ttest_ind_eq_witness:
  "2 \<le> length [10, 12 :: real] \<and> 2 \<le> length [5, 5 :: real] \<and> 0 < pooled_var [10, 12] [5, 5] \<and>
   ttest_ind uniform_cdf [10, 12] [5, 5] = \<lparr>statistic = Fin 6, pvalue = Fin (uniform_cdf 2 (- 6) * 2)\<rparr>"
proof -
  have p: "0 < pooled_var [10, 12] [5, 5]" by (simp add: pooled_var_def spec_example_samples)
  have "t_stat [10, 12] [5, 5] = 6" by (simp add: t_stat_def pooled_var_def spec_example_samples)
  with p TTest.ttest_ind_eq [of "[10, 12]" "[5, 5]" uniform_cdf] show ?thesis by (simp add: t_df_def)
qed

theorem np_mean_std_eq_witness:
  "[10, 12 :: real] \<noteq> [] \<and> np_mean [10, 12] = Fin 11 \<and> np_std 0 [10, 12] = Fin 1"
  using Numpy.np_mean_std_eq [of "[10, 12]"]
  by (simp add: spec_example_samples pstd_def pvar_def)

theorem missing_label_nan_witness:
  "''PDF'' \<notin> strategy ` set [\<lparr>strategy = ''Random'', average_shots = 10\<rparr>] \<and>
   np_mean (pdf_results (partition_results [\<lparr>strategy = ''Random'', average_shots = 10\<rparr>])) = NaN \<and>
   ttest_ind uniform_cdf [10] (pdf_results (partition_results [\<lparr>strategy = ''Random'', average_shots = 10\<rparr>]))
     = \<lparr>statistic = NaN, pvalue = NaN\<rparr>"
  using missing_label_nan [of "''PDF''" "[\<lparr>strategy = ''Random'', average_shots = 10\<rparr>]" uniform_cdf "[10]"]
  by (simp add: partition_results_def)

theorem ttest_ind_single_witness:
  "2 \<le> length [10, 12 :: real] \<and> 0 < sq_dev [10, 12] \<and>
   ttest_ind uniform_cdf [7] [10, 12] =
     \<lparr>statistic = Fin (- 4 / sqrt 3), pvalue = Fin (uniform_cdf 1 (- (4 / sqrt 3)) * 2)\<rparr> \<and>
   ttest_ind uniform_cdf [7] [8] = \<lparr>statistic = NaN, pvalue = NaN\<rparr>"
proof -
  have s: "sq_dev [10, 12] = (2::real)" "mean [10, 12] = (11::real)" "svar [10, 12] = 2"
    by (simp_all add: sq_dev_def mean_def svar_def)
  have "sqrt (2 * (1 + 1 / 2)) = sqrt (3::real)" by simp
  then show ?thesis
    using TTest.ttest_ind_single [of "[10, 12]" uniform_cdf 7 8] s by (simp add: Let_def)
qed

theorem ttest_ind_zero_var_witness:
  "ttest_ind uniform_cdf (replicate 2 (of_int 5)) (replicate 2 (of_int 3)) = \<lparr>statistic = PInf, pvalue = Fin 0\<rparr> \<and>
   ttest_ind uniform_cdf (replicate 2 (of_int 5)) (replicate 2 (of_int 5)) = \<lparr>statistic = NaN, pvalue = NaN\<rparr>"
  using TTest.ttest_ind_zero_var [of 2 2 5 3 uniform_cdf] TTest.ttest_ind_zero_var [of 2 2 5 5 uniform_cdf]
  by (simp add: inf_of_sign_def)

theorem ttest_ind_same_witness:
  "2 \<le> length [10, 12 :: real] \<and> sq_dev [10, 12] \<noteq> 0 \<and> symmetric_cdf uniform_cdf \<and>
   ttest_ind uniform_cdf [10, 12] [10, 12] = \<lparr>statistic = Fin 0, pvalue = Fin 1\<rparr>"
  using TTest.ttest_ind_same [of "[10, 12]" uniform_cdf] uniform_cdf_symmetric
  by (simp add: spec_example_samples)

theorem ttest_ind_pvalue_range_witness:
  "is_cdf uniform_cdf \<and> symmetric_cdf uniform_cdf \<and>
   (pvalue (ttest_ind uniform_cdf [10, 12] [3, 4]) = NaN \<or>
    (\<exists>p. pvalue (ttest_ind uniform_cdf [10, 12] [3, 4]) = Fin p \<and> 0 \<le> p \<and> p \<le> 1))"
  using TTest.ttest_ind_pvalue_range [OF uniform_cdf_is_cdf uniform_cdf_symmetric, of "[10, 12]" "[3, 4]"]
    uniform_cdf_is_cdf uniform_cdf_symmetric
  by blast

theorem np_std_half_range_witness:
  "[10, 12 :: real] \<noteq> [] \<and> (\<exists>s. np_std 0 [10, 12] = Fin s \<and> 0 \<le> s \<and> s \<le> (12 - 10) / 2)"
  using Numpy.np_std_half_range [of "[10, 12]"] by simp

theorem np_mean_bounds_witness:
  "[10, 12 :: real] \<noteq> [] \<and> (\<exists>m. np_mean [10, 12] = Fin m \<and> 10 \<le> m \<and> m \<le> 12)"
  using Numpy.np_mean_bounds [of "[10, 12]"] by simp

theorem np_std_zero_iff_witness:
  "[5, 5 :: real] \<noteq> [] \<and> np_std 0 [5, 5] = Fin 0 \<and> [10, 12 :: real] \<noteq> [] \<and> np_std 0 [10, 12] \<noteq> Fin 0"
  using Numpy.np_std_zero_iff [of "[5, 5]"] Numpy.np_std_zero_iff [of "[10, 12]"] by simp

theorem figure_block_frame_witness:
  "draws_only [Title ''t'', SaveFig ''a.png''] \<and>
   open_figs (plt_run \<lparr>open_figs = [new_figure (1, 1)], saved = Map.empty\<rparr>
     (Figure (10, 6) # [Title ''t'', SaveFig ''a.png''] @ [Close])) = [new_figure (1, 1)] \<and>
   saved (plt_run \<lparr>open_figs = [new_figure (1, 1)], saved = Map.empty\<rparr>
     (Figure (10, 6) # [Title ''t'', SaveFig ''a.png''] @ [Close]))
   = saved (plt_run \<lparr>open_figs = [], saved = Map.empty\<rparr>
     (Figure (10, 6) # [Title ''t'', SaveFig ''a.png''] @ [Close]))"
  using Pyplot.figure_block_frame [of "[Title ''t'', SaveFig ''a.png'']"
      "\<lparr>open_figs = [new_figure (1, 1)], saved = Map.empty\<rparr>" "(10, 6)"]
  by (simp del: plt_run_Cons)


theorem np_percentile_median_witness:
  "[1, 2, 3, 4, 100 :: real] \<noteq> [] \<and> np_percentile [1, 2, 3, 4, 100] 50 = 3 \<and>
   [3, 1, 4, 2 :: real] \<noteq> [] \<and> np_percentile [3, 1, 4, 2] 50 = 5 / 2"
  using Boxplot.np_percentile_median [of "[1, 2, 3, 4, 100]"] Boxplot.np_percentile_median [of "[3, 1, 4, 2]"]
  by simp

theorem boxplot_box_ordered_witness:
  "[1, 2, 3, 4, 100 :: real] \<noteq> [] \<and>
   (let r = boxplot_stats_one default_whis [1, 2, 3, 4, 100] ''Random''
    in fle (Fin (Min (set [1, 2, 3, 4, 100]))) (bx_whislo r) \<and> fle (bx_whislo r) (bx_q1 r) \<and>
       fle (bx_q1 r) (bx_med r) \<and> fle (bx_med r) (bx_q3 r) \<and>
       fle (bx_q3 r) (bx_whishi r) \<and> fle (bx_whishi r) (Fin (Max (set [1, 2, 3, 4, 100]))))"
  using Boxplot.boxplot_box_ordered [of "[1, 2, 3, 4, 100]" default_whis "''Random''"] by simp

theorem boxplot_fliers_fences_witness:
  "[1, 2, 3, 4, 100 :: real] \<noteq> [] \<and> 0 \<le> default_whis \<and>
   bx_fliers (boxplot_stats_one default_whis [1, 2, 3, 4, 100] ''Random'') = [100]"
  using Boxplot.boxplot_fliers_fences [of "[1, 2, 3, 4, 100]" default_whis "''Random''"]
  by (simp add: default_whis_def box_example_quartiles)

theorem np_percentile_mset_witness:
  "mset [3, 1, 2 :: real] = mset [1, 2, 3] \<and> np_percentile [3, 1, 2] 25 = np_percentile [1, 2, 3] 25"
  using Boxplot.np_percentile_mset [of "[3, 1, 2]" "[1, 2, 3]" 25] by simp


theorem script_output_short_witness:
  "length (select_shots [\<lparr>strategy = ''Random'', average_shots = 10\<rparr>, \<lparr>strategy = ''PDF'', average_shots = 5\<rparr>,
       \<lparr>strategy = ''Hunt and Target'', average_shots = 3\<rparr>] ''Random'') = 1 \<and>
   script_output uniform_cdf (partition_results
      [\<lparr>strategy = ''Random'', average_shots = 10\<rparr>, \<lparr>strategy = ''PDF'', average_shots = 5\<rparr>,
       \<lparr>strategy = ''Hunt and Target'', average_shots = 3\<rparr>]) =
    [''T-test results:'', ''Random vs PDF: t=nan, p=nan'', ''Random vs Hunt and Target: t=nan, p=nan'',
     ''PDF vs Hunt and Target: t=nan, p=nan'']"
  using Script.script_output_short [of "[\<lparr>strategy = ''Random'', average_shots = 10\<rparr>,
      \<lparr>strategy = ''PDF'', average_shots = 5\<rparr>, \<lparr>strategy = ''Hunt and Target'', average_shots = 3\<rparr>]"
      uniform_cdf]
  by (simp add: strategies_def)

theorem format_e_significant_witness:
  "(1 / 3 :: real) \<noteq> 0 \<and>
   (\<exists>m e. format_e 4 (Fin (1 / 3)) = sign_str (1 / 3) @ point_digits 4 m @ exp_str e \<and>
      10 ^ 4 \<le> m \<and> m < 10 ^ Suc 4)"
  using Format.format_e_significant [of "1 / 3" 4] by simp


theorem tokenize_render_csv_witness:
  "[''a,b'', CHR 0x22 # ''hi'' @ [CHR 0x22, CHR 0x0A]] \<noteq> [] \<and> [''x''] \<noteq> [] \<and>
   tokenize (render_csv [[''a,b'', CHR 0x22 # ''hi'' @ [CHR 0x22, CHR 0x0A]], [''x'']]) =
     Inr [[''a,b'', CHR 0x22 # ''hi'' @ [CHR 0x22, CHR 0x0A]], [''x'']]"
  using Csv.tokenize_render_csv [of "[[''a,b'', CHR 0x22 # ''hi'' @ [CHR 0x22, CHR 0x0A]], [''x'']]"] by simp

theorem read_csv_rectangular_witness:
  "read_csv (Map.empty(results_path \<mapsto> TextFile spec_csv)) results_path =
     Inr \<lparr>tbl_header = [''strategy'', ''average_shots''],
          tbl_body = [[''Random'', ''10''], [''Random'', ''12''], [''PDF'', ''5''], [''PDF'', ''5''],
                      [''Hunt and Target'', ''3''], [''Hunt and Target'', ''4'']]\<rparr> \<and>
   map length [[''Random'', ''10''], [''Random'', ''12''], [''PDF'', ''5''], [''PDF'', ''5''],
        [''Hunt and Target'', ''3''], [''Hunt and Target'', ''4'']] = [2, 2, 2, 2, 2, 2]"
  using Csv.read_csv_rectangular [OF spec_csv_read [of Map.empty]] spec_csv_read [of Map.empty] by simp

theorem run_script_missing_column_witness:
  "read_csv (Map.empty(results_path \<mapsto> TextFile (''strategy,shots'' @ [CHR 0x0A]))) results_path =
     Inr \<lparr>tbl_header = [''strategy'', ''shots''], tbl_body = []\<rparr> \<and>
   ''average_shots'' \<notin> set [''strategy'', ''shots''] \<and>
   run_script uniform_cdf (Map.empty(results_path \<mapsto> TextFile (''strategy,shots'' @ [CHR 0x0A]))) =
     \<lparr>files = Map.empty(results_path \<mapsto> TextFile (''strategy,shots'' @ [CHR 0x0A])), stdout = [],
      exc = Some (KeyError ''average_shots'')\<rparr>"
proof -
  have r: "read_csv (Map.empty(results_path \<mapsto> TextFile (''strategy,shots'' @ [CHR 0x0A]))) results_path =
     Inr \<lparr>tbl_header = [''strategy'', ''shots''], tbl_body = []\<rparr>"
    by (simp add: read_csv_eval tok_eval)
  show ?thesis using Run.run_script_missing_column [OF r, of uniform_cdf] r by simp
qed


theorem spec_example_printed_witness:
  "student_cdf 2 = (\<lambda>x. 1 / 2 + x / (2 * sqrt (2 + x\<^sup>2))) \<and>
   stdout (run_script student_cdf (Map.empty(results_path \<mapsto> TextFile spec_csv))) =
    [''T-test results:'', ''Random vs PDF: t=6.0000, p=2.6671e-02'',
     ''Random vs Hunt and Target: t=6.7082, p=2.1508e-02'', ''PDF vs Hunt and Target: t=3.0000, p=9.5466e-02'']"
proof -
  have c: "student_cdf 2 = (\<lambda>x. 1 / 2 + x / (2 * sqrt (2 + x\<^sup>2)))"
    by (simp add: student_cdf_eq student_t_cdf_2 fun_eq_iff)
  show ?thesis using c spec_example_printed [where cdf = student_cdf, OF c, of Map.empty] by simp
qed


theorem run_script_exact_output_witness:
  "exc (run_script student_cdf (Map.empty(results_path \<mapsto> TextFile spec_csv))) = None \<and>
   stdout (run_script student_cdf (Map.empty(results_path \<mapsto> TextFile spec_csv))) =
     [''T-test results:'', exact_line ''Random vs PDF'' [10, 12] [5, 5],
      exact_line ''Random vs Hunt and Target'' [10, 12] [3, 4], exact_line ''PDF vs Hunt and Target'' [5, 5] [3, 4]]"
proof -
  have t: "pair_testable [10, 12] [5, 5]" "pair_testable [10, 12] [3, 4]" "pair_testable [5, 5] [3, 4]"
    by (simp_all add: pair_testable_def pooled_var_def spec_example_samples)
  show ?thesis
    using run_script_exact_output [OF spec_csv_frame [of Map.empty] refl] t
    by (simp only: spec_example_partition results.simps)
qed

theorem read_csv_implicit_index_witness:
  "read_csv (Map.empty(results_path \<mapsto> TextFile indexed_csv)) results_path =
   read_csv (Map.empty(results_path \<mapsto> TextFile unindexed_csv)) results_path"
proof -
  have t: "tokenize indexed_csv = Inr [[''strategy'', ''average_shots''], [''0'', ''Random'', ''10''], [''1'', ''PDF'', ''5'']]"
    "tokenize unindexed_csv = Inr [[''strategy'', ''average_shots''], [''Random'', ''10''], [''PDF'', ''5'']]"
    by (simp_all add: indexed_csv_def unindexed_csv_def tok_eval)
  show ?thesis
    using Csv.read_csv_implicit_index [of indexed_csv "[''strategy'', ''average_shots'']"
        "[[''0'', ''Random'', ''10''], [''1'', ''PDF'', ''5'']]" unindexed_csv 1 Map.empty results_path] t
    by simp
qed

end
